(* ===== verification/Go_Prelude.thy ===== *)
theory Go_Prelude
  imports Main "HOL-Library.Word"
begin

text \<open>
  The part of the Go language that the modelled sources rely on, shared by every component
  theory.

  \<^item> Machine integers. Go's \<^verbatim>\<open>int\<close> is 32 or 64 bits wide, depending on the target
    (the repository is built for both: it ships a \<^verbatim>\<open>windows_386\<close> asset file), so a Go
    \<^verbatim>\<open>int\<close> is a word \<open>'w word\<close> of any width \<open>'w::len\<close>; \<open>sint\<close> reads its
    value. \<open>int32\<close> and \<open>int64\<close> name the two instances.
  \<^item> Zero values. Every Go type has a zero value, which a declaration without an initialiser,
    a composite literal without a field and a map index without an entry all produce. It is
    the constant \<open>default\<close> of the library's type class of the same name, instantiated here
    for \<^verbatim>\<open>bool\<close> (\<open>False\<close>), the integers (\<open>0\<close>), slices (\<open>[]\<close>, the nil slice),
    optional values (\<open>None\<close>) and functions into a type with a zero value. A Go map
    \<^verbatim>\<open>map[K]V\<close> is a partial function \<open>'k \<rightharpoonup> 'v\<close>, so the last two instances make
    the empty map the zero value of a map type: a nil map reads as an empty one, and the
    modelled sources only read maps.
  \<^item> Map index expressions. \<open>go_index m k\<close> is the expression \<^verbatim>\<open>m[k]\<close>: the entry, or
    the zero value of the element type when there is none. It never fails.
  \<^item> Results. A Go function returning \<^verbatim>\<open>(T, error)\<close> returns \<open>'e + 'a\<close>: \<open>Inl e\<close>
    is \<^verbatim>\<open>(nil, e)\<close> and \<open>Inr x\<close> is \<^verbatim>\<open>(x, nil)\<close>.
  \<^item> Panics. A function that may panic returns an \<open>outcome\<close>: \<open>Panics v\<close> when it
    panics with the value \<open>v\<close>, \<open>Returns x\<close> when it returns \<open>x\<close>.

  The collections \<open>go_zero\<close> (what \<open>default\<close> is at each type) and \<open>go_defs\<close> (the
  unfolding equations of the operations of the components) carry the component proofs.
\<close>

section \<open>Collections of facts\<close>

named_theorems go_zero "the zero value of each Go type of the model"
named_theorems go_defs "defining equations of the modelled Go operations"

section \<open>Types\<close>

type_synonym 'w go_int = "'w word"
type_synonym int32 = "32 word"
type_synonym int64 = "64 word"
type_synonym byte = "8 word"
type_synonym bytes = "byte list"
type_synonym ('e, 'a) result = "'e + 'a"

datatype ('p, 'a) outcome = Panics 'p | Returns 'a

section \<open>Zero values\<close>

instantiation bool :: default
begin
definition default_bool_def [go_zero, simp]: "default = False"
instance ..
end

instantiation word :: (len) default
begin
definition default_word_def [go_zero, simp]: "default = (0 :: 'a word)"
instance ..
end

instantiation list :: (type) default
begin
definition default_list_def [go_zero, simp]: "default = ([] :: 'a list)"
instance ..
end

instantiation option :: (type) default
begin
definition default_option_def [go_zero, simp]: "default = (None :: 'a option)"
instance ..
end

instantiation "fun" :: (type, default) default
begin
definition default_fun_def [go_zero]: "default = (\<lambda>_ :: 'a. default :: 'b)"
instance ..
end

section \<open>Map index expressions\<close>

definition go_index :: "('k \<rightharpoonup> 'v::default) \<Rightarrow> 'k \<Rightarrow> 'v" where
  "go_index m k = (case m k of None \<Rightarrow> default | Some v \<Rightarrow> v)"

section \<open>Lemmas\<close>

subsection \<open>Zero values of maps\<close>

lemma default_map_eq [go_zero, simp]: "(default :: 'k \<rightharpoonup> 'v) = Map.empty"
  by (simp add: default_fun_def)

subsection \<open>Index expressions\<close>

lemma go_index_empty [simp]: "go_index Map.empty k = default"
  by (simp add: go_index_def)

lemma go_index_Some [simp]: "m k = Some v \<Longrightarrow> go_index m k = v"
  by (simp add: go_index_def)

lemma go_index_None [simp]: "m k = None \<Longrightarrow> go_index m k = default"
  by (simp add: go_index_def)

lemma go_index_notin_dom: "k \<notin> dom m \<Longrightarrow> go_index m k = default"
  by (simp add: domIff)

lemma go_index_upd [simp]:
  "go_index (m(k \<mapsto> v)) k' = (if k' = k then v else go_index m k')"
  by (simp add: go_index_def)

lemma go_index_map_le:
  assumes "m \<subseteq>\<^sub>m m'" and "k \<in> dom m"
  shows "go_index m' k = go_index m k"
proof -
  from assms have "m' k = m k" by (simp add: map_le_def)
  then show ?thesis by (simp add: go_index_def)
qed

subsection \<open>Maps from association lists\<close>

lemma map_of_rev_distinct: "distinct (map fst xs) \<Longrightarrow> map_of (rev xs) = map_of xs"
  by (rule map_of_inject_set [THEN iffD2]) (simp_all add: rev_map [symmetric] del: rev_map)

subsection \<open>Results\<close>

lemma result_cases [case_names Err Ok]:
  fixes r :: "('e, 'a) result"
  obtains e where "r = Inl e" | x where "r = Inr x"
  by (cases r) auto

lemma isl_iff_error: "isl r \<longleftrightarrow> (\<exists>e. r = Inl e)"
  by (cases r) auto

lemma not_isl_iff_ok: "\<not> isl r \<longleftrightarrow> (\<exists>x. r = Inr x)"
  by (cases r) auto

subsection \<open>Words as signed integers\<close>

lemma sint_minus_one_neg: "sint (- 1 :: 'w::len word) < 0"
  by simp

lemma nonneg_neq_minus_one: "0 \<le> sint v \<Longrightarrow> v \<noteq> (- 1 :: 'w::len word)"
  by auto

lemma zero_neq_minus_one_word [simp]: "(0 :: 'w::len word) \<noteq> - 1"
  using nonneg_neq_minus_one [of "0 :: 'w word"] by simp

end
