(* ===== verification/Registry.thy ===== *)
theory Registry
  imports Go_Prelude
begin

text \<open>
  The migration registry of \<^verbatim>\<open>src/internal/db/schema/state.go\<close>: the struct
  \<^verbatim>\<open>migrationState\<close>, the package-level table \<^verbatim>\<open>migrationStates\<close> from dialect to
  \<^verbatim>\<open>migrationState\<close>, and the two accessors \<^verbatim>\<open>DevMigration\<close> and
  \<^verbatim>\<open>BinarySchemaVersion\<close>.

  The table is a global variable of the package. The model passes it explicitly: a registry
  is a map \<open>string \<rightharpoonup> migrationState\<close>, \<open>migrationStates\<close> is its initial value (the
  empty map that \<^verbatim>\<open>make\<close> returns), and the accessors take the registry they read.

  The sources under \<^verbatim>\<open>src/\<close> never write the table. Its writer is the migration asset
  loader, which the specification describes as the operation \<open>register\<close>: at most one
  registration per dialect, a second one rejected, the table left as it was. \<open>register\<close>,
  its error, the startup sequence \<open>register_all\<close> and the reachable registries
  \<open>startup\<close> are modelled from that description.

  The lemmas show: the accessors never fail and answer the zero values for a dialect that
  is not registered; a registration is seen by the accessors and by no other dialect; a
  registry only grows during startup, so an answer of the accessors for a registered
  dialect never changes again; \<open>register_all\<close> succeeds exactly on lists of distinct,
  not yet registered dialects and then adds exactly the listed entries.
\<close>

section \<open>Data\<close>

record (overloaded) 'w migrationState =
  devMigration :: bool
  binarySchemaVersion :: "'w go_int"
  upMigrations :: "'w go_int \<rightharpoonup> bytes"
  downMigrations :: "'w go_int \<rightharpoonup> bytes"

instantiation migrationState_ext :: (len, default) default
begin
definition default_migrationState_ext_def [go_zero]:
  "default = \<lparr>devMigration = default, binarySchemaVersion = default,
     upMigrations = default, downMigrations = default, \<dots> = default\<rparr>"
instance ..
end

type_synonym 'w registry = "string \<rightharpoonup> 'w migrationState"

datatype registry_error = AlreadyRegistered string

section \<open>Operations\<close>

definition migrationStates :: "('w::len) registry" where
  "migrationStates = Map.empty"

definition DevMigration :: "('w::len) registry \<Rightarrow> string \<Rightarrow> bool" where
  [go_defs]: "DevMigration reg dialect = devMigration (go_index reg dialect)"

definition BinarySchemaVersion :: "('w::len) registry \<Rightarrow> string \<Rightarrow> 'w go_int" where
  [go_defs]: "BinarySchemaVersion reg dialect = binarySchemaVersion (go_index reg dialect)"

definition register ::
  "string \<Rightarrow> ('w::len) migrationState \<Rightarrow> 'w registry \<Rightarrow> (registry_error, 'w registry) result"
where
  "register dialect st reg =
     (case reg dialect of
        Some _ \<Rightarrow> Inl (AlreadyRegistered dialect)
      | None \<Rightarrow> Inr (reg(dialect \<mapsto> st)))"

fun register_all ::
  "(string \<times> ('w::len) migrationState) list \<Rightarrow> 'w registry \<Rightarrow>
    (registry_error, 'w registry) result"
where
  "register_all [] reg = Inr reg"
| "register_all ((dialect, st) # rest) reg =
     (case register dialect st reg of
        Inl e \<Rightarrow> Inl e
      | Inr reg' \<Rightarrow> register_all rest reg')"

inductive startup :: "('w::len) registry \<Rightarrow> bool" where
  startup_init: "startup migrationStates"
| startup_register: "startup reg \<Longrightarrow> register dialect st reg = Inr reg' \<Longrightarrow> startup reg'"

definition registry_step :: "('w::len) registry \<Rightarrow> 'w registry \<Rightarrow> bool" where
  "registry_step reg reg' \<longleftrightarrow> (\<exists>dialect st. register dialect st reg = Inr reg')"

section \<open>Zero value of a migration state\<close>

lemma default_migrationState_sel [go_zero, simp]:
  "devMigration (default :: ('w::len) migrationState) = False"
  "binarySchemaVersion (default :: ('w::len) migrationState) = 0"
  "upMigrations (default :: ('w::len) migrationState) = Map.empty"
  "downMigrations (default :: ('w::len) migrationState) = Map.empty"
  by (simp_all add: default_migrationState_ext_def)

section \<open>The accessors\<close>

lemma DevMigration_initial [simp]: "DevMigration migrationStates dialect = False"
  by (simp add: go_defs migrationStates_def)

lemma BinarySchemaVersion_initial [simp]: "BinarySchemaVersion migrationStates dialect = 0"
  by (simp add: go_defs migrationStates_def)

lemma accessors_None [simp]:
  assumes "reg dialect = None"
  shows "DevMigration reg dialect = False" and "BinarySchemaVersion reg dialect = 0"
  using assms by (simp_all add: go_defs)

lemma accessors_Some [simp]:
  assumes "reg dialect = Some st"
  shows "DevMigration reg dialect = devMigration st"
    and "BinarySchemaVersion reg dialect = binarySchemaVersion st"
  using assms by (simp_all add: go_defs)

lemma accessors_upd [simp]:
  "DevMigration (reg(dialect \<mapsto> st)) other =
     (if other = dialect then devMigration st else DevMigration reg other)"
  "BinarySchemaVersion (reg(dialect \<mapsto> st)) other =
     (if other = dialect then binarySchemaVersion st else BinarySchemaVersion reg other)"
  by (simp_all add: go_defs)

lemma accessors_map_le:
  assumes "reg \<subseteq>\<^sub>m reg'" and "dialect \<in> dom reg"
  shows "DevMigration reg' dialect = DevMigration reg dialect"
    and "BinarySchemaVersion reg' dialect = BinarySchemaVersion reg dialect"
  using assms by (simp_all add: go_defs go_index_map_le)

lemma DevMigration_registered: "DevMigration reg dialect \<Longrightarrow> dialect \<in> dom reg"
  by (cases "reg dialect") auto

lemma BinarySchemaVersion_registered:
  "BinarySchemaVersion reg dialect \<noteq> 0 \<Longrightarrow> dialect \<in> dom reg"
  by (cases "reg dialect") auto

section \<open>One registration\<close>

lemma register_Inr_iff:
  "register dialect st reg = Inr reg' \<longleftrightarrow> reg dialect = None \<and> reg' = reg(dialect \<mapsto> st)"
  by (auto simp: register_def split: option.splits)

lemma register_Inl_iff:
  "register dialect st reg = Inl e \<longleftrightarrow> dialect \<in> dom reg \<and> e = AlreadyRegistered dialect"
  by (auto simp: register_def split: option.splits)

lemmas register_iffs = register_Inr_iff register_Inl_iff

lemma register_fresh [simp]:
  "reg dialect = None \<Longrightarrow> register dialect st reg = Inr (reg(dialect \<mapsto> st))"
  by (simp add: register_Inr_iff)

lemma register_known [simp]:
  "reg dialect = Some st' \<Longrightarrow> register dialect st reg = Inl (AlreadyRegistered dialect)"
  by (simp add: register_def)

lemma register_map_le:
  assumes "register dialect st reg = Inr reg'"
  shows "reg \<subseteq>\<^sub>m reg'"
  using assms by (auto simp: register_Inr_iff map_le_def)

lemma register_dom:
  assumes "register dialect st reg = Inr reg'"
  shows "dom reg' = insert dialect (dom reg)"
  using assms by (auto simp: register_Inr_iff)

section \<open>The startup sequence\<close>


lemma register_all_map_le:
  assumes "register_all xs reg = Inr reg'"
  shows "reg \<subseteq>\<^sub>m reg'"
  using assms
proof (induction xs reg rule: register_all.induct)
  case (1 reg)
  then show ?case by simp
next
  case (2 dialect st rest reg)
  then obtain reg1 where r1: "register dialect st reg = Inr reg1"
    and rest: "register_all rest reg1 = Inr reg'"
    by (auto split: sum.splits)
  from r1 have "reg \<subseteq>\<^sub>m reg1" by (rule register_map_le)
  also from r1 rest have "reg1 \<subseteq>\<^sub>m reg'" by (rule "2.IH")
  finally show ?case .
qed

lemma register_all_Inr_iff:
  "register_all xs reg = Inr reg' \<longleftrightarrow>
     distinct (map fst xs) \<and> fst ` set xs \<inter> dom reg = {} \<and> reg' = reg ++ map_of (rev xs)"
proof (induction xs reg rule: register_all.induct)
  case (1 reg)
  show ?case by auto
next
  case (2 dialect st rest reg)
  show ?case
  proof (cases "reg dialect")
    case None
    then have fresh: "register dialect st reg = Inr (reg(dialect \<mapsto> st))"
      by (simp add: register_def)
    then have "register_all ((dialect, st) # rest) reg = Inr reg' \<longleftrightarrow>
        register_all rest (reg(dialect \<mapsto> st)) = Inr reg'"
      by simp
    also from "2.IH" [OF fresh]
    have "\<dots> \<longleftrightarrow> distinct (map fst rest) \<and>
        fst ` set rest \<inter> dom (reg(dialect \<mapsto> st)) = {} \<and>
        reg' = reg(dialect \<mapsto> st) ++ map_of (rev rest)" .
    also have "\<dots> \<longleftrightarrow> distinct (map fst ((dialect, st) # rest)) \<and>
        fst ` set ((dialect, st) # rest) \<inter> dom reg = {} \<and>
        reg' = reg ++ map_of (rev ((dialect, st) # rest))"
      using None by (auto simp: domIff)
    finally show ?thesis .
  next
    case (Some st')
    then show ?thesis by (auto simp: domIff)
  qed
qed

section \<open>Reachable registries\<close>

lemma startup_finite_dom:
  assumes "startup reg"
  shows "finite (dom reg)"
  using assms
  by (induction rule: startup.induct) (simp_all add: migrationStates_def register_dom)



lemma registry_step_map_le: "registry_step reg reg' \<Longrightarrow> reg \<subseteq>\<^sub>m reg'"
  by (auto simp: registry_step_def dest: register_map_le)

lemma registry_steps_map_le:
  assumes "registry_step\<^sup>*\<^sup>* reg reg'"
  shows "reg \<subseteq>\<^sub>m reg'"
  using assms
proof (induction rule: rtranclp_induct)
  case base
  show ?case by simp
next
  case (step reg1 reg2)
  from step.IH registry_step_map_le [OF step.hyps(2)] show ?case
    by (rule map_le_trans)
qed

lemma registry_steps_startup:
  assumes "registry_step\<^sup>*\<^sup>* reg reg'" and "startup reg"
  shows "startup reg'"
  using assms
  by (induction rule: rtranclp_induct) (auto simp: registry_step_def intro: startup_register)

lemma registry_stepI: "register dialect st reg = Inr reg' \<Longrightarrow> registry_step reg reg'"
  unfolding registry_step_def by blast

lemma registry_step_once: "registry_step reg reg' \<Longrightarrow> registry_step\<^sup>*\<^sup>* reg reg'"
  by (rule r_into_rtranclp)

section \<open>Properties of the registry\<close>

text \<open>
  C11 (functional). For a dialect that is not registered, \<^verbatim>\<open>DevMigration\<close> answers
  false and \<^verbatim>\<open>BinarySchemaVersion\<close> answers \<open>0\<close>; neither fails.
\<close>

theorem accessors_unregistered:
  assumes "dialect \<notin> dom reg"
  shows "DevMigration reg dialect = False \<and> BinarySchemaVersion reg dialect = 0"
  using assms by (simp add: domIff)

theorem accessors_unregistered_witness:
  "''mysql'' \<notin> dom [''postgres'' \<mapsto>
      \<lparr>devMigration = True, binarySchemaVersion = 42 :: int64,
       upMigrations = Map.empty, downMigrations = Map.empty\<rparr>] \<and>
   DevMigration [''postgres'' \<mapsto>
      \<lparr>devMigration = True, binarySchemaVersion = 42 :: int64,
       upMigrations = Map.empty, downMigrations = Map.empty\<rparr>] ''mysql'' = False \<and>
   BinarySchemaVersion [''postgres'' \<mapsto>
      \<lparr>devMigration = True, binarySchemaVersion = 42 :: int64,
       upMigrations = Map.empty, downMigrations = Map.empty\<rparr>] ''mysql'' = 0"
  using accessors_unregistered [where dialect = "''mysql''" and reg = "[''postgres'' \<mapsto>
      \<lparr>devMigration = True, binarySchemaVersion = 42 :: int64,
       upMigrations = Map.empty, downMigrations = Map.empty\<rparr>]"]
  by simp

text \<open>
  After a registration that succeeds, the accessors answer the
  \<^verbatim>\<open>devMigration\<close> flag and the \<^verbatim>\<open>binarySchemaVersion\<close> of the registered state for
  that dialect.
\<close>

theorem register_then_accessors:
  assumes "register dialect st reg = Inr reg'"
  shows "DevMigration reg' dialect = devMigration st \<and>
    BinarySchemaVersion reg' dialect = binarySchemaVersion st"
  using assms by (auto simp: register_Inr_iff)

theorem register_then_accessors_witness:
  "register ''postgres'' \<lparr>devMigration = True, binarySchemaVersion = 42 :: int64,
       upMigrations = Map.empty, downMigrations = Map.empty\<rparr> migrationStates =
     Inr [''postgres'' \<mapsto> \<lparr>devMigration = True, binarySchemaVersion = 42,
       upMigrations = Map.empty, downMigrations = Map.empty\<rparr>] \<and>
   DevMigration [''postgres'' \<mapsto> \<lparr>devMigration = True, binarySchemaVersion = 42 :: int64,
       upMigrations = Map.empty, downMigrations = Map.empty\<rparr>] ''postgres'' = True \<and>
   BinarySchemaVersion [''postgres'' \<mapsto> \<lparr>devMigration = True,
       binarySchemaVersion = 42 :: int64,
       upMigrations = Map.empty, downMigrations = Map.empty\<rparr>] ''postgres'' = 42"
proof -
  have "register ''postgres'' \<lparr>devMigration = True, binarySchemaVersion = 42 :: int64,
       upMigrations = Map.empty, downMigrations = Map.empty\<rparr> migrationStates =
     Inr [''postgres'' \<mapsto> \<lparr>devMigration = True, binarySchemaVersion = 42,
       upMigrations = Map.empty, downMigrations = Map.empty\<rparr>]"
    by (simp add: migrationStates_def)
  from this register_then_accessors [OF this] show ?thesis by simp
qed

text \<open>
  C13 (error). A second registration of a dialect is rejected with
  \<open>AlreadyRegistered\<close>, whatever state it offers, and the accessors go on answering the
  state registered first.
\<close>

theorem register_twice_rejected:
  assumes "register dialect st reg = Inr reg'"
  shows "register dialect st' reg' = Inl (AlreadyRegistered dialect) \<and>
    DevMigration reg' dialect = devMigration st \<and>
    BinarySchemaVersion reg' dialect = binarySchemaVersion st"
  using assms by (auto simp: register_Inr_iff)

theorem register_twice_rejected_witness:
  "register ''postgres'' \<lparr>devMigration = False, binarySchemaVersion = 1 :: int64,
       upMigrations = Map.empty, downMigrations = Map.empty\<rparr>
     [''postgres'' \<mapsto> \<lparr>devMigration = True, binarySchemaVersion = 42 :: int64,
       upMigrations = Map.empty, downMigrations = Map.empty\<rparr>] =
     Inl (AlreadyRegistered ''postgres'')"
proof -
  have "register ''postgres'' \<lparr>devMigration = True, binarySchemaVersion = 42 :: int64,
       upMigrations = Map.empty, downMigrations = Map.empty\<rparr> Map.empty =
     Inr [''postgres'' \<mapsto> \<lparr>devMigration = True, binarySchemaVersion = 42,
       upMigrations = Map.empty, downMigrations = Map.empty\<rparr>]"
    by simp
  from register_twice_rejected [OF this] show ?thesis by simp
qed

text \<open>
  A registration changes the answers of the accessors for no other dialect.
\<close>

theorem register_frame:
  assumes "register dialect st reg = Inr reg'" and "other \<noteq> dialect"
  shows "DevMigration reg' other = DevMigration reg other \<and>
    BinarySchemaVersion reg' other = BinarySchemaVersion reg other"
  using assms by (auto simp: register_Inr_iff)

theorem register_frame_witness:
  "DevMigration ([''postgres'' \<mapsto> \<lparr>devMigration = True, binarySchemaVersion = 42 :: int64,
       upMigrations = Map.empty, downMigrations = Map.empty\<rparr>](''mysql'' \<mapsto> default))
     ''postgres'' =
   DevMigration [''postgres'' \<mapsto> \<lparr>devMigration = True, binarySchemaVersion = 42 :: int64,
       upMigrations = Map.empty, downMigrations = Map.empty\<rparr>] ''postgres''"
proof -
  have "register ''mysql'' default
      [''postgres'' \<mapsto> \<lparr>devMigration = True, binarySchemaVersion = 42 :: int64,
       upMigrations = Map.empty, downMigrations = Map.empty\<rparr>] =
     Inr ([''postgres'' \<mapsto> \<lparr>devMigration = True, binarySchemaVersion = 42 :: int64,
       upMigrations = Map.empty, downMigrations = Map.empty\<rparr>](''mysql'' \<mapsto> default))"
    by simp
  from register_frame [OF this, of "''postgres''"] show ?thesis by simp
qed

text \<open>
  C15 (invariant). Once a dialect is registered, no sequence of further registrations
  changes what \<^verbatim>\<open>DevMigration\<close> and \<^verbatim>\<open>BinarySchemaVersion\<close> answer for it. In
  particular a development flag that is set is never cleared.
\<close>

theorem registered_answers_fixed:
  assumes "registry_step\<^sup>*\<^sup>* reg reg'" and "dialect \<in> dom reg"
  shows "DevMigration reg' dialect = DevMigration reg dialect \<and>
    BinarySchemaVersion reg' dialect = BinarySchemaVersion reg dialect"
proof -
  from assms(1) have "reg \<subseteq>\<^sub>m reg'" by (rule registry_steps_map_le)
  from accessors_map_le [OF this assms(2)] show ?thesis by simp
qed

theorem registered_answers_fixed_witness:
  "registry_step\<^sup>*\<^sup>*
     [''postgres'' \<mapsto> \<lparr>devMigration = True, binarySchemaVersion = 42 :: int64,
       upMigrations = Map.empty, downMigrations = Map.empty\<rparr>]
     ([''postgres'' \<mapsto> \<lparr>devMigration = True, binarySchemaVersion = 42 :: int64,
       upMigrations = Map.empty, downMigrations = Map.empty\<rparr>](''mysql'' \<mapsto> default)) \<and>
   DevMigration ([''postgres'' \<mapsto> \<lparr>devMigration = True, binarySchemaVersion = 42 :: int64,
       upMigrations = Map.empty, downMigrations = Map.empty\<rparr>](''mysql'' \<mapsto> default))
     ''postgres'' = True"
proof -
  have "register ''mysql'' default
     [''postgres'' \<mapsto> \<lparr>devMigration = True, binarySchemaVersion = 42 :: int64,
       upMigrations = Map.empty, downMigrations = Map.empty\<rparr>] =
     Inr ([''postgres'' \<mapsto> \<lparr>devMigration = True, binarySchemaVersion = 42 :: int64,
       upMigrations = Map.empty, downMigrations = Map.empty\<rparr>](''mysql'' \<mapsto> default))"
    by simp
  then have "registry_step
     [''postgres'' \<mapsto> \<lparr>devMigration = True, binarySchemaVersion = 42 :: int64,
       upMigrations = Map.empty, downMigrations = Map.empty\<rparr>]
     ([''postgres'' \<mapsto> \<lparr>devMigration = True, binarySchemaVersion = 42 :: int64,
       upMigrations = Map.empty, downMigrations = Map.empty\<rparr>](''mysql'' \<mapsto> default))"
    by (rule registry_stepI)
  then have steps: "registry_step\<^sup>*\<^sup>*
     [''postgres'' \<mapsto> \<lparr>devMigration = True, binarySchemaVersion = 42 :: int64,
       upMigrations = Map.empty, downMigrations = Map.empty\<rparr>]
     ([''postgres'' \<mapsto> \<lparr>devMigration = True, binarySchemaVersion = 42 :: int64,
       upMigrations = Map.empty, downMigrations = Map.empty\<rparr>](''mysql'' \<mapsto> default))"
    by (rule registry_step_once)
  from steps registered_answers_fixed [OF steps, where dialect = "''postgres''"]
  show ?thesis by simp
qed

text \<open>
  C16 (functional). Starting from the empty table, the startup sequence succeeds exactly
  when the listed dialects are pairwise distinct, and the table it builds holds exactly the
  listed states.
\<close>

theorem register_all_iff:
  "register_all xs migrationStates = Inr reg \<longleftrightarrow> distinct (map fst xs) \<and> reg = map_of xs"
  by (auto simp: register_all_Inr_iff migrationStates_def map_of_rev_distinct)


end
