(* ===== verification/Driver.thy ===== *)
theory Driver
  imports Go_Prelude
begin

text \<open>
  The interface between the state reconciler and the database driver.

  From \<^verbatim>\<open>src/internal/db/schema/state.go\<close> comes the constant \<^verbatim>\<open>nilVersion\<close>, the
  reserved integer by which a driver says that no version is recorded. The driver itself is
  not among the sources: \<^verbatim>\<open>Manager.State\<close> only calls its method \<^verbatim>\<open>Version(ctx)\<close>,
  which returns \<^verbatim>\<open>(version int, dirty bool, err error)\<close>. The rest of this theory is
  modelled from the contract the specification gives for that method:

  \<^item> a driver is a function from the context and the state of the database to the triple
    it returns and the state it leaves; the context type \<open>'c\<close>, the database \<open>'db\<close> and
    the errors \<open>'e\<close> are parameters, because the caller only passes them through;
  \<^item> \<open>read_only\<close> and \<open>honours_context\<close> are the two promises of the contract that the
    properties of the reconciler depend on: the probe does not change the database, and a
    context that is already done makes the probe fail with the context's error;
  \<^item> the call of a driver may block on the network or the disk. A \<open>blocking_driver\<close>
    returns \<open>None\<close> when its call never returns; \<open>may_block\<close> makes one of a driver and
    of the condition under which it responds; \<open>answers_when_done\<close> is the promise that a
    call with a context that is done returns, with the context's error;
  \<^item> a Go context is modelled by what \<^verbatim>\<open>ctx.Err()\<close> returns: \<open>None\<close> while it is
    active, else \<open>Canceled\<close> or \<open>DeadlineExceeded\<close>;
  \<^item> \<open>store_Version\<close> is a reference driver over an in-memory \<open>store\<close>, the fake
    driver the specification proposes for tests: it keeps at most one version row, and
    answers the sentinel when there is none. \<open>encode_row\<close> is how it spells a row (or its
    absence) as the pair of an integer and a flag.

  The lemmas show that the sentinel is \<open>-1\<close> at every width and differs from every
  version that is not negative, and that the reference driver keeps both promises.
\<close>

section \<open>The sentinel\<close>

definition nilVersion :: "('w::len) go_int" where
  "nilVersion = - 1"

section \<open>Drivers\<close>

type_synonym ('w, 'e) version_result = "'w go_int \<times> bool \<times> 'e option"
type_synonym ('c, 'db, 'w, 'e) driver = "'c \<Rightarrow> 'db \<Rightarrow> ('w, 'e) version_result \<times> 'db"

datatype ctx_error = Canceled | DeadlineExceeded

type_synonym go_context = "ctx_error option"

definition read_only :: "('c, 'db, 'w::len, 'e) driver \<Rightarrow> bool" where
  "read_only drv \<longleftrightarrow> (\<forall>ctx db. snd (drv ctx db) = db)"

definition honours_context ::
  "(ctx_error \<Rightarrow> 'e) \<Rightarrow> (go_context, 'db, 'w::len, 'e) driver \<Rightarrow> bool"
where
  "honours_context wrap drv \<longleftrightarrow>
     (\<forall>c db. snd (snd (fst (drv (Some c) db))) = Some (wrap c))"

type_synonym ('c, 'db, 'w, 'e) blocking_driver =
  "'c \<Rightarrow> 'db \<Rightarrow> (('w, 'e) version_result \<times> 'db) option"

definition may_block ::
  "('c \<Rightarrow> 'db \<Rightarrow> bool) \<Rightarrow> ('c, 'db, 'w::len, 'e) driver \<Rightarrow> ('c, 'db, 'w, 'e) blocking_driver"
where
  "may_block responds drv ctx db = (if responds ctx db then Some (drv ctx db) else None)"

definition answers_when_done ::
  "(ctx_error \<Rightarrow> 'e) \<Rightarrow> (go_context, 'db, 'w::len, 'e) blocking_driver \<Rightarrow> bool"
where
  "answers_when_done wrap drv \<longleftrightarrow>
     (\<forall>c db. \<exists>v d db'. drv (Some c) db = Some ((v, d, Some (wrap c)), db'))"

section \<open>A reference driver\<close>

datatype driver_error = ContextDone ctx_error | Unavailable

record (overloaded) 'w store =
  available :: bool
  version_row :: "('w go_int \<times> bool) option"

definition encode_row :: "(('w::len) go_int \<times> bool) option \<Rightarrow> 'w go_int \<times> bool" where
  "encode_row row = (case row of None \<Rightarrow> (nilVersion, False) | Some (v, d) \<Rightarrow> (v, d))"

definition store_Version :: "(go_context, ('w::len) store, 'w, driver_error) driver" where
  "store_Version ctx db =
     (case ctx of
        Some c \<Rightarrow> ((0, False, Some (ContextDone c)), db)
      | None \<Rightarrow>
          if \<not> available db then ((0, False, Some Unavailable), db)
          else (case encode_row (version_row db) of (v, d) \<Rightarrow> ((v, d, None), db)))"

section \<open>Lemmas on the sentinel\<close>

lemma sint_nilVersion [simp]: "sint (nilVersion :: ('w::len) go_int) = - 1"
  by (simp add: nilVersion_def)

lemma nilVersion_neq_0 [simp]:
  "(nilVersion :: ('w::len) go_int) \<noteq> 0" "(0 :: ('w::len) go_int) \<noteq> nilVersion"
  by (simp_all add: nilVersion_def)

lemma nonneg_neq_nilVersion: "0 \<le> sint v \<Longrightarrow> v \<noteq> nilVersion"
  by (auto simp: nilVersion_def)

section \<open>Lemmas on the reference driver\<close>

lemma encode_row_simps [simp]:
  "encode_row None = (nilVersion, False)"
  "encode_row (Some (v, d)) = (v, d)"
  by (simp_all add: encode_row_def)

lemma store_Version_simps [simp]:
  "store_Version (Some c) db = ((0, False, Some (ContextDone c)), db)"
  "\<not> available db \<Longrightarrow> store_Version None db = ((0, False, Some Unavailable), db)"
  "available db \<Longrightarrow>
     store_Version None db = ((fst (encode_row (version_row db)),
       snd (encode_row (version_row db)), None), db)"
  by (simp_all add: store_Version_def split: prod.splits)

lemma store_Version_unchanged [simp]: "snd (store_Version ctx db) = db"
  by (cases ctx; cases "available db") simp_all

lemma read_only_store_Version [simp, intro]: "read_only store_Version"
  by (simp add: read_only_def)

lemma honours_context_store_Version [simp, intro]:
  "honours_context ContextDone store_Version"
  by (simp add: honours_context_def)

lemma read_onlyD: "read_only drv \<Longrightarrow> snd (drv ctx db) = db"
  by (simp add: read_only_def)

lemma honours_contextD:
  assumes "honours_context wrap drv"
  obtains v d db' where "drv (Some c) db = ((v, d, Some (wrap c)), db')"
proof -
  obtain v d e db' where r: "drv (Some c) db = ((v, d, e), db')"
    by (metis prod.exhaust)
  from assms have "snd (snd (fst (drv (Some c) db))) = Some (wrap c)"
    by (simp add: honours_context_def)
  with r have "e = Some (wrap c)" by simp
  with r that show ?thesis by blast
qed

lemma answers_when_doneD:
  assumes "answers_when_done wrap drv"
  obtains v d db' where "drv (Some c) db = Some ((v, d, Some (wrap c)), db')"
  using assms unfolding answers_when_done_def by blast

lemma answers_when_done_may_block:
  assumes "honours_context wrap drv" and "\<And>c db. responds (Some c) db"
  shows "answers_when_done wrap (may_block responds drv)"
  unfolding answers_when_done_def
proof (intro allI)
  fix c db
  from assms(1) obtain v d db' where "drv (Some c) db = ((v, d, Some (wrap c)), db')"
    by (rule honours_contextD)
  with assms(2)
  show "\<exists>v d db'. may_block responds drv (Some c) db = Some ((v, d, Some (wrap c)), db')"
    by (simp add: may_block_def)
qed

section \<open>Properties of the sentinel\<close>

text \<open>
  At every width of \<^verbatim>\<open>int\<close>, \<^verbatim>\<open>nilVersion\<close> is the one integer whose
  signed value is \<open>-1\<close>: no version that is zero or positive, and no other negative one,
  is taken for the sentinel.
\<close>

theorem nilVersion_iff: "v = nilVersion \<longleftrightarrow> sint v = - 1"
proof
  assume "sint v = - 1"
  then have "sint v = sint (nilVersion :: 'a word)" by simp
  then show "v = nilVersion" by (rule signed_word_eqI)
qed simp

end
