(* ===== verification/Schema_State.thy ===== *)
theory Schema_State
  imports Registry Driver
begin

text \<open>
  The state reconciler of \<^verbatim>\<open>src/internal/db/schema/state.go\<close>: the struct
  \<^verbatim>\<open>State\<close> and the method \<^verbatim>\<open>(*Manager).State\<close>, here \<open>Manager_State\<close>.

  \<open>Manager_State reg b ctx db\<close> is one call of the method on the manager \<open>b\<close> with the
  context \<open>ctx\<close>, where \<open>reg\<close> is the value of the package's table \<open>migrationStates\<close> and
  \<open>db\<close> the state of the database behind the driver. It returns what the method returns,
  \<open>Inl err\<close> for \<^verbatim>\<open>(nil, err)\<close> and \<open>Inr s\<close> for \<^verbatim>\<open>(&s, nil)\<close>, paired with the
  state in which the driver's call leaves the database. The body follows the source line
  by line: the composite literal that sets only \<^verbatim>\<open>BinarySchemaVersion\<close> (the other fields
  take their zero values), the call of the driver, the return on an error, the return on the
  sentinel, the three assignments. Of the struct \<^verbatim>\<open>Manager\<close>, which is declared outside
  the sources, the record \<open>Manager\<close> has the two fields the method reads.

  The call of the driver is the one place where the method can wait. \<open>State_call\<close> is the
  method over a driver whose call may never return: it returns \<open>None\<close> when the driver
  does not answer, and what \<open>Manager_State\<close> makes of the answer when it does.

  What the method promises is stated separately. A \<open>schema_status\<close> is what a database can
  be in: not initialised, or at a version that is dirty or not. \<open>observe\<close> reads the
  driver's triple as the contract defines it; \<open>status_of\<close> reads a \<open>State\<close>; \<open>wf_State\<close>
  is the invariant of the struct: a state that is not initialised is not dirty and has version
  \<open>0\<close>, and the version of an initialised one is not the sentinel. The lemmas show that
  \<open>Manager_State\<close> computes \<open>observe\<close> (a functional refinement along \<open>status_of\<close>),
  that every state it returns is well formed, that \<open>status_of\<close> and the binary version
  determine a well-formed state, and how the result depends on the driver: one call, its
  error passed on unchanged, nothing kept between calls.
\<close>

section \<open>Data\<close>

record (overloaded) 'w State =
  InitializationStarted :: bool
  Dirty :: bool
  CurrentSchemaVersion :: "'w go_int"
  BinarySchemaVersion :: "'w go_int"

record (overloaded) ('c, 'db, 'w, 'e) Manager =
  dialect :: string
  driver :: "('c, 'db, 'w, 'e) driver"

datatype 'v schema_status = NotInitialized | AtVersion 'v bool

section \<open>The method\<close>

definition Manager_State ::
  "('w::len) registry \<Rightarrow> ('c, 'db, 'w, 'e) Manager \<Rightarrow> 'c \<Rightarrow> 'db \<Rightarrow>
    ('e, 'w State) result \<times> 'db"
where
  "Manager_State reg b ctx db =
     (let dbS = \<lparr>InitializationStarted = default, Dirty = default,
                 CurrentSchemaVersion = default,
                 BinarySchemaVersion = Registry.BinarySchemaVersion reg (dialect b)\<rparr>;
          ((v, dirty, err), db') = driver b ctx db
      in case err of
           Some e \<Rightarrow> (Inl e, db')
         | None \<Rightarrow>
             if v = nilVersion then (Inr dbS, db')
             else (Inr (dbS\<lparr>InitializationStarted := True,
                            CurrentSchemaVersion := v,
                            Dirty := dirty\<rparr>), db'))"

definition State_call ::
  "('w::len) registry \<Rightarrow> string \<Rightarrow> ('c, 'db, 'w, 'e) blocking_driver \<Rightarrow> 'c \<Rightarrow> 'db \<Rightarrow>
    (('e, 'w State) result \<times> 'db) option"
where
  "State_call reg name drv ctx db =
     (case drv ctx db of
        None \<Rightarrow> None
      | Some answer \<Rightarrow>
          Some (Manager_State reg \<lparr>dialect = name, driver = (\<lambda>_ _. answer)\<rparr> ctx db))"

section \<open>What the method promises\<close>

definition observe :: "(('w::len), 'e) version_result \<Rightarrow> ('e, 'w go_int schema_status) result" where
  "observe r =
     (case r of
        (v, dirty, Some e) \<Rightarrow> Inl e
      | (v, dirty, None) \<Rightarrow> if v = nilVersion then Inr NotInitialized else Inr (AtVersion v dirty))"

definition status_of :: "('w::len) State \<Rightarrow> 'w go_int schema_status" where
  "status_of s =
     (if InitializationStarted s then AtVersion (CurrentSchemaVersion s) (Dirty s)
      else NotInitialized)"

definition wf_State :: "('w::len) State \<Rightarrow> bool" where
  "wf_State s =
     (if InitializationStarted s then CurrentSchemaVersion s \<noteq> nilVersion
      else \<not> Dirty s \<and> CurrentSchemaVersion s = 0)"

definition state_of :: "('w::len) go_int \<Rightarrow> 'w go_int schema_status \<Rightarrow> 'w State" where
  "state_of n st =
     (case st of
        NotInitialized \<Rightarrow>
          \<lparr>InitializationStarted = False, Dirty = False, CurrentSchemaVersion = 0,
           BinarySchemaVersion = n\<rparr>
      | AtVersion v d \<Rightarrow>
          \<lparr>InitializationStarted = True, Dirty = d, CurrentSchemaVersion = v,
           BinarySchemaVersion = n\<rparr>)"

section \<open>The three ways out of the method\<close>

lemma Manager_State_error:
  assumes "driver b ctx db = ((v, dirty, Some e), db')"
  shows "Manager_State reg b ctx db = (Inl e, db')"
  using assms by (simp add: Manager_State_def)

lemma Manager_State_sentinel:
  assumes "driver b ctx db = ((nilVersion, dirty, None), db')"
  shows "Manager_State reg b ctx db =
    (Inr \<lparr>InitializationStarted = False, Dirty = False, CurrentSchemaVersion = 0,
          BinarySchemaVersion = Registry.BinarySchemaVersion reg (dialect b)\<rparr>, db')"
  using assms by (simp add: Manager_State_def)

lemma Manager_State_version:
  assumes "driver b ctx db = ((v, dirty, None), db')" and "v \<noteq> nilVersion"
  shows "Manager_State reg b ctx db =
    (Inr \<lparr>InitializationStarted = True, Dirty = dirty, CurrentSchemaVersion = v,
          BinarySchemaVersion = Registry.BinarySchemaVersion reg (dialect b)\<rparr>, db')"
  using assms by (simp add: Manager_State_def)

lemmas Manager_State_simps = Manager_State_error Manager_State_sentinel Manager_State_version

lemma driver_answer_cases [case_names error sentinel version]:
  fixes r :: "(('w::len), 'e) version_result \<times> 'db"
  obtains v dirty e db' where "r = ((v, dirty, Some e), db')"
  | dirty db' where "r = ((nilVersion, dirty, None), db')"
  | v dirty db' where "r = ((v, dirty, None), db')" and "v \<noteq> nilVersion"
proof -
  obtain v dirty err db' where r: "r = ((v, dirty, err), db')"
    by (metis prod.exhaust)
  show ?thesis
  proof (cases err)
    case None
    with r that(2,3) show ?thesis by (cases "v = nilVersion") auto
  next
    case (Some e)
    with r that(1) show ?thesis by auto
  qed
qed

lemma Manager_State_eq:
  "Manager_State reg b ctx db =
     (map_sum id (state_of (Registry.BinarySchemaVersion reg (dialect b)))
        (observe (fst (driver b ctx db))),
      snd (driver b ctx db))"
  by (cases "driver b ctx db" rule: driver_answer_cases)
    (simp_all add: Manager_State_simps observe_def state_of_def)

lemma snd_Manager_State [simp]: "snd (Manager_State reg b ctx db) = snd (driver b ctx db)"
  by (simp add: Manager_State_eq)

section \<open>States and their status\<close>

lemma status_of_state_of [simp]: "status_of (state_of n st) = st"
  by (cases st) (simp_all add: status_of_def state_of_def)

lemma BinarySchemaVersion_state_of [simp]: "BinarySchemaVersion (state_of n st) = n"
  by (cases st) (simp_all add: state_of_def)

lemma wf_state_of:
  "wf_State (state_of n st) \<longleftrightarrow> (\<forall>d. st \<noteq> AtVersion nilVersion d)"
  by (cases st) (auto simp: wf_State_def state_of_def)

lemma state_of_status_of:
  assumes "wf_State s"
  shows "state_of (BinarySchemaVersion s) (status_of s) = s"
  using assms by (cases s) (auto simp: wf_State_def state_of_def status_of_def)

lemma observe_not_sentinel: "observe r \<noteq> Inr (AtVersion nilVersion d)"
  by (auto simp: observe_def split: prod.splits option.splits)

lemma observe_Inl_iff: "observe r = Inl e \<longleftrightarrow> snd (snd r) = Some e"
  by (auto simp: observe_def split: prod.splits option.splits)

section \<open>Results of the method\<close>

lemma Manager_State_Inr_iff:
  "fst (Manager_State reg b ctx db) = Inr s \<longleftrightarrow>
     (\<exists>st. observe (fst (driver b ctx db)) = Inr st \<and>
           s = state_of (Registry.BinarySchemaVersion reg (dialect b)) st)"
  by (cases "observe (fst (driver b ctx db))") (auto simp: Manager_State_eq)

lemma Manager_State_Inl_iff:
  "fst (Manager_State reg b ctx db) = Inl e \<longleftrightarrow> observe (fst (driver b ctx db)) = Inl e"
  by (cases "observe (fst (driver b ctx db))") (auto simp: Manager_State_eq)

section \<open>Calls that may block\<close>

lemma State_call_None [simp]: "drv ctx db = None \<Longrightarrow> State_call reg name drv ctx db = None"
  by (simp add: State_call_def)

lemma State_call_Some:
  "drv ctx db = Some (r, db') \<Longrightarrow>
     State_call reg name drv ctx db =
       Some (map_sum id (state_of (Registry.BinarySchemaVersion reg name)) (observe r), db')"
  by (simp add: State_call_def Manager_State_eq)

lemma State_call_total:
  "State_call reg (dialect b) (\<lambda>ctx db. Some (driver b ctx db)) ctx db =
     Some (Manager_State reg b ctx db)"
  by (cases "driver b ctx db") (simp add: State_call_Some Manager_State_eq)

lemma State_call_returns_iff:
  "State_call reg name drv ctx db = None \<longleftrightarrow> drv ctx db = None"
  by (cases "drv ctx db") (auto simp: State_call_def)

section \<open>Properties of the method\<close>

text \<open>
  C1 (refinement). Read through \<open>status_of\<close>, the result of \<^verbatim>\<open>Manager.State\<close> is the
  driver's answer read through \<open>observe\<close>: the driver's error when it reports one, not
  initialised when it answers the sentinel, and else the version and the dirty flag it
  answers. This holds for every registry, manager, context and database.
\<close>

theorem Manager_State_refines:
  "map_sum id status_of (fst (Manager_State reg b ctx db)) = observe (fst (driver b ctx db))"
  by (cases "observe (fst (driver b ctx db))") (simp_all add: Manager_State_eq)

text \<open>
  C2 (invariant). Every state that \<^verbatim>\<open>Manager.State\<close> returns is well formed: when
  \<^verbatim>\<open>InitializationStarted\<close> is false, \<^verbatim>\<open>Dirty\<close> is false and
  \<^verbatim>\<open>CurrentSchemaVersion\<close> is \<open>0\<close>; when it is true, \<^verbatim>\<open>CurrentSchemaVersion\<close> is not
  the sentinel.
\<close>

theorem Manager_State_wf:
  assumes "fst (Manager_State reg b ctx db) = Inr s"
  shows "wf_State s"
proof -
  from assms obtain st where st: "observe (fst (driver b ctx db)) = Inr st"
    and s: "s = state_of (Registry.BinarySchemaVersion reg (dialect b)) st"
    by (auto simp: Manager_State_Inr_iff)
  from st have "\<forall>d. st \<noteq> AtVersion nilVersion d"
    using observe_not_sentinel [of "fst (driver b ctx db)"] by auto
  with s show ?thesis by (simp add: wf_state_of)
qed

theorem Manager_State_wf_witness:
  "fst (Manager_State Map.empty \<lparr>dialect = ''postgres'', driver = store_Version\<rparr> None
      \<lparr>available = True, version_row = Some (7 :: int64, True)\<rparr>) =
     Inr \<lparr>InitializationStarted = True, Dirty = True, CurrentSchemaVersion = 7,
          BinarySchemaVersion = 0\<rparr> \<and>
   wf_State \<lparr>InitializationStarted = True, Dirty = True, CurrentSchemaVersion = 7 :: int64,
          BinarySchemaVersion = 0\<rparr>"
proof -
  have "fst (Manager_State Map.empty \<lparr>dialect = ''postgres'', driver = store_Version\<rparr> None
      \<lparr>available = True, version_row = Some (7 :: int64, True)\<rparr>) =
     Inr \<lparr>InitializationStarted = True, Dirty = True, CurrentSchemaVersion = 7,
          BinarySchemaVersion = 0\<rparr>"
    by (simp add: Manager_State_def nilVersion_def)
  from this Manager_State_wf [OF this] show ?thesis by simp
qed

text \<open>
  C3 (error). \<^verbatim>\<open>Manager.State\<close> fails exactly when the driver's call reports an
  error, and then with that very error: no error is swallowed, wrapped or invented, and
  the version and the flag that come with an error are ignored.
\<close>

theorem Manager_State_error_iff:
  "fst (Manager_State reg b ctx db) = Inl e \<longleftrightarrow> snd (snd (fst (driver b ctx db))) = Some e"
  by (simp add: Manager_State_Inl_iff observe_Inl_iff)

text \<open>
  C4 (functional). When the driver answers the sentinel without an error, the result is
  the state with \<^verbatim>\<open>InitializationStarted\<close> false, \<^verbatim>\<open>Dirty\<close> false,
  \<^verbatim>\<open>CurrentSchemaVersion\<close> zero and the registry's binary version for the manager's
  dialect, whatever dirty flag the driver sent along.
\<close>

theorem State_of_sentinel:
  assumes "fst (driver b ctx db) = (nilVersion, dirty, None)"
  shows "fst (Manager_State reg b ctx db) =
    Inr \<lparr>InitializationStarted = False, Dirty = False, CurrentSchemaVersion = 0,
         BinarySchemaVersion = Registry.BinarySchemaVersion reg (dialect b)\<rparr>"
  using assms by (cases "driver b ctx db") (simp add: Manager_State_sentinel)

theorem State_of_sentinel_witness:
  "fst (Manager_State
      (migrationStates(''postgres'' \<mapsto>
        \<lparr>devMigration = False, binarySchemaVersion = 42 :: int64,
         upMigrations = Map.empty, downMigrations = Map.empty\<rparr>))
      \<lparr>dialect = ''postgres'', driver = (\<lambda>ctx db. ((nilVersion, True, None), db))\<rparr>
      () ()) =
    Inr \<lparr>InitializationStarted = False, Dirty = False, CurrentSchemaVersion = 0,
         BinarySchemaVersion = 42\<rparr>"
  using State_of_sentinel [where
      b = "\<lparr>dialect = ''postgres'',
            driver = (\<lambda>ctx db. ((nilVersion :: int64, True, None), db))\<rparr>"
      and ctx = "()" and db = "()" and dirty = True
      and reg = "migrationStates(''postgres'' \<mapsto>
        \<lparr>devMigration = False, binarySchemaVersion = 42 :: int64,
         upMigrations = Map.empty, downMigrations = Map.empty\<rparr>)"]
  by simp

text \<open>
  C5 (functional). When the driver answers a version other than the sentinel without an
  error, the result is the state with \<^verbatim>\<open>InitializationStarted\<close> true, that version,
  the driver's dirty flag and the registry's binary version for the manager's dialect.
\<close>

theorem State_of_version:
  assumes "fst (driver b ctx db) = (v, dirty, None)" and "v \<noteq> nilVersion"
  shows "fst (Manager_State reg b ctx db) =
    Inr \<lparr>InitializationStarted = True, Dirty = dirty, CurrentSchemaVersion = v,
         BinarySchemaVersion = Registry.BinarySchemaVersion reg (dialect b)\<rparr>"
  using assms by (cases "driver b ctx db") (simp add: Manager_State_version)

theorem State_of_version_witness:
  "fst (Manager_State
      (migrationStates(''postgres'' \<mapsto>
        \<lparr>devMigration = False, binarySchemaVersion = 42 :: int64,
         upMigrations = Map.empty, downMigrations = Map.empty\<rparr>))
      \<lparr>dialect = ''postgres'', driver = store_Version\<rparr> None
      \<lparr>available = True, version_row = Some (7, True)\<rparr>) =
    Inr \<lparr>InitializationStarted = True, Dirty = True, CurrentSchemaVersion = 7,
         BinarySchemaVersion = 42\<rparr>"
  using State_of_version [where b = "\<lparr>dialect = ''postgres'', driver = store_Version\<rparr>"
      and ctx = None and db = "\<lparr>available = True, version_row = Some (7 :: int64, True)\<rparr>"
      and v = 7 and dirty = True
      and reg = "migrationStates(''postgres'' \<mapsto>
        \<lparr>devMigration = False, binarySchemaVersion = 42 :: int64,
         upMigrations = Map.empty, downMigrations = Map.empty\<rparr>)"]
  by (simp add: nilVersion_def)

text \<open>
  C6 (functional). Every state that \<^verbatim>\<open>Manager.State\<close> returns carries the binary
  schema version that the registry holds for the manager's dialect, also when the database
  is not initialised.
\<close>

theorem Manager_State_binary_version:
  assumes "fst (Manager_State reg b ctx db) = Inr s"
  shows "BinarySchemaVersion s = Registry.BinarySchemaVersion reg (dialect b)"
  using assms by (auto simp: Manager_State_Inr_iff)

theorem Manager_State_binary_version_witness:
  "BinarySchemaVersion
     \<lparr>InitializationStarted = False, Dirty = False, CurrentSchemaVersion = 0 :: int64,
      BinarySchemaVersion = 0\<rparr> =
   Registry.BinarySchemaVersion Map.empty ''postgres''"
proof -
  have "fst (Manager_State Map.empty \<lparr>dialect = ''postgres'', driver = store_Version\<rparr> None
      \<lparr>available = True, version_row = None\<rparr>) =
     Inr \<lparr>InitializationStarted = False, Dirty = False, CurrentSchemaVersion = 0 :: int64,
          BinarySchemaVersion = 0\<rparr>"
    by (simp add: Manager_State_def)
  from Manager_State_binary_version [OF this] show ?thesis by simp
qed

text \<open>
  Against a driver whose probe does not change the database, a second call of
  \<^verbatim>\<open>Manager.State\<close> returns what the first returned and leaves the database as the first
  left it: the method keeps nothing between calls.
\<close>

theorem Manager_State_idempotent:
  assumes "read_only (driver b)"
  shows "Manager_State reg b ctx (snd (Manager_State reg b ctx db)) = Manager_State reg b ctx db"
  using assms by (simp add: read_onlyD)

theorem Manager_State_idempotent_witness:
  "Manager_State Map.empty \<lparr>dialect = ''postgres'', driver = store_Version\<rparr> None
     (snd (Manager_State Map.empty \<lparr>dialect = ''postgres'', driver = store_Version\<rparr> None
        \<lparr>available = True, version_row = Some (7 :: int64, False)\<rparr>)) =
   Manager_State Map.empty \<lparr>dialect = ''postgres'', driver = store_Version\<rparr> None
     \<lparr>available = True, version_row = Some (7 :: int64, False)\<rparr>"
  using Manager_State_idempotent [where b = "\<lparr>dialect = ''postgres'', driver = store_Version\<rparr>"
      and reg = Map.empty and ctx = None
      and db = "\<lparr>available = True, version_row = Some (7 :: int64, False)\<rparr>"]
  by simp

text \<open>
  C8 (error). With a driver that fails with the context's error when the context is done,
  \<^verbatim>\<open>Manager.State\<close> called with a cancelled or expired context returns that error and
  no state.
\<close>

theorem Manager_State_cancelled:
  assumes "honours_context wrap (driver b)"
  shows "fst (Manager_State reg b (Some c) db) = Inl (wrap c)"
proof -
  from assms obtain v d db' where "driver b (Some c) db = ((v, d, Some (wrap c)), db')"
    by (rule honours_contextD)
  then show ?thesis by (simp add: Manager_State_error)
qed

theorem Manager_State_cancelled_witness:
  "fst (Manager_State Map.empty \<lparr>dialect = ''postgres'', driver = store_Version\<rparr>
      (Some Canceled) \<lparr>available = True, version_row = Some (7 :: int64, False)\<rparr>) =
   Inl (ContextDone Canceled)"
  using Manager_State_cancelled [where b = "\<lparr>dialect = ''postgres'', driver = store_Version\<rparr>"
      and wrap = ContextDone and c = Canceled and reg = Map.empty
      and db = "\<lparr>available = True, version_row = Some (7 :: int64, False)\<rparr>"]
  by simp

text \<open>
  A well-formed \<^verbatim>\<open>State\<close> holds no more than its status and its binary
  version: two well-formed states with the same status and the same binary version are
  equal, so reading a returned state through \<open>status_of\<close> loses nothing.
\<close>

theorem wf_State_determined:
  assumes "wf_State s" and "wf_State s'"
    and "status_of s = status_of s'" and "BinarySchemaVersion s = BinarySchemaVersion s'"
  shows "s = s'"
proof -
  from assms(1) have "s = state_of (BinarySchemaVersion s) (status_of s)"
    by (simp add: state_of_status_of)
  also from assms(3,4) have "\<dots> = state_of (BinarySchemaVersion s') (status_of s')"
    by simp
  also from assms(2) have "\<dots> = s'" by (rule state_of_status_of)
  finally show ?thesis .
qed

theorem wf_State_determined_witness:
  "state_of (3 :: int64) NotInitialized =
     \<lparr>InitializationStarted = False, Dirty = False, CurrentSchemaVersion = 0,
      BinarySchemaVersion = 3\<rparr>"
  using wf_State_determined [where s = "state_of (3 :: int64) NotInitialized"
      and s' = "\<lparr>InitializationStarted = False, Dirty = False, CurrentSchemaVersion = 0,
        BinarySchemaVersion = 3\<rparr>"]
  by (simp add: wf_State_def status_of_def state_of_def)



end
