(* ===== verification/State_Heap.thy ===== *)
theory State_Heap
  imports Schema_State
begin

text \<open>
  The method \<^verbatim>\<open>(*Manager).State\<close> of \<^verbatim>\<open>src/internal/db/schema/state.go\<close> with the
  objects it creates. The method declares a variable \<^verbatim>\<open>dbS\<close> of type \<^verbatim>\<open>State\<close>,
  assigns to its fields and returns its address: the variable lives on the heap, and what
  the caller gets is a pointer. \<open>Manager_State\<close> of theory \<open>Schema_State\<close> returns the
  value of the struct; this theory keeps the pointer, to show that no two calls share a
  struct.

  \<^item> A \<open>heap\<close> is the list of the objects allocated so far, an address (\<open>addr\<close>) is an
    index into it. \<open>heap_new\<close> allocates an object at the next free address,
    \<open>heap_read\<close> reads through a pointer (\<open>None\<close> where nothing is allocated),
    \<open>heap_modify\<close> is an assignment to a field through a pointer. The heap only grows:
    the garbage collector frees what no pointer reaches, which no program can observe.
  \<^item> \<open>State_ptr\<close> is the method statement by statement on the pair of the heap and the
    database: the allocation of \<^verbatim>\<open>dbS\<close> with its composite literal, the call of the
    driver, \<^verbatim>\<open>nil\<close> and the error, the pointer on the sentinel, and the three assignments
    through the pointer. The result \<open>Inl e\<close> is \<^verbatim>\<open>(nil, e)\<close>, \<open>Inr p\<close> is the pointer
    \<open>p\<close> with a \<^verbatim>\<open>nil\<close> error.
  \<^item> \<open>seeded\<close> is the struct as the literal leaves it, \<open>result_state\<close> the struct that a
    call leaves at the new address.

  The lemmas relate reading, allocation and assignment (\<open>heap_read_append\<close>,
  \<open>heap_read_modify\<close>) and give the method in closed form (\<open>State_ptr_eq\<close>): it
  allocates one struct at the end of the heap and returns \<open>Manager_State\<close>'s result with
  the address in place of the value.
\<close>

section \<open>Heaps\<close>

type_synonym addr = nat
type_synonym 'a heap = "'a list"

definition heap_new :: "'a \<Rightarrow> 'a heap \<Rightarrow> addr \<times> 'a heap" where
  "heap_new x h = (length h, h @ [x])"

definition heap_read :: "'a heap \<Rightarrow> addr \<Rightarrow> 'a option" where
  "heap_read h p = (if p < length h then Some (h ! p) else None)"

definition heap_modify :: "addr \<Rightarrow> ('a \<Rightarrow> 'a) \<Rightarrow> 'a heap \<Rightarrow> 'a heap" where
  "heap_modify p f h = (if p < length h then h[p := f (h ! p)] else h)"

section \<open>The method on the heap\<close>

definition State_ptr ::
  "('w::len) registry \<Rightarrow> ('c, 'db, 'w, 'e) Manager \<Rightarrow> 'c \<Rightarrow> 'w State heap \<times> 'db \<Rightarrow>
    ('e, addr) result \<times> 'w State heap \<times> 'db"
where
  "State_ptr reg b ctx s =
     (let (h, db) = s;
          (dbS, h) = heap_new \<lparr>InitializationStarted = default, Dirty = default,
                               CurrentSchemaVersion = default,
                               BinarySchemaVersion = Registry.BinarySchemaVersion reg (dialect b)\<rparr> h;
          ((v, dirty, err), db) = driver b ctx db
      in case err of
           Some e \<Rightarrow> (Inl e, h, db)
         | None \<Rightarrow>
             if v = nilVersion then (Inr dbS, h, db)
             else
               let h = heap_modify dbS (\<lambda>s. s\<lparr>InitializationStarted := True\<rparr>) h;
                   h = heap_modify dbS (\<lambda>s. s\<lparr>CurrentSchemaVersion := v\<rparr>) h;
                   h = heap_modify dbS (\<lambda>s. s\<lparr>Dirty := dirty\<rparr>) h
               in (Inr dbS, h, db))"

definition seeded :: "('w::len) registry \<Rightarrow> ('c, 'db, 'w, 'e) Manager \<Rightarrow> 'w State" where
  "seeded reg b = state_of (Registry.BinarySchemaVersion reg (dialect b)) NotInitialized"

definition result_state :: "'w State \<Rightarrow> ('e, 'w State) result \<Rightarrow> 'w State" where
  "result_state s0 r = (case r of Inl e \<Rightarrow> s0 | Inr s \<Rightarrow> s)"

section \<open>Lemmas\<close>

lemma heap_read_new:
  "heap_read (snd (heap_new x h)) p =
     (if p = fst (heap_new x h) then Some x else heap_read h p)"
  by (simp add: heap_read_def heap_new_def nth_append)

lemma heap_read_fresh [simp]: "heap_read h (length h) = None"
  by (simp add: heap_read_def)

lemma heap_read_Some_iff: "heap_read h p = Some x \<longleftrightarrow> p < length h \<and> h ! p = x"
  by (auto simp: heap_read_def)

lemma heap_read_None_iff: "heap_read h p = None \<longleftrightarrow> length h \<le> p"
  by (auto simp: heap_read_def)

lemma heap_read_append:
  "heap_read (h @ [x]) p = (if p = length h then Some x else heap_read h p)"
  by (simp add: heap_read_def nth_append)

lemma heap_modify_last [simp]: "heap_modify (length h) f (h @ [x]) = h @ [f x]"
  by (simp add: heap_modify_def)

lemma heap_read_modify:
  "heap_read (heap_modify p f h) q =
     (if q = p then map_option f (heap_read h p) else heap_read h q)"
  by (simp add: heap_read_def heap_modify_def)

lemma length_heap_modify [simp]: "length (heap_modify p f h) = length h"
  by (simp add: heap_modify_def)

lemma State_ptr_eq:
  "State_ptr reg b ctx (h, db) =
     (map_sum id (\<lambda>s. length h) (fst (Manager_State reg b ctx db)),
      h @ [result_state (seeded reg b) (fst (Manager_State reg b ctx db))],
      snd (Manager_State reg b ctx db))"
  by (cases "driver b ctx db" rule: driver_answer_cases)
    (simp_all add: State_ptr_def heap_new_def Manager_State_simps seeded_def state_of_def
      result_state_def)

lemma fst_State_ptr:
  "fst (State_ptr reg b ctx (h, db)) =
     map_sum id (\<lambda>s. length h) (fst (Manager_State reg b ctx db))"
  by (simp add: State_ptr_eq)

lemma heap_State_ptr:
  "fst (snd (State_ptr reg b ctx (h, db))) =
     h @ [result_state (seeded reg b) (fst (Manager_State reg b ctx db))]"
  by (simp add: State_ptr_eq)

lemma State_ptr_Inr_iff:
  "State_ptr reg b ctx (h, db) = (Inr p, h', db') \<longleftrightarrow>
     (\<exists>s. Manager_State reg b ctx db = (Inr s, db') \<and> p = length h \<and> h' = h @ [s])"
  by (cases "Manager_State reg b ctx db"; cases "fst (Manager_State reg b ctx db)")
    (auto simp: State_ptr_eq result_state_def)

section \<open>Properties of the method on the heap\<close>


text \<open>
  C31 (safety). A call allocates and never overwrites: every struct that was on the heap
  before the call is unchanged after it, whatever the call returns, and a pointer that the
  call returns was not allocated before and is allocated after. So the \<^verbatim>\<open>State\<close> that a
  caller holds is its own: no later call changes it, and what the caller does to it changes
  no later result.
\<close>

theorem State_ptr_fresh:
  assumes "State_ptr reg b ctx (h, db) = (r, h', db')"
  shows "(\<forall>q. heap_read h q \<noteq> None \<longrightarrow> heap_read h' q = heap_read h q) \<and>
    (\<forall>p. r = Inr p \<longrightarrow> heap_read h p = None \<and> heap_read h' p \<noteq> None)"
  using assms
  by (cases "fst (Manager_State reg b ctx db)")
    (auto simp: State_ptr_eq heap_read_append heap_read_None_iff)

theorem State_ptr_fresh_witness:
  "State_ptr Map.empty \<lparr>dialect = ''postgres'', driver = store_Version\<rparr> None
     (heap_modify 0 (\<lambda>s. s\<lparr>Dirty := True\<rparr>)
        (fst (snd (State_ptr Map.empty \<lparr>dialect = ''postgres'', driver = store_Version\<rparr> None
          ([], \<lparr>available = True, version_row = Some (7 :: int64, False)\<rparr>)))),
      \<lparr>available = True, version_row = Some (7 :: int64, False)\<rparr>) =
   (Inr 1,
    [\<lparr>InitializationStarted = True, Dirty = True, CurrentSchemaVersion = 7,
      BinarySchemaVersion = 0\<rparr>,
     \<lparr>InitializationStarted = True, Dirty = False, CurrentSchemaVersion = 7,
      BinarySchemaVersion = 0\<rparr>],
    \<lparr>available = True, version_row = Some (7, False)\<rparr>)"
proof -
  let ?b = "\<lparr>dialect = ''postgres'', driver = store_Version\<rparr>"
  let ?db = "\<lparr>available = True, version_row = Some (7 :: int64, False)\<rparr>"
  let ?s = "\<lparr>InitializationStarted = True, Dirty = False, CurrentSchemaVersion = 7 :: int64,
      BinarySchemaVersion = 0\<rparr>"
  have m: "Manager_State Map.empty ?b None ?db = (Inr ?s, ?db)"
    by (simp add: Manager_State_def nilVersion_def)
  then have c: "State_ptr Map.empty ?b None ([?s\<lparr>Dirty := True\<rparr>], ?db) =
      (Inr 1, [?s\<lparr>Dirty := True\<rparr>, ?s], ?db)"
    by (simp add: State_ptr_Inr_iff)
  from State_ptr_fresh [OF c] have "heap_read [?s\<lparr>Dirty := True\<rparr>, ?s] 0 =
      heap_read [?s\<lparr>Dirty := True\<rparr>] 0"
    by (simp add: heap_read_def)
  with m c show ?thesis
    by (simp add: heap_State_ptr result_state_def heap_modify_def)
qed

end
