(* ===== verification/Loader.thy ===== *)
theory Loader
  imports Registry
begin

text \<open>
  The migration asset loader, the code that fills the registry at startup. It is not among
  the sources under \<^verbatim>\<open>src/\<close>; the specification (sections 3 and 6) says what it
  produces: for every dialect a \<^verbatim>\<open>migrationState\<close> whose flag tells whether the scripts
  came from a development source tree, whose binary schema version is the highest version
  among the scripts, and whose two maps hold the bodies of the scripts by version.

  \<^item> A \<open>script\<close> is a version with the bodies of its up and down migration.
    \<open>max_version\<close> is the highest of a list of versions, compared as signed integers, and
    \<open>0\<close> for no version at all; \<open>compile\<close> builds the migration state of a list of
    scripts; \<open>load\<close> compiles and registers it, \<open>load_all\<close> does so for a list of
    dialects, stopping at the first registration that is refused.
  \<^item> \<open>wf_migrationState\<close> is the invariant of a migration state that the registry and
    the reconciler rely on: the two maps have the same versions, every version is
    non-negative (so none is the sentinel) and at most the binary schema version, and the
    binary schema version is one of the versions, or \<open>0\<close> when there is none.
    \<open>wf_registry\<close> lifts it to the table; \<open>nonneg_versions\<close> is what it asks of the
    scripts.

  The lemmas show that \<open>max_version\<close> is the maximum of the signed values
  (\<open>sint_max_version\<close>), that a compiled state is well formed and that registration keeps a
  registry well formed.
\<close>

section \<open>Data\<close>

type_synonym 'w script = "'w go_int \<times> bytes \<times> bytes"

section \<open>Operations\<close>

fun max_version :: "('w::len) go_int list \<Rightarrow> 'w go_int" where
  "max_version [] = 0"
| "max_version (v # vs) = (let m = max_version vs in if sint m < sint v then v else m)"

definition compile :: "bool \<Rightarrow> ('w::len) script list \<Rightarrow> 'w migrationState" where
  "compile dev scripts =
     \<lparr>devMigration = dev,
      binarySchemaVersion = max_version (map fst scripts),
      upMigrations = map_of (map (\<lambda>(v, u, d). (v, u)) scripts),
      downMigrations = map_of (map (\<lambda>(v, u, d). (v, d)) scripts)\<rparr>"

definition load ::
  "string \<Rightarrow> bool \<Rightarrow> ('w::len) script list \<Rightarrow> 'w registry \<Rightarrow>
    (registry_error, 'w registry) result"
where
  "load dialect dev scripts reg = register dialect (compile dev scripts) reg"

fun load_all ::
  "(string \<times> bool \<times> ('w::len) script list) list \<Rightarrow> 'w registry \<Rightarrow>
    (registry_error, 'w registry) result"
where
  "load_all [] reg = Inr reg"
| "load_all ((dialect, dev, scripts) # rest) reg =
     (case load dialect dev scripts reg of
        Inl e \<Rightarrow> Inl e
      | Inr reg' \<Rightarrow> load_all rest reg')"

definition nonneg_versions :: "('w::len) script list \<Rightarrow> bool" where
  "nonneg_versions scripts \<longleftrightarrow> (\<forall>v \<in> fst ` set scripts. 0 \<le> sint v)"

section \<open>Well-formed migration states\<close>

definition versions :: "('w::len) migrationState \<Rightarrow> 'w go_int set" where
  "versions st = dom (upMigrations st)"

definition wf_migrationState :: "('w::len) migrationState \<Rightarrow> bool" where
  "wf_migrationState st \<longleftrightarrow>
     dom (downMigrations st) = versions st \<and>
     (\<forall>v \<in> versions st. 0 \<le> sint v \<and> sint v \<le> sint (binarySchemaVersion st)) \<and>
     (if versions st = {} then binarySchemaVersion st = 0
      else binarySchemaVersion st \<in> versions st)"

definition wf_registry :: "('w::len) registry \<Rightarrow> bool" where
  "wf_registry reg \<longleftrightarrow> (\<forall>st \<in> ran reg. wf_migrationState st)"

section \<open>The highest version\<close>

lemma Max_insert_0_Cons:
  "Max (insert 0 (sint ` set (v # vs))) = max (sint v) (Max (insert 0 (sint ` set vs)))"
proof -
  have "Max (insert 0 (sint ` set (v # vs))) = Max (insert (sint v) (insert 0 (sint ` set vs)))"
    by (rule arg_cong [where f = Max]) auto
  also have "\<dots> = max (sint v) (Max (insert 0 (sint ` set vs)))"
    by (rule Max_insert) auto
  finally show ?thesis .
qed

lemma sint_max_version: "sint (max_version vs) = Max (insert 0 (sint ` set vs))"
proof (induction vs)
  case Nil
  show ?case by simp
next
  case (Cons v vs)
  have "sint (max_version (v # vs)) = max (sint v) (sint (max_version vs))"
    by (simp add: Let_def max_def)
  also have "\<dots> = max (sint v) (Max (insert 0 (sint ` set vs)))"
    by (simp only: Cons.IH)
  also have "\<dots> = Max (insert 0 (sint ` set (v # vs)))"
    by (simp only: Max_insert_0_Cons)
  finally show ?case .
qed

lemma max_version_ge: "v \<in> set vs \<Longrightarrow> sint v \<le> sint (max_version vs)"
  by (simp add: sint_max_version)

lemma max_version_nonneg: "0 \<le> sint (max_version vs)"
  by (simp add: sint_max_version)

lemma max_version_cases: "max_version vs = 0 \<or> max_version vs \<in> set vs"
  by (induction vs) (auto simp: Let_def)

lemma max_version_in:
  assumes "vs \<noteq> []" and "\<forall>v \<in> set vs. 0 \<le> sint v"
  shows "max_version vs \<in> set vs"
proof (cases "max_version vs = 0")
  case False
  with max_version_cases [of vs] show ?thesis by simp
next
  case True
  from assms(1) obtain v where v: "v \<in> set vs" by (cases vs) auto
  with assms(2) True have "sint v = 0"
    using max_version_ge [of v vs] by auto
  then have "v = 0" by (metis signed_word_eqI sint_0)
  with v True show ?thesis by simp
qed

section \<open>Compiled states\<close>

lemma versions_compile [simp]: "versions (compile dev scripts) = fst ` set scripts"
  by (force simp: versions_def compile_def dom_map_of_conv_image_fst)

lemma dom_down_compile [simp]: "dom (downMigrations (compile dev scripts)) = fst ` set scripts"
  by (force simp: compile_def dom_map_of_conv_image_fst)

lemma compile_sel [simp]:
  "devMigration (compile dev scripts) = dev"
  "binarySchemaVersion (compile dev scripts) = max_version (map fst scripts)"
  by (simp_all add: compile_def)

lemma compile_sentinel_not_wf: "\<not> wf_migrationState (compile dev [(- 1, u, d)])"
  by (simp add: wf_migrationState_def)

lemma wf_migrationState_default [simp]: "wf_migrationState default"
  by (simp add: wf_migrationState_def versions_def go_zero)

lemma wf_migrationState_nonneg: "wf_migrationState st \<Longrightarrow> 0 \<le> sint (binarySchemaVersion st)"
  by (auto simp: wf_migrationState_def split: if_splits)

section \<open>Well-formed registries\<close>

lemma wf_registry_empty [simp]: "wf_registry migrationStates"
  by (simp add: wf_registry_def migrationStates_def)

lemma wf_registry_upd:
  "wf_registry reg \<Longrightarrow> wf_migrationState st \<Longrightarrow> reg dialect = None \<Longrightarrow>
    wf_registry (reg(dialect \<mapsto> st))"
  by (auto simp: wf_registry_def ran_def)

lemma wf_registry_register:
  assumes "wf_registry reg" and "wf_migrationState st" and "register dialect st reg = Inr reg'"
  shows "wf_registry reg'"
  using assms by (auto simp: register_Inr_iff wf_registry_upd)

lemma wf_registry_go_index: "wf_registry reg \<Longrightarrow> wf_migrationState (go_index reg dialect)"
  by (cases "reg dialect") (auto simp: wf_registry_def ran_def)

lemma wf_registry_register_all:
  assumes "wf_registry reg" and "\<forall>st \<in> snd ` set xs. wf_migrationState st"
    and "register_all xs reg = Inr reg'"
  shows "wf_registry reg'"
  using assms
proof (induction xs arbitrary: reg)
  case Nil
  then show ?case by simp
next
  case (Cons x xs)
  obtain dialect st where x: "x = (dialect, st)" by (cases x)
  with Cons.prems(3) obtain reg1 where r: "register dialect st reg = Inr reg1"
    and rest: "register_all xs reg1 = Inr reg'"
    by (cases "register dialect st reg") auto
  from Cons.prems(1,2) x r have "wf_registry reg1"
    by (auto intro: wf_registry_register)
  with Cons.prems(2) rest show ?case by (auto intro: Cons.IH)
qed

lemma load_all_register_all:
  "load_all xs reg = register_all (map (\<lambda>(dialect, dev, scripts). (dialect, compile dev scripts)) xs) reg"
  by (induction xs reg rule: load_all.induct) (simp_all add: load_def split: sum.splits)

lemma max_version_map_fst_ge:
  "x \<in> set scripts \<Longrightarrow> sint (fst x) \<le> sint (max_version (map fst scripts))"
  by (rule max_version_ge) simp

lemma compile_wf_aux:
  assumes "nonneg_versions scripts"
  shows "wf_migrationState (compile dev scripts)"
proof (cases "scripts = []")
  case True
  then show ?thesis by (simp add: wf_migrationState_def)
next
  case False
  with assms have "max_version (map fst scripts) \<in> fst ` set scripts"
    using max_version_in [of "map fst scripts"] by (simp add: nonneg_versions_def)
  with assms False show ?thesis
    by (simp add: wf_migrationState_def nonneg_versions_def max_version_map_fst_ge)
qed

section \<open>Properties of the loader\<close>

text \<open>
  C38 (type). The migration state compiled from scripts with non-negative versions is well
  formed: its maps hold exactly the versions of the scripts, up and down alike, its binary
  schema version is one of them and none is higher, and no version is negative. It carries
  the flag of its source.
\<close>

theorem compile_wf:
  assumes "nonneg_versions scripts"
  shows "wf_migrationState (compile dev scripts) \<and>
    devMigration (compile dev scripts) = dev \<and>
    versions (compile dev scripts) = fst ` set scripts"
  using assms by (simp add: compile_wf_aux)

theorem compile_wf_witness:
  "wf_migrationState (compile False [(1 :: int64, [1], [2]), (2006, [3], [4]), (1001, [], [])])"
  using compile_wf [where dev = False
      and scripts = "[(1 :: int64, [1], [2]), (2006, [3], [4]), (1001, [], [])]"]
  by (simp add: nonneg_versions_def)

text \<open>
  C39 (bounds). After a successful load the accessors return the flag of the source and, as
  a signed integer, the maximum of the versions of the scripts and \<open>0\<close>. The comparison
  is the signed one at every width of \<^verbatim>\<open>int\<close>: a version is never taken for a large
  unsigned number, and no arithmetic is done on versions that could wrap around.
\<close>

theorem load_binary_version:
  assumes "load dialect dev scripts reg = Inr reg'"
  shows "DevMigration reg' dialect = dev \<and>
    sint (BinarySchemaVersion reg' dialect) = Max (insert 0 (sint ` fst ` set scripts))"
  using assms by (auto simp: load_def register_Inr_iff sint_max_version)

theorem load_binary_version_witness:
  "DevMigration (migrationStates(''postgres'' \<mapsto>
      compile True [(1 :: int64, [1], [2]), (2006, [3], [4]), (1001, [], [])])) ''postgres'' \<and>
   BinarySchemaVersion (migrationStates(''postgres'' \<mapsto>
      compile True [(1 :: int64, [1], [2]), (2006, [3], [4]), (1001, [], [])])) ''postgres'' = 2006"
  using load_binary_version [where dialect = "''postgres''" and dev = True
      and scripts = "[(1 :: int64, [1], [2]), (2006, [3], [4]), (1001, [], [])]"
      and reg = migrationStates
      and reg' = "migrationStates(''postgres'' \<mapsto>
        compile True [(1 :: int64, [1], [2]), (2006, [3], [4]), (1001, [], [])])"]
  by (simp add: load_def migrationStates_def)

text \<open>
  C35 (invariant). The registry that the loader builds at startup from scripts with
  non-negative versions is well formed: every registered migration state satisfies
  \<open>wf_migrationState\<close>.
\<close>

theorem loaded_registry_wf:
  assumes "load_all xs migrationStates = Inr reg"
    and "\<forall>(dialect, dev, scripts) \<in> set xs. nonneg_versions scripts"
  shows "wf_registry reg"
proof (rule wf_registry_register_all [OF wf_registry_empty])
  from assms(1) show "register_all (map (\<lambda>(dialect, dev, scripts). (dialect, compile dev scripts)) xs)
      migrationStates = Inr reg"
    by (simp add: load_all_register_all)
  from assms(2) show "\<forall>st \<in> snd ` set (map (\<lambda>(dialect, dev, scripts). (dialect, compile dev scripts)) xs).
      wf_migrationState st"
    by (auto simp: compile_wf_aux)
qed

theorem loaded_registry_wf_witness:
  "wf_registry [''postgres'' \<mapsto> compile False [(1 :: int64, [1], [2]), (2006, [3], [4])]]"
proof -
  have "load_all [(''postgres'', False, [(1 :: int64, [1], [2]), (2006, [3], [4])])] migrationStates =
      Inr [''postgres'' \<mapsto> compile False [(1 :: int64, [1], [2]), (2006, [3], [4])]]"
    by (simp add: load_def migrationStates_def)
  from loaded_registry_wf [OF this] show ?thesis by (simp add: nonneg_versions_def)
qed

end
