(* ===== verification/Process.thy ===== *)
theory Process
  imports Schema_State
begin

text \<open>
  The registry and the database in the life of a process. The sources hold no lock and
  start no goroutine, so the behaviour of concurrent callers is that of the sequences their
  operations can be interleaved into; this theory gives those sequences.

  An \<open>event\<close> is a registration, a call of \<^verbatim>\<open>Manager.State\<close>, or a change of the
  database from outside the process (a migration run, another instance). \<open>step\<close> is one
  event on the pair of the registry and the state of the database, with its \<open>reply\<close>;
  \<open>run\<close> is a sequence of events with the list of their replies.

  The lemmas show how \<open>run\<close> composes (\<open>run_Cons\<close>, \<open>run_append\<close>) and that the
  registry only grows along a run and stays as it is without registrations. The properties
  are those of the convention that registrations happen at startup only, which the code
  relies on and does not enforce.
\<close>

section \<open>The life of a process\<close>

datatype ('m, 'b, 'c, 'f) event = Register string 'm | Call 'b 'c | External 'f

datatype ('x, 'r) reply = Registered "'x option" | Returned 'r | Changed

type_synonym ('c, 'db, 'w, 'e) process_event =
  "('w migrationState, ('c, 'db, 'w, 'e) Manager, 'c, 'db \<Rightarrow> 'db) event"

type_synonym ('w, 'e) process_reply = "(registry_error, ('e, 'w State) result) reply"

fun step ::
  "('c, 'db, 'w::len, 'e) process_event \<Rightarrow> 'w registry \<times> 'db \<Rightarrow>
    ('w, 'e) process_reply \<times> 'w registry \<times> 'db"
where
  "step (Register name st) (reg, db) =
     (case register name st reg of
        Inl e \<Rightarrow> (Registered (Some e), reg, db)
      | Inr reg' \<Rightarrow> (Registered None, reg', db))"
| "step (Call b ctx) (reg, db) =
     (let (r, db') = Manager_State reg b ctx db in (Returned r, reg, db'))"
| "step (External f) (reg, db) = (Changed, reg, f db)"

fun run ::
  "('c, 'db, 'w::len, 'e) process_event list \<Rightarrow> 'w registry \<times> 'db \<Rightarrow>
    ('w, 'e) process_reply list \<times> 'w registry \<times> 'db"
where
  "run [] s = ([], s)"
| "run (ev # evs) s =
     (let (out, s') = step ev s; (outs, s'') = run evs s' in (out # outs, s''))"

fun is_Register :: "('m, 'b, 'c, 'f) event \<Rightarrow> bool" where
  "is_Register (Register name st) = True"
| "is_Register _ = False"

section \<open>Lemmas\<close>

lemma run_Cons:
  "run (ev # evs) s =
     (fst (step ev s) # fst (run evs (snd (step ev s))), snd (run evs (snd (step ev s))))"
  by (simp add: split_beta)

lemma run_append:
  "run (evs @ evs') s =
     (fst (run evs s) @ fst (run evs' (snd (run evs s))), snd (run evs' (snd (run evs s))))"
  by (induction evs arbitrary: s) (simp_all add: run_Cons del: run.simps(2))

lemma length_run [simp]: "length (fst (run evs s)) = length evs"
  by (induction evs arbitrary: s) (simp_all add: run_Cons del: run.simps(2))

lemma step_registry_le: "fst s \<subseteq>\<^sub>m fst (snd (step ev s))"
  by (cases ev; cases s) (auto simp: split_beta register_map_le split: sum.splits)

lemma step_registry_same: "\<not> is_Register ev \<Longrightarrow> fst (snd (step ev s)) = fst s"
  by (cases ev; cases s) (auto simp: split_beta)

lemma run_registry_le: "fst s \<subseteq>\<^sub>m fst (snd (run evs s))"
proof (induction evs arbitrary: s)
  case Nil
  show ?case by simp
next
  case (Cons ev evs)
  have "fst s \<subseteq>\<^sub>m fst (snd (step ev s))" by (rule step_registry_le)
  also have "\<dots> \<subseteq>\<^sub>m fst (snd (run evs (snd (step ev s))))" by (rule Cons.IH)
  finally show ?case by (simp add: run_Cons del: run.simps(2))
qed

lemma run_registry_same:
  "\<forall>ev \<in> set evs. \<not> is_Register ev \<Longrightarrow> fst (snd (run evs s)) = fst s"
  by (induction evs arbitrary: s) (simp_all add: run_Cons step_registry_same del: run.simps(2))

lemma step_Call:
  "step (Call b ctx) (reg, db) =
     (Returned (fst (Manager_State reg b ctx db)), reg, snd (driver b ctx db))"
  by (simp add: split_beta)

lemma step_Register_fresh:
  "name \<notin> dom reg \<Longrightarrow>
     step (Register name st) (reg, db) = (Registered None, reg(name \<mapsto> st), db)"
  by (simp add: register_fresh domIff)

lemma step_reply_state:
  assumes "\<not> is_Register ev"
  shows "\<exists>db'. snd (step ev (reg, db)) = (reg, db')"
  using assms by (cases ev) (simp_all add: split_beta)

lemmas run_simps = run_Cons step_Call step_Register_fresh

section \<open>Properties of a process\<close>

text \<open>
  Along every sequence of events, whatever registrations, calls of
  \<^verbatim>\<open>Manager.State\<close> and changes of the database it interleaves, the accessors go on
  returning for a registered dialect what they returned at the start: an entry of the
  registry is never removed or changed.
\<close>

theorem run_registry_grows:
  assumes "name \<in> dom reg"
  shows "DevMigration (fst (snd (run evs (reg, db)))) name = DevMigration reg name \<and>
    Registry.BinarySchemaVersion (fst (snd (run evs (reg, db)))) name =
      Registry.BinarySchemaVersion reg name"
  using run_registry_le [of "(reg, db)" evs] assms by (simp add: accessors_map_le)

theorem run_registry_grows_witness:
  "DevMigration (fst (snd (run
      [Register ''postgres'' \<lparr>devMigration = False, binarySchemaVersion = 7 :: int64,
         upMigrations = Map.empty, downMigrations = Map.empty\<rparr>,
       Call \<lparr>dialect = ''postgres'', driver = store_Version\<rparr> None,
       External (\<lambda>db. db\<lparr>version_row := Some (7, True)\<rparr>)]
      ([''postgres'' \<mapsto> \<lparr>devMigration = True, binarySchemaVersion = 42,
         upMigrations = Map.empty, downMigrations = Map.empty\<rparr>],
       \<lparr>available = True, version_row = None\<rparr>)))) ''postgres'' = True"
  using run_registry_grows [where name = "''postgres''"
      and reg = "[''postgres'' \<mapsto> \<lparr>devMigration = True, binarySchemaVersion = 42 :: int64,
         upMigrations = Map.empty, downMigrations = Map.empty\<rparr>]"
      and db = "\<lparr>available = True, version_row = None\<rparr>"
      and evs = "[Register ''postgres'' \<lparr>devMigration = False, binarySchemaVersion = 7 :: int64,
         upMigrations = Map.empty, downMigrations = Map.empty\<rparr>,
       Call \<lparr>dialect = ''postgres'', driver = store_Version\<rparr> None,
       External (\<lambda>db. db\<lparr>version_row := Some (7, True)\<rparr>)]"]
  by (simp add: go_defs)

text \<open>
  Once the registrations are over, readers agree: in a sequence of events
  without a registration, interleaved in any way with changes of the database, every state
  that a call of \<^verbatim>\<open>Manager.State\<close> returns carries the binary schema version that the
  registry held at the start for the manager's dialect, and the registry at the end is the
  registry at the start.
\<close>

theorem readers_after_startup:
  assumes "\<forall>ev \<in> set evs. \<not> is_Register ev" and "i < length evs"
    and "evs ! i = Call b ctx" and "fst (run evs (reg, db)) ! i = Returned (Inr s)"
  shows "BinarySchemaVersion s = Registry.BinarySchemaVersion reg (dialect b) \<and>
    fst (snd (run evs (reg, db))) = reg"
proof
  from assms(1) show "fst (snd (run evs (reg, db))) = reg"
    by (simp add: run_registry_same)
  from assms show "BinarySchemaVersion s = Registry.BinarySchemaVersion reg (dialect b)"
  proof (induction evs arbitrary: i db)
    case Nil
    then show ?case by simp
  next
    case (Cons ev evs)
    from Cons.prems(1) obtain db' where db': "snd (step ev (reg, db)) = (reg, db')"
      using step_reply_state [of ev reg db] by auto
    show ?case
    proof (cases i)
      case 0
      with Cons.prems show ?thesis
        by (auto simp: run_simps Manager_State_Inr_iff simp del: run.simps(2) step.simps)
    next
      case (Suc j)
      with Cons.prems db' show ?thesis
        by (intro Cons.IH [of j db']) (simp_all add: run_Cons del: run.simps(2))
    qed
  qed
qed

theorem readers_after_startup_witness:
  "fst (run [Call \<lparr>dialect = ''postgres'', driver = store_Version\<rparr> None,
        External (\<lambda>db. db\<lparr>version_row := Some (7, True)\<rparr>),
        Call \<lparr>dialect = ''postgres'', driver = store_Version\<rparr> None]
      ([''postgres'' \<mapsto> \<lparr>devMigration = True, binarySchemaVersion = 42 :: int64,
         upMigrations = Map.empty, downMigrations = Map.empty\<rparr>],
       \<lparr>available = True, version_row = None\<rparr>)) ! 2 =
    Returned (Inr \<lparr>InitializationStarted = True, Dirty = True, CurrentSchemaVersion = 7,
      BinarySchemaVersion = 42\<rparr>)"
proof -
  let ?evs = "[Call \<lparr>dialect = ''postgres'', driver = store_Version\<rparr> None,
        External (\<lambda>db. db\<lparr>version_row := Some (7 :: int64, True)\<rparr>),
        Call \<lparr>dialect = ''postgres'', driver = store_Version\<rparr> None]"
  let ?reg = "[''postgres'' \<mapsto> \<lparr>devMigration = True, binarySchemaVersion = 42 :: int64,
         upMigrations = Map.empty, downMigrations = Map.empty\<rparr>]"
  let ?db = "\<lparr>available = True, version_row = None :: (int64 \<times> bool) option\<rparr>"
  have r: "fst (run ?evs (?reg, ?db)) ! 2 =
      Returned (Inr \<lparr>InitializationStarted = True, Dirty = True, CurrentSchemaVersion = 7,
        BinarySchemaVersion = Registry.BinarySchemaVersion ?reg ''postgres''\<rparr>)"
    by (simp add: run_simps Manager_State_eq observe_def state_of_def nilVersion_def
        del: run.simps(2) step.simps(2))
  from readers_after_startup [where evs = ?evs and i = 2 and reg = ?reg and db = ?db, OF _ _ _ r]
  show ?thesis using r by (simp add: go_defs)
qed

text \<open>
  A reply is a reading at one point in time: the replies to the events so far do not depend
  on the events that follow, so a change of the database after a call of
  \<^verbatim>\<open>Manager.State\<close> leaves the state that the call returned as it was.
\<close>

theorem replies_prefix:
  "take (length evs) (fst (run (evs @ evs') s)) = fst (run evs s)"
  by (simp add: run_append)

text \<open>
  A registration that is not confined to startup is seen by readers: of
  two calls of \<^verbatim>\<open>Manager.State\<close> for the same manager on the same database, one before
  and one after the registration of the manager's dialect, the first reports binary schema
  version \<open>0\<close> and the second the registered version, with the same status of the database.
  The code has no guard against this order.
\<close>

theorem registration_race:
  assumes "dialect b \<notin> dom reg" and "read_only (driver b)"
    and "fst (driver b ctx db) = (v, dirty, None)"
  shows "\<exists>s s'. fst (run [Call b ctx, Register (dialect b) st, Call b ctx] (reg, db)) =
      [Returned (Inr s), Registered None, Returned (Inr s')] \<and>
    BinarySchemaVersion s = 0 \<and> BinarySchemaVersion s' = binarySchemaVersion st \<and>
    status_of s = status_of s'"
proof -
  from assms(2) have db: "snd (driver b ctx db) = db" by (simp add: read_onlyD)
  from assms(3) obtain x where x: "observe (fst (driver b ctx db)) = Inr x"
    by (cases "v = nilVersion") (auto simp: observe_def)
  with assms(1) db show ?thesis
    by (simp add: run_simps Manager_State_eq domIff del: run.simps(2) step.simps)
qed

theorem registration_race_witness:
  "\<exists>s s'. fst (run [Call \<lparr>dialect = ''postgres'', driver = store_Version\<rparr> None,
        Register ''postgres'' \<lparr>devMigration = True, binarySchemaVersion = 42 :: int64,
          upMigrations = Map.empty, downMigrations = Map.empty\<rparr>,
        Call \<lparr>dialect = ''postgres'', driver = store_Version\<rparr> None]
      (migrationStates, \<lparr>available = True, version_row = Some (7, False)\<rparr>)) =
      [Returned (Inr s), Registered None, Returned (Inr s')] \<and>
    BinarySchemaVersion s = 0 \<and> BinarySchemaVersion s' = 42 \<and> status_of s = status_of s'"
  using registration_race [where b = "\<lparr>dialect = ''postgres'', driver = store_Version\<rparr>"
      and reg = migrationStates and ctx = None
      and db = "\<lparr>available = True, version_row = Some (7 :: int64, False)\<rparr>"
      and v = 7 and dirty = False
      and st = "\<lparr>devMigration = True, binarySchemaVersion = 42 :: int64,
          upMigrations = Map.empty, downMigrations = Map.empty\<rparr>"]
  by (simp add: migrationStates_def read_only_store_Version)

text \<open>
  \<^verbatim>\<open>Manager.State\<close> keeps no copy of an earlier answer: over the
  reference driver, a call after the database has recorded a version returns that version
  and its dirty flag, whatever an earlier call for the same manager returned.
\<close>

theorem State_not_cached:
  assumes "available db" and "v \<noteq> nilVersion"
  shows "fst (run [Call \<lparr>dialect = name, driver = store_Version\<rparr> None,
        External (\<lambda>db. db\<lparr>version_row := Some (v, d)\<rparr>),
        Call \<lparr>dialect = name, driver = store_Version\<rparr> None] (reg, db)) ! 2 =
    Returned (Inr \<lparr>InitializationStarted = True, Dirty = d, CurrentSchemaVersion = v,
      BinarySchemaVersion = Registry.BinarySchemaVersion reg name\<rparr>)"
  using assms
  by (simp add: run_simps Manager_State_eq observe_def state_of_def
      del: run.simps(2) step.simps(2))

theorem State_not_cached_witness:
  "fst (run [Call \<lparr>dialect = ''postgres'', driver = store_Version\<rparr> None,
        External (\<lambda>db. db\<lparr>version_row := Some (7 :: int64, True)\<rparr>),
        Call \<lparr>dialect = ''postgres'', driver = store_Version\<rparr> None]
      (migrationStates, \<lparr>available = True, version_row = None\<rparr>)) ! 2 =
    Returned (Inr \<lparr>InitializationStarted = True, Dirty = True, CurrentSchemaVersion = 7,
      BinarySchemaVersion = 0\<rparr>)"
  using State_not_cached [where db = "\<lparr>available = True, version_row = None\<rparr>"
      and v = "7 :: int64" and d = True and name = "''postgres''" and reg = migrationStates]
  by (simp add: nilVersion_def migrationStates_def)


end
