(* ===== verification/Atomicity.thy ===== *)
theory Atomicity
  imports Process
begin

text \<open>
  \<^verbatim>\<open>(*Manager).State\<close> under preemption. The method reads shared state twice and holds
  no lock: it reads the registry when it builds the struct \<^verbatim>\<open>dbS\<close>, and the database
  when it calls the driver. Other goroutines can run between the two.

  \<^item> \<open>State_begin\<close> is the first phase, the composite literal with the call of
    \<^verbatim>\<open>BinarySchemaVersion\<close>; \<open>State_finish\<close> is the second, from the call of the driver
    to the return. One after the other they are \<open>Manager_State\<close>
    (\<open>Manager_State_phases\<close>).
  \<^item> \<open>preempted_call\<close> is a call with the events \<open>mid\<close> of theory \<open>Process\<close>
    (registrations, calls of other callers, changes of the database) running between its
    two phases; it returns their replies, the result of the call and the registry and
    database at the end.

  The properties say from which moments the fields of the returned \<^verbatim>\<open>State\<close> come, that
  the two moments can be told apart when a registration runs in between, and that without
  registrations the call is atomic: it is the call as one step at the moment of its second
  phase, which is why theories \<open>Process\<close> and \<open>System\<close> take a call as one event.
\<close>

section \<open>The two phases of the method\<close>

definition State_begin :: "('w::len) registry \<Rightarrow> ('c, 'db, 'w, 'e) Manager \<Rightarrow> 'w State" where
  "State_begin reg b =
     \<lparr>InitializationStarted = default, Dirty = default, CurrentSchemaVersion = default,
      BinarySchemaVersion = Registry.BinarySchemaVersion reg (dialect b)\<rparr>"

definition State_finish ::
  "('w::len) State \<Rightarrow> ('c, 'db, 'w, 'e) Manager \<Rightarrow> 'c \<Rightarrow> 'db \<Rightarrow> ('e, 'w State) result \<times> 'db"
where
  "State_finish dbS b ctx db =
     (let ((v, dirty, err), db') = driver b ctx db
      in case err of
           Some e \<Rightarrow> (Inl e, db')
         | None \<Rightarrow>
             if v = nilVersion then (Inr dbS, db')
             else (Inr (dbS\<lparr>InitializationStarted := True,
                            CurrentSchemaVersion := v,
                            Dirty := dirty\<rparr>), db'))"

section \<open>A call that is preempted\<close>

definition preempted_call ::
  "('w::len) registry \<Rightarrow> ('c, 'db, 'w, 'e) Manager \<Rightarrow> 'c \<Rightarrow> ('c, 'db, 'w, 'e) process_event list \<Rightarrow>
    'db \<Rightarrow> ('w, 'e) process_reply list \<times> ('e, 'w State) result \<times> 'w registry \<times> 'db"
where
  "preempted_call reg b ctx mid db =
     (let dbS = State_begin reg b;
          (outs, reg', db') = run mid (reg, db);
          (r, db'') = State_finish dbS b ctx db'
      in (outs, r, reg', db''))"

section \<open>Lemmas\<close>

lemma Manager_State_phases:
  "Manager_State reg b ctx db = State_finish (State_begin reg b) b ctx db"
  by (simp add: Manager_State_def State_begin_def State_finish_def Let_def)

lemma preempted_call_eq:
  "preempted_call reg b ctx mid db =
     (fst (run mid (reg, db)),
      fst (Manager_State reg b ctx (snd (snd (run mid (reg, db))))),
      fst (snd (run mid (reg, db))),
      snd (Manager_State reg b ctx (snd (snd (run mid (reg, db))))))"
  by (simp add: preempted_call_def Manager_State_phases split_beta Let_def)

lemma run_snoc_Call:
  "run (mid @ [Call b ctx]) s =
     (fst (run mid s) @ [Returned (fst (Manager_State (fst (snd (run mid s))) b ctx
        (snd (snd (run mid s)))))],
      fst (snd (run mid s)),
      snd (Manager_State (fst (snd (run mid s))) b ctx (snd (snd (run mid s)))))"
  by (cases "snd (run mid s)") (simp add: run_append split_beta)

section \<open>Properties of a preempted call\<close>

text \<open>
  C36 (functional). The fields of a \<^verbatim>\<open>State\<close> are read at two moments: whatever runs
  between the two phases of a call, the binary schema version of the state returned is
  the registry's at the moment the call began, and its status (initialised or not, version,
  dirty flag) is the answer of the driver on the database at the moment the call ends.
\<close>

theorem preempted_call_snapshot:
  assumes "fst (snd (preempted_call reg b ctx mid db)) = Inr s"
  shows "BinarySchemaVersion s = Registry.BinarySchemaVersion reg (dialect b) \<and>
    observe (fst (driver b ctx (snd (snd (run mid (reg, db)))))) = Inr (status_of s)"
proof -
  from assms have "fst (Manager_State reg b ctx (snd (snd (run mid (reg, db))))) = Inr s"
    by (simp add: preempted_call_eq)
  then show ?thesis
    by (auto simp: Manager_State_Inr_iff)
qed

theorem preempted_call_snapshot_witness:
  "BinarySchemaVersion
     \<lparr>InitializationStarted = True, Dirty = False, CurrentSchemaVersion = 7 :: int64,
      BinarySchemaVersion = 0\<rparr> =
   Registry.BinarySchemaVersion migrationStates ''postgres'' \<and>
   fst (snd (preempted_call migrationStates
     \<lparr>dialect = ''postgres'', driver = store_Version\<rparr> None
     [Register ''postgres'' \<lparr>devMigration = False, binarySchemaVersion = 7 :: int64,
        upMigrations = Map.empty, downMigrations = Map.empty\<rparr>,
      External (\<lambda>db. db\<lparr>version_row := Some (7, False)\<rparr>)]
     \<lparr>available = True, version_row = None\<rparr>)) =
   Inr \<lparr>InitializationStarted = True, Dirty = False, CurrentSchemaVersion = 7,
        BinarySchemaVersion = 0\<rparr>"
proof -
  have r: "fst (snd (preempted_call migrationStates
      \<lparr>dialect = ''postgres'', driver = store_Version\<rparr> None
      [Register ''postgres'' \<lparr>devMigration = False, binarySchemaVersion = 7 :: int64,
         upMigrations = Map.empty, downMigrations = Map.empty\<rparr>,
       External (\<lambda>db. db\<lparr>version_row := Some (7, False)\<rparr>)]
      \<lparr>available = True, version_row = None\<rparr>)) =
    Inr \<lparr>InitializationStarted = True, Dirty = False, CurrentSchemaVersion = 7,
         BinarySchemaVersion = 0\<rparr>"
    by (simp add: preempted_call_eq run_simps Manager_State_eq observe_def state_of_def
        nilVersion_def migrationStates_def del: run.simps(2) step.simps(2))
  from preempted_call_snapshot [OF r] r show ?thesis by simp
qed

text \<open>
  The two moments can be told apart. When the manager's dialect is registered and the
  database is then initialised while a call is between its phases, the call returns a
  state that no call taken as one step returns at any point of that sequence: the binary
  schema version from before the registration with the version from after the
  initialisation. The convention that registrations happen at startup only excludes this
  order; the code does not.
\<close>

theorem preempted_call_torn:
  "fst (snd (preempted_call migrationStates
     \<lparr>dialect = ''postgres'', driver = store_Version\<rparr> None
     [Register ''postgres'' \<lparr>devMigration = False, binarySchemaVersion = 7 :: int64,
        upMigrations = Map.empty, downMigrations = Map.empty\<rparr>,
      External (\<lambda>db. db\<lparr>version_row := Some (7, False)\<rparr>)]
     \<lparr>available = True, version_row = None\<rparr>)) =
   Inr \<lparr>InitializationStarted = True, Dirty = False, CurrentSchemaVersion = 7,
        BinarySchemaVersion = 0\<rparr> \<and>
   fst (run
     [Call \<lparr>dialect = ''postgres'', driver = store_Version\<rparr> None,
      Register ''postgres'' \<lparr>devMigration = False, binarySchemaVersion = 7 :: int64,
        upMigrations = Map.empty, downMigrations = Map.empty\<rparr>,
      External (\<lambda>db. db\<lparr>version_row := Some (7, False)\<rparr>)]
     (migrationStates, \<lparr>available = True, version_row = None\<rparr>)) ! 0 =
   Returned (Inr \<lparr>InitializationStarted = False, Dirty = False, CurrentSchemaVersion = 0,
        BinarySchemaVersion = 0\<rparr>) \<and>
   fst (run
     [Register ''postgres'' \<lparr>devMigration = False, binarySchemaVersion = 7 :: int64,
        upMigrations = Map.empty, downMigrations = Map.empty\<rparr>,
      Call \<lparr>dialect = ''postgres'', driver = store_Version\<rparr> None,
      External (\<lambda>db. db\<lparr>version_row := Some (7, False)\<rparr>)]
     (migrationStates, \<lparr>available = True, version_row = None\<rparr>)) ! 1 =
   Returned (Inr \<lparr>InitializationStarted = False, Dirty = False, CurrentSchemaVersion = 0,
        BinarySchemaVersion = 7\<rparr>) \<and>
   fst (run
     [Register ''postgres'' \<lparr>devMigration = False, binarySchemaVersion = 7 :: int64,
        upMigrations = Map.empty, downMigrations = Map.empty\<rparr>,
      External (\<lambda>db. db\<lparr>version_row := Some (7, False)\<rparr>),
      Call \<lparr>dialect = ''postgres'', driver = store_Version\<rparr> None]
     (migrationStates, \<lparr>available = True, version_row = None\<rparr>)) ! 2 =
   Returned (Inr \<lparr>InitializationStarted = True, Dirty = False, CurrentSchemaVersion = 7,
        BinarySchemaVersion = 7\<rparr>)"
  by (simp add: preempted_call_eq run_simps Manager_State_eq observe_def state_of_def
      nilVersion_def migrationStates_def del: run.simps(2) step.simps(2))

text \<open>
  C34 (safety). Without registrations a call of \<^verbatim>\<open>Manager.State\<close> is atomic: when the
  events that run between its two phases register nothing, the replies, the result of the
  call and the registry and database at the end are those of the same events followed by
  the call as one step. The call takes effect at the moment of its second phase.
\<close>

theorem preempted_call_atomic:
  assumes "\<forall>ev \<in> set mid. \<not> is_Register ev"
  shows "run (mid @ [Call b ctx]) (reg, db) =
    (let (outs, r, s) = preempted_call reg b ctx mid db in (outs @ [Returned r], s))"
  using assms by (simp add: run_snoc_Call preempted_call_eq run_registry_same Let_def)

theorem preempted_call_atomic_witness:
  "run ([External (\<lambda>db. db\<lparr>version_row := Some (7 :: int64, True)\<rparr>),
        Call \<lparr>dialect = ''mysql'', driver = store_Version\<rparr> (Some Canceled)] @
       [Call \<lparr>dialect = ''postgres'', driver = store_Version\<rparr> None])
     (migrationStates, \<lparr>available = True, version_row = None\<rparr>) =
   (let (outs, r, s) = preempted_call migrationStates
        \<lparr>dialect = ''postgres'', driver = store_Version\<rparr> None
        [External (\<lambda>db. db\<lparr>version_row := Some (7 :: int64, True)\<rparr>),
         Call \<lparr>dialect = ''mysql'', driver = store_Version\<rparr> (Some Canceled)]
        \<lparr>available = True, version_row = None\<rparr>
    in (outs @ [Returned r], s))"
  by (rule preempted_call_atomic) simp

end
