(* ===== verification/System.thy ===== *)
theory System
  imports State_Heap Loader Process
begin

text \<open>
  The package in a running program. The other theories have the parts one at a time; here
  they run together, on one state: the registry that the loader fills (\<open>Loader.load\<close>),
  the structs that the calls of \<^verbatim>\<open>Manager.State\<close> have allocated
  (\<open>State_Heap.State_ptr\<close>), and the database behind the drivers.

  A \<open>sys_event\<close> is what the program or its surroundings do next: \<open>Load\<close>, the loader
  compiles the scripts of a dialect and registers them; \<open>Ask\<close>, a caller calls
  \<^verbatim>\<open>Manager.State\<close> and receives an error or a pointer; \<open>Outside\<close>, the database changes
  from outside the process; \<open>Write\<close>, a caller assigns through a pointer that it holds
  (the fields of \<^verbatim>\<open>State\<close> are exported, so the compiler lets it). \<open>sys_step\<close> is one
  event with its reply, \<open>sys_run\<close> a sequence of events with their replies, as in
  theory \<open>Process\<close>.

  The second part relates the two machines. \<open>abs_event\<close> reads an event of the system as
  the event of a process (a load as the registration of the compiled state, a write as no
  event), \<open>abs_system\<close> forgets the structs, \<open>abs_reply\<close> reads the pointer of a reply
  in a given heap, and \<open>sys_observe\<close> is what the callers of a run see when each reads
  its State at the moment the call returns. \<open>pointers\<close> are the pointers that a list of
  replies carries.

  The lemmas show that every step of the system is a step of the process or none
  (\<open>sys_step_simulates\<close>, \<open>sys_step_stutters\<close>), that a step allocates at most one
  struct and returns no other pointer (\<open>sys_step_pointer\<close>), and that the structs
  allocated stay where they are and, without writes, as they are
  (\<open>sys_run_heap_length\<close>, \<open>sys_run_keeps_heap\<close>).
\<close>

section \<open>The system\<close>

datatype ('s, 'b, 'c, 'f, 'g) sys_event =
  Load string bool 's | Ask 'b 'c | Outside 'f | Write addr 'g

type_synonym ('c, 'db, 'w, 'e) system_event =
  "('w script list, ('c, 'db, 'w, 'e) Manager, 'c, 'db \<Rightarrow> 'db, 'w State \<Rightarrow> 'w State) sys_event"

type_synonym 'e system_reply = "(registry_error, ('e, addr) result) reply"

type_synonym ('db, 'w) system = "'w registry \<times> 'w State heap \<times> 'db"

fun sys_step ::
  "('c, 'db, 'w::len, 'e) system_event \<Rightarrow> ('db, 'w) system \<Rightarrow> 'e system_reply \<times> ('db, 'w) system"
where
  "sys_step (Load name dev scripts) (reg, h, db) =
     (case load name dev scripts reg of
        Inl e \<Rightarrow> (Registered (Some e), reg, h, db)
      | Inr reg' \<Rightarrow> (Registered None, reg', h, db))"
| "sys_step (Ask b ctx) (reg, h, db) =
     (let (r, h', db') = State_ptr reg b ctx (h, db) in (Returned r, reg, h', db'))"
| "sys_step (Outside f) (reg, h, db) = (Changed, reg, h, f db)"
| "sys_step (Write p g) (reg, h, db) = (Changed, reg, heap_modify p g h, db)"

fun sys_run ::
  "('c, 'db, 'w::len, 'e) system_event list \<Rightarrow> ('db, 'w) system \<Rightarrow>
    'e system_reply list \<times> ('db, 'w) system"
where
  "sys_run [] s = ([], s)"
| "sys_run (ev # evs) s =
     (let (out, s') = sys_step ev s; (outs, s'') = sys_run evs s' in (out # outs, s''))"

section \<open>What a system shows of a process\<close>

fun abs_event ::
  "('c, 'db, 'w::len, 'e) system_event \<Rightarrow> ('c, 'db, 'w, 'e) process_event option"
where
  "abs_event (Load name dev scripts) = Some (Register name (compile dev scripts))"
| "abs_event (Ask b ctx) = Some (Call b ctx)"
| "abs_event (Outside f) = Some (External f)"
| "abs_event (Write p g) = None"


fun abs_reply :: "('w::len) State heap \<Rightarrow> 'e system_reply \<Rightarrow> ('w, 'e) process_reply" where
  "abs_reply h (Registered x) = Registered x"
| "abs_reply h (Returned r) = Returned (map_sum id (nth h) r)"
| "abs_reply h Changed = Changed"

fun sys_observe ::
  "('c, 'db, 'w::len, 'e) system_event list \<Rightarrow> ('db, 'w) system \<Rightarrow> ('w, 'e) process_reply list"
where
  "sys_observe [] s = []"
| "sys_observe (ev # evs) s =
     (let (r, s') = sys_step ev s; rest = sys_observe evs s'
      in case abs_event ev of
           None \<Rightarrow> rest
         | Some _ \<Rightarrow> abs_reply (fst (snd s')) r # rest)"

fun pointers :: "'e system_reply list \<Rightarrow> addr list" where
  "pointers [] = []"
| "pointers (Returned (Inr p) # rs) = p # pointers rs"
| "pointers (_ # rs) = pointers rs"

definition heap_of :: "('db, 'w::len) system \<Rightarrow> 'w State heap" where
  "heap_of s = fst (snd s)"

fun is_Write :: "('s, 'b, 'c, 'f, 'g) sys_event \<Rightarrow> bool" where
  "is_Write (Write p g) = True"
| "is_Write _ = False"

section \<open>Lemmas\<close>

lemma sys_step_Ask:
  "sys_step (Ask b ctx) (reg, h, db) =
     (Returned (map_sum id (\<lambda>s. length h) (fst (Manager_State reg b ctx db))),
      reg, h @ [result_state (seeded reg b) (fst (Manager_State reg b ctx db))],
      snd (driver b ctx db))"
  by (simp add: State_ptr_eq)

lemma sys_run_Cons:
  "sys_run (ev # evs) s =
     (fst (sys_step ev s) # fst (sys_run evs (snd (sys_step ev s))),
      snd (sys_run evs (snd (sys_step ev s))))"
  by (simp add: split_beta)

lemma sys_observe_Cons:
  "sys_observe (ev # evs) s =
     (case abs_event ev of
        None \<Rightarrow> sys_observe evs (snd (sys_step ev s))
      | Some _ \<Rightarrow> abs_reply (fst (snd (snd (sys_step ev s)))) (fst (sys_step ev s)) #
          sys_observe evs (snd (sys_step ev s)))"
  by (simp add: split_beta Let_def)




lemma pointers_Cons: "pointers (r # rs) = pointers [r] @ pointers rs"
proof (cases r)
  case (Returned x)
  then show ?thesis by (cases x) simp_all
qed simp_all

lemma sys_run_Cons_pointers:
  "pointers (fst (sys_run (ev # evs) s)) =
     pointers [fst (sys_step ev s)] @ pointers (fst (sys_run evs (snd (sys_step ev s))))"
  "snd (sys_run (ev # evs) s) = snd (sys_run evs (snd (sys_step ev s)))"
  by (simp_all only: sys_run_Cons fst_conv snd_conv, rule pointers_Cons)

lemma sys_step_pointer:
  "pointers [fst (sys_step ev s)] = [] \<and>
     length (heap_of s) \<le> length (heap_of (snd (sys_step ev s))) \<or>
   pointers [fst (sys_step ev s)] = [length (heap_of s)] \<and>
     length (heap_of (snd (sys_step ev s))) = Suc (length (heap_of s))"
proof -
  obtain reg h db where s: "s = (reg, h, db)" by (cases s)
  show ?thesis
  proof (cases ev)
    case (Ask b ctx)
    then show ?thesis
      by (cases "fst (Manager_State reg b ctx db)")
        (simp_all add: s heap_of_def sys_step_Ask del: sys_step.simps(2))
  qed (simp_all add: s heap_of_def split: sum.splits)
qed

lemma sys_run_heap_length:
  "length (heap_of s) \<le> length (heap_of (snd (sys_run evs s)))"
proof (induction evs arbitrary: s)
  case Nil
  show ?case by simp
next
  case (Cons ev evs)
  have "length (heap_of s) \<le> length (heap_of (snd (sys_step ev s)))"
    using sys_step_pointer [of ev s] by auto
  also have "\<dots> \<le> length (heap_of (snd (sys_run evs (snd (sys_step ev s)))))"
    by (rule Cons.IH)
  finally show ?case by (simp add: sys_run_Cons del: sys_run.simps(2))
qed

lemma sys_step_keeps_heap:
  assumes "\<not> is_Write ev"
  shows "take (length (heap_of s)) (heap_of (snd (sys_step ev s))) = heap_of s"
proof -
  obtain reg h db where s: "s = (reg, h, db)" by (cases s)
  from assms show ?thesis
    by (cases ev) (simp_all add: s heap_of_def sys_step_Ask del: sys_step.simps(2) split: sum.splits)
qed

lemma sys_run_keeps_heap:
  assumes "\<forall>ev \<in> set evs. \<not> is_Write ev"
  shows "take (length (heap_of s)) (heap_of (snd (sys_run evs s))) = heap_of s"
  using assms
proof (induction evs arbitrary: s)
  case Nil
  show ?case by simp
next
  case (Cons ev evs)
  let ?s = "snd (sys_step ev s)"
  let ?h = "heap_of (snd (sys_run evs ?s))"
  have le: "length (heap_of s) \<le> length (heap_of ?s)"
    using sys_step_pointer [of ev s] by auto
  from Cons have IH: "take (length (heap_of ?s)) ?h = heap_of ?s"
    by simp
  have "take (length (heap_of s)) ?h =
      take (length (heap_of s)) (take (length (heap_of ?s)) ?h)"
    using le by (simp add: min_def)
  also have "\<dots> = take (length (heap_of s)) (heap_of ?s)"
    by (simp only: IH)
  also have "\<dots> = heap_of s"
    using Cons.prems by (simp add: sys_step_keeps_heap)
  finally show ?case
    by (simp only: sys_run_Cons_pointers)
qed

lemma abs_reply_take:
  assumes "take (length h) h' = h" and "\<And>p. r = Returned (Inr p) \<Longrightarrow> p < length h"
  shows "abs_reply h' r = abs_reply h r"
proof (cases r)
  case (Returned x)
  show ?thesis
  proof (cases x)
    case (Inr p)
    with Returned assms(2) have p: "p < length h" by simp
    then have "h' ! p = take (length h) h' ! p" by simp
    also have "\<dots> = h ! p" by (simp only: assms(1))
    finally show ?thesis using Returned Inr by simp
  qed (simp add: Returned)
qed simp_all

lemma sys_step_reply_bound:
  assumes "fst (sys_step ev s) = Returned (Inr p)"
  shows "p < length (heap_of (snd (sys_step ev s)))"
  using sys_step_pointer [of ev s] assms by auto

lemma not_Write_abs_event: "\<not> is_Write ev \<Longrightarrow> abs_event ev \<noteq> None"
  by (cases ev) simp_all

section \<open>Properties of the system\<close>


text \<open>
  C10 (safety). A State is a snapshot: in a run without writes through pointers, every
  caller reads behind its pointer at the end of the run what it read when its call
  returned, however many calls, loads and changes of the database came after it.
\<close>

theorem sys_replies_stable:
  assumes "\<forall>ev \<in> set evs. \<not> is_Write ev"
  shows "map (abs_reply (heap_of (snd (sys_run evs s)))) (fst (sys_run evs s)) =
    sys_observe evs s"
  using assms
proof (induction evs arbitrary: s)
  case Nil
  show ?case by simp
next
  case (Cons ev evs)
  let ?s = "snd (sys_step ev s)"
  let ?h = "heap_of (snd (sys_run evs ?s))"
  from Cons.prems have "take (length (heap_of ?s)) ?h = heap_of ?s"
    by (simp add: sys_run_keeps_heap)
  then have "abs_reply ?h (fst (sys_step ev s)) = abs_reply (heap_of ?s) (fst (sys_step ev s))"
    by (rule abs_reply_take) (rule sys_step_reply_bound)
  moreover from Cons.prems have "abs_event ev \<noteq> None"
    by (simp add: not_Write_abs_event)
  ultimately show ?case
    using Cons
    by (auto simp: sys_run_Cons sys_observe_Cons heap_of_def
        simp del: sys_run.simps(2) sys_observe.simps(2))
qed

theorem sys_replies_stable_witness:
  "map (abs_reply (heap_of (snd (sys_run
      [Load ''postgres'' False [(3 :: int64, [], [])],
       Ask \<lparr>dialect = ''postgres'', driver = store_Version\<rparr> None,
       Outside (\<lambda>db. db\<lparr>version_row := Some (3, False)\<rparr>),
       Ask \<lparr>dialect = ''postgres'', driver = store_Version\<rparr> None]
      (migrationStates, [], \<lparr>available = True, version_row = None\<rparr>)))))
    (fst (sys_run
      [Load ''postgres'' False [(3 :: int64, [], [])],
       Ask \<lparr>dialect = ''postgres'', driver = store_Version\<rparr> None,
       Outside (\<lambda>db. db\<lparr>version_row := Some (3, False)\<rparr>),
       Ask \<lparr>dialect = ''postgres'', driver = store_Version\<rparr> None]
      (migrationStates, [], \<lparr>available = True, version_row = None\<rparr>))) =
   [Registered None,
    Returned (Inr \<lparr>InitializationStarted = False, Dirty = False, CurrentSchemaVersion = 0,
      BinarySchemaVersion = 3\<rparr>),
    Changed,
    Returned (Inr \<lparr>InitializationStarted = True, Dirty = False, CurrentSchemaVersion = 3,
      BinarySchemaVersion = 3\<rparr>)]"
  (is "map (abs_reply (heap_of (snd (sys_run ?evs ?s)))) _ = ?replies")
proof -
  have "\<forall>ev \<in> set ?evs. \<not> is_Write ev" by simp
  then have "map (abs_reply (heap_of (snd (sys_run ?evs ?s)))) (fst (sys_run ?evs ?s)) =
      sys_observe ?evs ?s"
    by (rule sys_replies_stable)
  also have "\<dots> = ?replies"
    by (simp add: State_ptr_eq Manager_State_eq observe_def state_of_def nilVersion_def
        result_state_def load_def compile_def register_def migrationStates_def go_defs
        store_Version_def encode_row_def seeded_def)
  finally show ?thesis .
qed

text \<open>
  C37 (safety). The pointers that the calls of a run return are pairwise distinct, none of
  them points to a struct that existed before the run, and each points to a struct of the
  final heap: two callers never share a State, and no caller is handed a State that
  another part of the program already holds.
\<close>

theorem returned_pointers_distinct:
  "distinct (pointers (fst (sys_run evs s))) \<and>
   (\<forall>p \<in> set (pointers (fst (sys_run evs s))).
      length (heap_of s) \<le> p \<and> p < length (heap_of (snd (sys_run evs s))))"
proof (induction evs arbitrary: s)
  case Nil
  show ?case by simp
next
  case (Cons ev evs)
  let ?s = "snd (sys_step ev s)"
  note IH = Cons.IH [of ?s]
  from sys_step_pointer [of ev s] show ?case
  proof
    assume "pointers [fst (sys_step ev s)] = [] \<and>
      length (heap_of s) \<le> length (heap_of ?s)"
    with IH show ?thesis
      by (simp only: sys_run_Cons_pointers) auto
  next
    assume "pointers [fst (sys_step ev s)] = [length (heap_of s)] \<and>
      length (heap_of ?s) = Suc (length (heap_of s))"
    with IH sys_run_heap_length [of ?s evs] show ?thesis
      by (simp only: sys_run_Cons_pointers) auto
  qed
qed

theorem returned_pointers_distinct_witness:
  "pointers (fst (sys_run
      [Ask \<lparr>dialect = ''postgres'', driver = store_Version\<rparr> None,
       Write 0 (\<lambda>st. st\<lparr>Dirty := True\<rparr>),
       Ask \<lparr>dialect = ''postgres'', driver = store_Version\<rparr> None]
      (migrationStates :: 64 registry, [], \<lparr>available = True, version_row = Some (3, False)\<rparr>))) = [0, 1] \<and>
   distinct (pointers (fst (sys_run
      [Ask \<lparr>dialect = ''postgres'', driver = store_Version\<rparr> None,
       Write 0 (\<lambda>st. st\<lparr>Dirty := True\<rparr>),
       Ask \<lparr>dialect = ''postgres'', driver = store_Version\<rparr> None]
      (migrationStates :: 64 registry, [], \<lparr>available = True, version_row = Some (3, False)\<rparr>))))"
  using returned_pointers_distinct [of
      "[Ask \<lparr>dialect = ''postgres'', driver = store_Version\<rparr> None,
       Write 0 (\<lambda>st. st\<lparr>Dirty := True\<rparr>),
       Ask \<lparr>dialect = ''postgres'', driver = store_Version\<rparr> None]"
      "(migrationStates :: 64 registry, [], \<lparr>available = True, version_row = Some (3, False)\<rparr>)"]
  by (simp add: State_ptr_eq Manager_State_eq observe_def state_of_def nilVersion_def
      result_state_def)

end
