(* ===== verification/System_Invariant.thy ===== *)
theory System_Invariant
  imports System
begin

text \<open>
  The system of theory \<open>System\<close> as a transition relation, and the invariant of its
  reachable states.

  \<^item> \<open>sys_trans\<close> is one event as a relation between the state before, the event, the
    reply and the state after, with one rule for each way out of each operation: a load
    that registers and one that is refused; a call of \<^verbatim>\<open>Manager.State\<close> that returns the
    driver's error, one on a database that is not initialised and one on a database at a
    version; a change of the database; a write through a pointer that points to a struct
    and one through a pointer that does not. \<open>sys_trace\<close> is a sequence of such steps.
    The relation is the specification that the functions \<open>sys_step\<close> and \<open>sys_run\<close>
    are compared with; both relations are given to the predicate compiler, which derives
    equations for them from the rules.
  \<^item> \<open>sys_inv\<close> is the invariant: the registry is well formed (\<open>wf_registry\<close>), and
    every struct of the heap is a well-formed \<^verbatim>\<open>State\<close> whose binary schema version is
    \<open>0\<close> or the version of a registered dialect (\<open>cell_ok\<close>). \<open>event_ok\<close> is what the
    invariant asks of the surroundings: the scripts that are loaded have versions that are
    not negative, and a caller that writes through a pointer leaves the struct well formed
    and its binary schema version as it is (\<open>keeps_State\<close>).

  The lemmas show that the relation is total and deterministic and is the graph of
  \<open>sys_step\<close> (\<open>sys_trans_iff\<close>), that a struct that is fine for a registry is fine
  for every larger one (\<open>cell_ok_mono\<close>), and that every step keeps the invariant, by
  induction over the rules (\<open>sys_trans_inv\<close>, \<open>sys_trace_inv\<close>).
\<close>

section \<open>Steps as a relation\<close>

inductive sys_trans ::
  "('db, 'w::len) system \<Rightarrow> ('c, 'db, 'w, 'e) system_event \<Rightarrow> 'e system_reply \<Rightarrow>
    ('db, 'w) system \<Rightarrow> bool"
where
  loaded:
    "load name dev scripts reg = Inr reg' \<Longrightarrow>
     sys_trans (reg, h, db) (Load name dev scripts) (Registered None) (reg', h, db)"
| refused:
    "load name dev scripts reg = Inl e \<Longrightarrow>
     sys_trans (reg, h, db) (Load name dev scripts) (Registered (Some e)) (reg, h, db)"
| failed:
    "driver b ctx db = ((v, dirty, Some e), db') \<Longrightarrow>
     sys_trans (reg, h, db) (Ask b ctx) (Returned (Inl e)) (reg, h @ [seeded reg b], db')"
| not_initialized:
    "driver b ctx db = ((nilVersion, dirty, None), db') \<Longrightarrow>
     sys_trans (reg, h, db) (Ask b ctx) (Returned (Inr (length h)))
       (reg, h @ [seeded reg b], db')"
| at_version:
    "driver b ctx db = ((v, dirty, None), db') \<Longrightarrow> v \<noteq> nilVersion \<Longrightarrow>
     sys_trans (reg, h, db) (Ask b ctx) (Returned (Inr (length h)))
       (reg, h @ [state_of (Registry.BinarySchemaVersion reg (dialect b)) (AtVersion v dirty)],
        db')"
| outside:
    "sys_trans (reg, h, db) (Outside f) Changed (reg, h, f db)"
| written:
    "p < length h \<Longrightarrow>
     sys_trans (reg, h, db) (Write p g) Changed (reg, h[p := g (h ! p)], db)"
| dangling:
    "length h \<le> p \<Longrightarrow> sys_trans (reg, h, db) (Write p g) Changed (reg, h, db)"

inductive sys_trace ::
  "('db, 'w::len) system \<Rightarrow> ('c, 'db, 'w, 'e) system_event list \<Rightarrow> 'e system_reply list \<Rightarrow>
    ('db, 'w) system \<Rightarrow> bool"
where
  trace_Nil: "sys_trace s [] [] s"
| trace_Cons:
    "sys_trans s ev r s' \<Longrightarrow> sys_trace s' evs rs s'' \<Longrightarrow> sys_trace s (ev # evs) (r # rs) s''"

code_pred sys_trans .

code_pred sys_trace .

section \<open>The invariant\<close>

definition cell_ok :: "('w::len) registry \<Rightarrow> 'w State \<Rightarrow> bool" where
  "cell_ok reg st \<longleftrightarrow>
     wf_State st \<and>
     (BinarySchemaVersion st = 0 \<or>
      (\<exists>name \<in> dom reg. BinarySchemaVersion st = Registry.BinarySchemaVersion reg name))"

definition sys_inv :: "('db, 'w::len) system \<Rightarrow> bool" where
  "sys_inv s \<longleftrightarrow> wf_registry (fst s) \<and> (\<forall>st \<in> set (heap_of s). cell_ok (fst s) st)"

definition keeps_State :: "(('w::len) State \<Rightarrow> 'w State) \<Rightarrow> bool" where
  "keeps_State g \<longleftrightarrow>
     (\<forall>st. wf_State st \<longrightarrow>
        wf_State (g st) \<and> BinarySchemaVersion (g st) = BinarySchemaVersion st)"

fun event_ok :: "('c, 'db, 'w::len, 'e) system_event \<Rightarrow> bool" where
  "event_ok (Load name dev scripts) = nonneg_versions scripts"
| "event_ok (Write p g) = keeps_State g"
| "event_ok _ = True"

section \<open>Lemmas\<close>


lemma sys_step_Ask_cases:
  "driver b ctx db = ((v, dirty, Some e), db') \<Longrightarrow>
     sys_step (Ask b ctx) (reg, h, db) = (Returned (Inl e), reg, h @ [seeded reg b], db')"
  "driver b ctx db = ((nilVersion, dirty, None), db') \<Longrightarrow>
     sys_step (Ask b ctx) (reg, h, db) =
       (Returned (Inr (length h)), reg, h @ [seeded reg b], db')"
  "driver b ctx db = ((v, dirty, None), db') \<Longrightarrow> v \<noteq> nilVersion \<Longrightarrow>
     sys_step (Ask b ctx) (reg, h, db) =
       (Returned (Inr (length h)), reg,
        h @ [state_of (Registry.BinarySchemaVersion reg (dialect b)) (AtVersion v dirty)], db')"
  by (simp_all add: State_ptr_eq Manager_State_simps result_state_def seeded_def state_of_def)

lemma sys_trans_iff: "sys_trans s ev r s' \<longleftrightarrow> sys_step ev s = (r, s')"
proof
  assume "sys_trans s ev r s'"
  then show "sys_step ev s = (r, s')"
    by cases (simp_all add: sys_step_Ask_cases heap_modify_def del: sys_step.simps(2))
next
  obtain reg h db where s: "s = (reg, h, db)" by (cases s)
  assume step: "sys_step ev s = (r, s')"
  show "sys_trans s ev r s'"
  proof (cases ev)
    case (Load name dev scripts)
    with step show ?thesis
      by (cases "load name dev scripts reg") (auto simp: s intro: sys_trans.intros)
  next
    case (Ask b ctx)
    with step show ?thesis
      by (cases "driver b ctx db" rule: driver_answer_cases)
        (auto simp: s sys_step_Ask_cases simp del: sys_step.simps(2) intro: sys_trans.intros)
  next
    case (Outside f)
    with step show ?thesis by (auto simp: s intro: sys_trans.intros)
  next
    case (Write p g)
    with step show ?thesis
      by (cases "p < length h") (auto simp: s heap_modify_def intro: sys_trans.intros)
  qed
qed

lemma sys_trans_step: "sys_trans s ev (fst (sys_step ev s)) (snd (sys_step ev s))"
  by (simp add: sys_trans_iff)

lemma sys_trans_total: "\<exists>r s'. sys_trans s ev r s'"
  using sys_trans_step by blast

lemma sys_trans_deterministic:
  "sys_trans s ev r s' \<Longrightarrow> sys_trans s ev r' s'' \<Longrightarrow> r' = r \<and> s'' = s'"
  by (simp add: sys_trans_iff)

lemma cell_ok_cases [consumes 1, case_names zero registered]:
  assumes "cell_ok reg st"
  obtains "BinarySchemaVersion st = 0"
  | name where "name \<in> dom reg" and "BinarySchemaVersion st = Registry.BinarySchemaVersion reg name"
  using assms by (auto simp: cell_ok_def)

lemma cell_ok_mono:
  assumes "reg \<subseteq>\<^sub>m reg'" and "cell_ok reg st"
  shows "cell_ok reg' st"
  using assms(2)
proof (cases rule: cell_ok_cases)
  case zero
  with assms(2) show ?thesis by (simp add: cell_ok_def)
next
  case (registered name)
  from registered(1) assms(1) have "name \<in> dom reg'"
    by (auto dest: map_le_implies_dom_le)
  moreover from accessors_map_le(2) [OF assms(1) registered(1)] registered(2)
  have "BinarySchemaVersion st = Registry.BinarySchemaVersion reg' name"
    by simp
  ultimately show ?thesis
    using assms(2) by (auto simp: cell_ok_def)
qed

lemma wf_registry_BinarySchemaVersion:
  "wf_registry reg \<Longrightarrow> 0 \<le> sint (Registry.BinarySchemaVersion reg name)"
  using wf_migrationState_nonneg [OF wf_registry_go_index, of reg name] by (simp add: go_defs)

lemma cell_ok_accessor:
  assumes "wf_State st" and "BinarySchemaVersion st = Registry.BinarySchemaVersion reg name"
  shows "cell_ok reg st"
  using assms BinarySchemaVersion_registered [of reg name]
  by (cases "name \<in> dom reg") (auto simp: cell_ok_def)

lemma cell_ok_seeded: "cell_ok reg (seeded reg b)"
  by (rule cell_ok_accessor [of _ _ "dialect b"]) (simp_all add: seeded_def state_of_def wf_State_def)

lemma cell_ok_at_version:
  "v \<noteq> nilVersion \<Longrightarrow>
     cell_ok reg (state_of (Registry.BinarySchemaVersion reg (dialect b)) (AtVersion v dirty))"
  by (rule cell_ok_accessor [of _ _ "dialect b"]) (simp_all add: state_of_def wf_State_def)

lemma cell_ok_keeps: "keeps_State g \<Longrightarrow> cell_ok reg st \<Longrightarrow> cell_ok reg (g st)"
  by (simp add: keeps_State_def cell_ok_def)

lemma sys_trans_inv:
  assumes "sys_trans s ev r s'" and "event_ok ev" and "sys_inv s"
  shows "sys_inv s'"
  using assms
proof (induction rule: sys_trans.induct)
  case (loaded name dev scripts reg reg' h db)
  then have reg: "register name (compile dev scripts) reg = Inr reg'"
    by (simp add: load_def)
  from loaded.prems have "wf_registry reg" and "nonneg_versions scripts"
    by (simp_all add: sys_inv_def)
  then have "wf_registry reg'"
    by (rule wf_registry_register [OF _ compile_wf_aux reg])
  with loaded.prems(2) register_map_le [OF reg] show ?case
    by (auto simp: sys_inv_def heap_of_def intro: cell_ok_mono)
next
  case (written p h reg g db)
  then show ?case
    by (auto simp: sys_inv_def heap_of_def cell_ok_keeps dest!: set_update_subset_insert [THEN subsetD])
qed (auto simp: sys_inv_def heap_of_def cell_ok_seeded cell_ok_at_version)

lemma sys_trace_inv:
  assumes "sys_trace s evs rs s'" and "\<forall>ev \<in> set evs. event_ok ev" and "sys_inv s"
  shows "sys_inv s'"
  using assms
  by (induction rule: sys_trace.induct) (auto intro: sys_trans_inv)

lemma sys_inv_initial: "sys_inv (migrationStates, [], db)"
  by (simp add: sys_inv_def heap_of_def)

lemma sys_inv_cell:
  assumes "sys_inv s" and "st \<in> set (heap_of s)"
  shows "wf_State st" and "0 \<le> sint (BinarySchemaVersion st)"
    and "BinarySchemaVersion st \<noteq> nilVersion"
proof -
  from assms have c: "cell_ok (fst s) st" and reg: "wf_registry (fst s)"
    by (simp_all add: sys_inv_def)
  from c show "wf_State st" by (simp add: cell_ok_def)
  from c show nonneg: "0 \<le> sint (BinarySchemaVersion st)"
    by (cases rule: cell_ok_cases) (simp_all add: wf_registry_BinarySchemaVersion [OF reg])
  then show "BinarySchemaVersion st \<noteq> nilVersion"
    by (auto simp: nilVersion_def)
qed

lemma sys_step_inv:
  "event_ok ev \<Longrightarrow> sys_inv s \<Longrightarrow> sys_inv (snd (sys_step ev s))"
  using sys_trans_step by (rule sys_trans_inv)

lemma sys_run_inv:
  assumes "\<forall>ev \<in> set evs. event_ok ev" and "sys_inv s"
  shows "sys_inv (snd (sys_run evs s))"
  using assms
  by (induction evs arbitrary: s) (simp_all add: sys_run_Cons sys_step_inv del: sys_run.simps(2))

lemma sys_run_reply_bound:
  assumes "Returned (Inr p) \<in> set (fst (sys_run evs s))"
  shows "p < length (heap_of (snd (sys_run evs s)))"
  using assms
proof (induction evs arbitrary: s)
  case Nil
  then show ?case by simp
next
  case (Cons ev evs)
  let ?s = "snd (sys_step ev s)"
  from Cons.prems consider "fst (sys_step ev s) = Returned (Inr p)"
    | "Returned (Inr p) \<in> set (fst (sys_run evs ?s))"
    by (auto simp: sys_run_Cons simp del: sys_run.simps(2))
  then have "p < length (heap_of (snd (sys_run evs ?s)))"
  proof cases
    case 1
    then have "p < length (heap_of ?s)" by (rule sys_step_reply_bound)
    also have "\<dots> \<le> length (heap_of (snd (sys_run evs ?s)))" by (rule sys_run_heap_length)
    finally show ?thesis .
  next
    case 2
    then show ?thesis by (rule Cons.IH)
  qed
  then show ?case by (simp add: sys_run_Cons del: sys_run.simps(2))
qed

section \<open>Properties of the reachable states\<close>


text \<open>
  C7 (invariant). In every state that the system reaches from its start, with an empty
  registry and no struct allocated, by loads of scripts with versions that are not
  negative, calls of \<^verbatim>\<open>Manager.State\<close>, changes of the database and writes that keep a
  \<^verbatim>\<open>State\<close> well formed: the registry is well formed, every struct of the heap is a
  well-formed \<^verbatim>\<open>State\<close> whose binary schema version is not negative and so not the
  sentinel, and every pointer that a call has returned points to a struct of the heap.
\<close>

theorem sys_reachable_invariant:
  assumes "\<forall>ev \<in> set evs. event_ok ev"
    and "sys_run evs (migrationStates, [], db) = (rs, reg, h, db')"
  shows "wf_registry reg \<and>
    (\<forall>st \<in> set h. wf_State st \<and> 0 \<le> sint (BinarySchemaVersion st) \<and>
       BinarySchemaVersion st \<noteq> nilVersion) \<and>
    (\<forall>p. Returned (Inr p) \<in> set rs \<longrightarrow> p < length h)"
proof -
  from assms have inv: "sys_inv (reg, h, db')"
    using sys_run_inv [OF assms(1) sys_inv_initial, of db] by simp
  then have "wf_registry reg"
    by (simp add: sys_inv_def)
  moreover from inv have "\<forall>st \<in> set h. wf_State st \<and> 0 \<le> sint (BinarySchemaVersion st) \<and>
      BinarySchemaVersion st \<noteq> nilVersion"
    by (auto simp: heap_of_def dest: sys_inv_cell)
  moreover have "\<forall>p. Returned (Inr p) \<in> set rs \<longrightarrow> p < length h"
    using sys_run_reply_bound [of _ evs "(migrationStates, [], db)"] assms(2)
    by (simp add: heap_of_def)
  ultimately show ?thesis by simp
qed

theorem sys_reachable_invariant_witness:
  "wf_registry (fst (snd (sys_run
      [Load ''postgres'' False [(3 :: int64, [], [])],
       Ask \<lparr>dialect = ''postgres'', driver = store_Version\<rparr> None,
       Write 0 (\<lambda>st. st\<lparr>Dirty := False\<rparr>),
       Outside (\<lambda>db. db\<lparr>version_row := Some (3, True)\<rparr>),
       Ask \<lparr>dialect = ''postgres'', driver = store_Version\<rparr> None]
      (migrationStates, [], \<lparr>available = True, version_row = None\<rparr>))))"
  (is "wf_registry (fst (snd (sys_run ?evs ?s)))")
proof -
  have ok: "\<forall>ev \<in> set ?evs. event_ok ev"
    by (simp add: nonneg_versions_def keeps_State_def wf_State_def)
  have run: "sys_run ?evs ?s = (fst (sys_run ?evs ?s), fst (snd (sys_run ?evs ?s)),
      fst (snd (snd (sys_run ?evs ?s))), snd (snd (snd (sys_run ?evs ?s))))"
    by simp
  from sys_reachable_invariant [OF ok run] show ?thesis by (rule conjunct1)
qed

end
