(* ===== verification/Aead_Plugin.thy ===== *)
theory Aead_Plugin
  imports Go_Prelude
begin

text \<open>
  The executable of the AEAD key-management plugin,
  \<^verbatim>\<open>src/plugins/kms/mains/aead/main.go\<close>. Its \<^verbatim>\<open>main\<close> hands a new AEAD wrapper and
  the option of a null logger to the plugin server of the wrapping library, and turns the
  server's return into the exit of the process: on an error it prints one line and exits
  with status 1, otherwise it exits with status 0.

  The server, the wrapper and the logger belong to libraries; the model keeps of them what
  \<^verbatim>\<open>main\<close> passes and receives. \<open>AeadWrapper\<close> is the value of \<^verbatim>\<open>aead.NewWrapper()\<close>,
  \<open>NullLogger\<close> of \<^verbatim>\<open>hclog.NewNullLogger()\<close>, \<open>WithLogger\<close> the option constructor. The
  server is a parameter of \<open>main\<close>: a function from the wrapper and the options to what
  the call does, \<open>None\<close> when it serves forever and never returns, \<open>Some None\<close> when it
  returns \<^verbatim>\<open>nil\<close>, \<open>Some (Some err)\<close> when it returns the error \<open>err\<close>. The second
  parameter is the method \<^verbatim>\<open>Error()\<close> of the error type, which \<^verbatim>\<open>fmt.Println\<close> calls to
  print the error. \<open>Println\<close> is \<^verbatim>\<open>fmt.Println\<close> on operands already formatted, a
  string as itself and an error as its message: it puts a space between operands and a
  line feed at the end. \<open>main\<close> returns \<open>None\<close> when the process does not exit, and else the
  standard output written and the status passed to \<^verbatim>\<open>os.Exit\<close>.

  The lemmas show when the process exits and with which status and output.
\<close>

section \<open>Data\<close>

datatype wrapper = AeadWrapper

datatype logger = NullLogger

datatype serve_option = WithLogger logger

type_synonym 'e plugin_server = "wrapper \<Rightarrow> serve_option list \<Rightarrow> 'e option option"

record process_exit =
  stdout :: string
  exit_status :: nat

section \<open>The program\<close>

definition newline :: char where
  "newline = CHR 0x0A"

fun Println :: "string list \<Rightarrow> string" where
  "Println [] = [newline]"
| "Println [a] = a @ [newline]"
| "Println (a # b # operands) = a @ '' '' @ Println (b # operands)"

definition main :: "'e plugin_server \<Rightarrow> ('e \<Rightarrow> string) \<Rightarrow> process_exit option" where
  "main ServePlugin Error =
     (case ServePlugin AeadWrapper [WithLogger NullLogger] of
        None \<Rightarrow> None
      | Some (Some err) \<Rightarrow>
          Some \<lparr>stdout = Println [''Error serving plugin'', Error err],
                exit_status = 1\<rparr>
      | Some None \<Rightarrow> Some \<lparr>stdout = [], exit_status = 0\<rparr>)"

section \<open>Lemmas\<close>

lemma main_simps:
  "ServePlugin AeadWrapper [WithLogger NullLogger] = None \<Longrightarrow> main ServePlugin Error = None"
  "ServePlugin AeadWrapper [WithLogger NullLogger] = Some None \<Longrightarrow>
     main ServePlugin Error = Some \<lparr>stdout = [], exit_status = 0\<rparr>"
  "ServePlugin AeadWrapper [WithLogger NullLogger] = Some (Some err) \<Longrightarrow>
     main ServePlugin Error =
       Some \<lparr>stdout = ''Error serving plugin'' @ '' '' @ Error err @ [newline],
             exit_status = 1\<rparr>"
  by (simp_all add: main_def)

lemma server_cases [case_names serves nil error]:
  fixes r :: "'e option option"
  obtains "r = None" | "r = Some None" | err where "r = Some (Some err)"
  by (cases r) auto

lemma main_Some_iff:
  "main ServePlugin Error = Some p \<longleftrightarrow>
     (ServePlugin AeadWrapper [WithLogger NullLogger] = Some None \<and>
        p = \<lparr>stdout = [], exit_status = 0\<rparr>) \<or>
     (\<exists>err. ServePlugin AeadWrapper [WithLogger NullLogger] = Some (Some err) \<and>
        p = \<lparr>stdout = ''Error serving plugin'' @ '' '' @ Error err @ [newline],
             exit_status = 1\<rparr>)"
  by (cases "ServePlugin AeadWrapper [WithLogger NullLogger]" rule: server_cases)
    (auto simp: main_simps)

section \<open>Properties of the program\<close>

text \<open>
  C23 (functional). When the process exits, its status is \<open>0\<close> exactly if the plugin server
  returned without an error, and \<open>1\<close> exactly if it returned an error; there is no other
  status.
\<close>

theorem main_exit_status:
  assumes "main ServePlugin Error = Some p"
  shows "(exit_status p = 0 \<longleftrightarrow> ServePlugin AeadWrapper [WithLogger NullLogger] = Some None) \<and>
    (exit_status p = 1 \<longleftrightarrow>
      (\<exists>err. ServePlugin AeadWrapper [WithLogger NullLogger] = Some (Some err))) \<and>
    exit_status p \<le> 1"
  using assms by (auto simp: main_Some_iff)

theorem main_exit_status_witness:
  "exit_status \<lparr>stdout = ''Error serving plugin boom'' @ [newline], exit_status = 1\<rparr> = 1 \<and>
   main (\<lambda>w opts. Some (Some ''boom'')) id =
     Some \<lparr>stdout = ''Error serving plugin boom'' @ [newline], exit_status = 1\<rparr>"
proof -
  have "main (\<lambda>w opts. Some (Some ''boom'')) id =
     Some \<lparr>stdout = ''Error serving plugin boom'' @ [newline], exit_status = 1\<rparr>"
    by (simp add: main_def)
  from this main_exit_status [OF this] show ?thesis by simp
qed

text \<open>
  C24 (functional). A process that exits with status \<open>0\<close> has written nothing to its
  standard output; one that exits with status \<open>1\<close> has written exactly the line
  \<^verbatim>\<open>Error serving plugin\<close>, a space, the error's message and a line feed.
\<close>

theorem main_stdout:
  assumes "main ServePlugin Error = Some p"
  shows "stdout p =
    (case ServePlugin AeadWrapper [WithLogger NullLogger] of
       Some (Some err) \<Rightarrow> ''Error serving plugin '' @ Error err @ [newline]
     | _ \<Rightarrow> [])"
  using assms by (auto simp: main_Some_iff)

theorem main_stdout_witness:
  "stdout \<lparr>stdout = [], exit_status = 0\<rparr> = [] \<and>
   main (\<lambda>w opts. Some (None :: string option)) id = Some \<lparr>stdout = [], exit_status = 0\<rparr>"
proof -
  have "main (\<lambda>w opts. Some (None :: string option)) id =
      Some \<lparr>stdout = [], exit_status = 0\<rparr>"
    by (simp add: main_def)
  from this main_stdout [OF this] show ?thesis by simp
qed


end
