(* ===== verification/Kms_Assets.thy ===== *)
theory Kms_Assets
  imports Go_Prelude "HOL-Library.Sublist"
begin

text \<open>
  The file system of the plugin assets built for \<^verbatim>\<open>windows_386\<close>,
  \<^verbatim>\<open>src/sdk/kms/assets_windows_386.go\<close>. The file embeds the directory
  \<^verbatim>\<open>assets/windows_386\<close> in the variable \<^verbatim>\<open>content\<close>, and \<^verbatim>\<open>FileSystem\<close> returns the
  sub tree of \<^verbatim>\<open>content\<close> rooted at \<^verbatim>\<open>contentDir\<close>, or panics when the operation
  \<^verbatim>\<open>fs.Sub\<close> returns an error.

  \<^item> \<open>contentDir\<close> is the constant, \<open>FileSystem\<close> the function. The embedded file
    system is an argument of \<open>FileSystem\<close>, since its content is fixed only when the
    program is built; \<open>content_embedded\<close> is what the directive \<^verbatim>\<open>go:embed\<close> guarantees of
    it, that it holds the directory (theory \<open>Go_Embed\<close> has the directive and derives
    this from it). The operation \<^verbatim>\<open>fs.Sub\<close> is an argument as well, and
    \<open>Sub\<close> below is the one the program is linked with.
  \<^item> A file system (\<open>'f FS\<close>) is its method \<^verbatim>\<open>Open\<close>: a function from a name to a file
    of type \<open>'f\<close> or a \<^verbatim>\<open>PathError\<close>. Every error of an embedded file system is a
    \<^verbatim>\<open>PathError\<close>. Reading a file or a directory once it is open is not modelled.
  \<^item> \<open>ValidString\<close>, \<open>ValidPath\<close>, \<open>path_Join\<close>, \<open>fullName\<close>, \<open>shorten\<close>,
    \<open>fixErr\<close>, \<open>subFS_Open\<close> and \<open>Sub\<close> are the functions of the packages
    \<^verbatim>\<open>unicode/utf8\<close>, \<^verbatim>\<open>path\<close> and \<^verbatim>\<open>io/fs\<close> of the Go standard library that a call
    of \<^verbatim>\<open>fs.Sub\<close> on an embedded file system and a call of \<^verbatim>\<open>Open\<close> on its result run,
    after their documentation. Strings are lists of bytes. \<open>first\<close> and \<open>accepts\<close> are
    the table of leading bytes and the ranges of the bytes that follow of the UTF-8
    decoder; \<open>ValidPath_elems\<close> is the loop of \<^verbatim>\<open>ValidPath\<close> over the elements of a
    name, \<open>elem_end\<close> its inner loop. \<open>path_Join\<close> is \<^verbatim>\<open>path.Join\<close> on the arguments
    the sub tree passes to it, a valid directory other than \<^verbatim>\<open>.\<close> and a valid name, where
    cleaning the joined path only removes a final \<^verbatim>\<open>/.\<close>. The branch of \<^verbatim>\<open>fs.Sub\<close> for a
    file system with a method \<^verbatim>\<open>Sub\<close> of its own is left out: an embedded file system has
    none.
  \<^item> \<open>split_slash\<close> and \<open>valid_elem\<close> are the reference definition of a valid path: the
    elements between the slashes, none of them empty, \<^verbatim>\<open>.\<close> or \<^verbatim>\<open>..\<close>.
  \<^item> \<open>embed_Open\<close> is the method \<^verbatim>\<open>Open\<close> of \<^verbatim>\<open>embed.FS\<close>, the type of
    \<^verbatim>\<open>content\<close>: an \<open>embed_FS\<close> is the list of the embedded files and directories by
    their full names, \<open>embed_lookup\<close> finds a name in it (the root for \<^verbatim>\<open>.\<close>, nothing
    for an invalid name), and a name that is not found is the error \<^verbatim>\<open>ErrNotExist\<close>
    with the name as asked. The search of the sorted list is abstracted to a lookup by
    name.

  The lemmas show that the loop of \<^verbatim>\<open>ValidPath\<close> decides the reference definition
  (\<open>ValidPath_iff\<close>), that valid paths are closed under joining, that shortening undoes
  joining, and that \<open>FileSystem\<close> never panics, confines every access to the embedded
  directory and reports errors under the caller's names.
\<close>

section \<open>UTF-8\<close>

type_synonym byte_range = "nat \<times> nat"

definition locb_hicb :: byte_range where
  "locb_hicb = (0x80, 0xBF)"

definition first :: "char \<Rightarrow> byte_range list option" where
  "first c =
     (let b = of_char c :: nat in
      if b < 0x80 then Some []
      else if 0xC2 \<le> b \<and> b \<le> 0xDF then Some [locb_hicb]
      else if b = 0xE0 then Some [(0xA0, 0xBF), locb_hicb]
      else if b = 0xED then Some [(0x80, 0x9F), locb_hicb]
      else if 0xE1 \<le> b \<and> b \<le> 0xEF then Some [locb_hicb, locb_hicb]
      else if b = 0xF0 then Some [(0x90, 0xBF), locb_hicb, locb_hicb]
      else if 0xF1 \<le> b \<and> b \<le> 0xF3 then Some [locb_hicb, locb_hicb, locb_hicb]
      else if b = 0xF4 then Some [(0x80, 0x8F), locb_hicb, locb_hicb]
      else None)"

fun accepts :: "byte_range list \<Rightarrow> string \<Rightarrow> bool" where
  "accepts [] cs = True"
| "accepts (r # rs) [] = False"
| "accepts (r # rs) (c # cs) \<longleftrightarrow> fst r \<le> of_char c \<and> of_char c \<le> snd r \<and> accepts rs cs"

function ValidString :: "string \<Rightarrow> bool" where
  "ValidString [] = True"
| "ValidString (c # cs) =
     (case first c of
        None \<Rightarrow> False
      | Some rs \<Rightarrow> accepts rs cs \<and> ValidString (drop (length rs) cs))"
  by pat_completeness auto

termination ValidString
  by (relation "measure length") auto

section \<open>Paths\<close>

definition elem_end :: "string \<Rightarrow> nat" where
  "elem_end name = length (takeWhile (\<lambda>c. c \<noteq> CHR ''/'') name)"

function ValidPath_elems :: "string \<Rightarrow> bool" where
  "ValidPath_elems name =
     (let i = elem_end name; elem = take i name
      in if elem = [] \<or> elem = ''.'' \<or> elem = ''..'' then False
         else if i = length name then True
         else ValidPath_elems (drop (i + 1) name))"
  by pat_completeness auto

termination ValidPath_elems
  by (relation "measure length") (auto simp: elem_end_def)

declare ValidPath_elems.simps [simp del]

definition ValidPath :: "string \<Rightarrow> bool" where
  "ValidPath name =
     (if \<not> ValidString name then False
      else if name = ''.'' then True
      else ValidPath_elems name)"

fun split_slash :: "string \<Rightarrow> string list" where
  "split_slash [] = [[]]"
| "split_slash (c # cs) =
     (if c = CHR ''/'' then [] # split_slash cs
      else (case split_slash cs of [] \<Rightarrow> [[c]] | e # es \<Rightarrow> (c # e) # es))"

definition valid_elem :: "string \<Rightarrow> bool" where
  "valid_elem e \<longleftrightarrow> e \<noteq> [] \<and> e \<noteq> ''.'' \<and> e \<noteq> ''..''"

section \<open>File systems\<close>

datatype fs_error = ErrInvalid | ErrPermission | ErrExist | ErrNotExist | ErrClosed

record PathError =
  Op :: string
  Path :: string
  Err :: fs_error

type_synonym 'f FS = "string \<Rightarrow> (PathError, 'f) result"

definition path_Join :: "string \<Rightarrow> string \<Rightarrow> string" where
  "path_Join dir name = (if name = ''.'' then dir else dir @ ''/'' @ name)"

definition fullName :: "string \<Rightarrow> string \<Rightarrow> string \<Rightarrow> (PathError, string) result" where
  "fullName dir opn name =
     (if \<not> ValidPath name then Inl \<lparr>Op = opn, Path = name, Err = ErrInvalid\<rparr>
      else Inr (path_Join dir name))"

definition shorten :: "string \<Rightarrow> string \<Rightarrow> string option" where
  "shorten dir name =
     (if name = dir then Some ''.''
      else if length name \<ge> length dir + 2 \<and> name ! length dir = CHR ''/'' \<and>
          take (length dir) name = dir
        then Some (drop (length dir + 1) name)
      else None)"

definition fixErr :: "string \<Rightarrow> PathError \<Rightarrow> PathError" where
  "fixErr dir e = (case shorten dir (Path e) of Some short \<Rightarrow> e\<lparr>Path := short\<rparr> | None \<Rightarrow> e)"

definition subFS_Open :: "'f FS \<Rightarrow> string \<Rightarrow> 'f FS" where
  "subFS_Open fsys dir name =
     (case fullName dir ''open'' name of
        Inl err \<Rightarrow> Inl err
      | Inr full \<Rightarrow> map_sum (fixErr dir) id (fsys full))"

definition Sub :: "'f FS \<Rightarrow> string \<Rightarrow> (PathError, 'f FS) result" where
  "Sub fsys dir =
     (if \<not> ValidPath dir then Inl \<lparr>Op = ''sub'', Path = dir, Err = ErrInvalid\<rparr>
      else if dir = ''.'' then Inr fsys
      else Inr (subFS_Open fsys dir))"

section \<open>The asset file system\<close>

definition contentDir :: string where
  "contentDir = ''assets/windows_386''"

definition FileSystem ::
  "('f FS \<Rightarrow> string \<Rightarrow> ('p, 'f FS) result) \<Rightarrow> 'f FS \<Rightarrow> ('p, 'f FS) outcome" where
  "FileSystem fs_Sub content =
     (case fs_Sub content contentDir of Inl err \<Rightarrow> Panics err | Inr f \<Rightarrow> Returns f)"

definition content_embedded :: "'f FS \<Rightarrow> bool" where
  "content_embedded content \<longleftrightarrow> \<not> isl (content contentDir)"

section \<open>Embedded file systems\<close>

type_synonym 'f embed_FS = "(string \<times> 'f) list"

definition embed_lookup :: "'f \<Rightarrow> 'f embed_FS \<Rightarrow> string \<Rightarrow> 'f option" where
  "embed_lookup dot files name =
     (if \<not> ValidPath name then None
      else if name = ''.'' then Some dot
      else map_of files name)"

definition embed_Open :: "'f \<Rightarrow> 'f embed_FS \<Rightarrow> 'f FS" where
  "embed_Open dot files name =
     (case embed_lookup dot files name of
        None \<Rightarrow> Inl \<lparr>Op = ''open'', Path = name, Err = ErrNotExist\<rparr>
      | Some file \<Rightarrow> Inr file)"

section \<open>Lemmas\<close>

lemma elem_end_le: "elem_end name \<le> length name"
  by (simp add: elem_end_def length_takeWhile_le)

lemma elem_end_Nil [simp]: "elem_end [] = 0"
  by (simp add: elem_end_def)

lemma elem_end_Cons [simp]:
  "elem_end (c # cs) = (if c = CHR ''/'' then 0 else Suc (elem_end cs))"
  by (simp add: elem_end_def)

lemma split_slash_neq_Nil [simp]: "split_slash name \<noteq> []"
  by (induction name) (simp_all split: list.splits)

lemma split_slash_unfold:
  "split_slash name =
     take (elem_end name) name #
       (if elem_end name = length name then [] else split_slash (drop (elem_end name + 1) name))"
proof (induction name)
  case Nil
  then show ?case by simp
next
  case (Cons c cs)
  then show ?case by (cases "split_slash cs") (auto split: if_splits)
qed

lemma ValidPath_elems_unfold:
  "ValidPath_elems name \<longleftrightarrow>
     valid_elem (take (elem_end name) name) \<and>
     (elem_end name = length name \<or> ValidPath_elems (drop (elem_end name + 1) name))"
  by (subst ValidPath_elems.simps) (auto simp: Let_def valid_elem_def)

lemma ValidPath_elems_iff: "ValidPath_elems name \<longleftrightarrow> list_all valid_elem (split_slash name)"
proof (induction name rule: ValidPath_elems.induct)
  case (1 name)
  show ?case
  proof (cases "valid_elem (take (elem_end name) name) \<and> elem_end name \<noteq> length name")
    case True
    then have "\<not> (take (elem_end name) name = [] \<or> take (elem_end name) name = ''.'' \<or>
        take (elem_end name) name = ''..'')" and "elem_end name \<noteq> length name"
      by (simp_all add: valid_elem_def)
    then have "ValidPath_elems (drop (elem_end name + 1) name) \<longleftrightarrow>
        list_all valid_elem (split_slash (drop (elem_end name + 1) name))"
      by (rule 1 [OF refl refl])
    with True show ?thesis
      by (subst ValidPath_elems_unfold, subst split_slash_unfold) simp
  next
    case False
    then show ?thesis
      by (subst ValidPath_elems_unfold, subst split_slash_unfold)
        (cases "elem_end name = length name", simp_all)
  qed
qed

lemma accepts_length: "accepts rs cs \<Longrightarrow> length rs \<le> length cs"
  by (induction rs cs rule: accepts.induct) simp_all

lemma accepts_append: "accepts rs cs \<Longrightarrow> accepts rs (cs @ ds)"
  by (induction rs cs rule: accepts.induct) simp_all

lemma ValidString_append:
  "ValidString s \<Longrightarrow> ValidString t \<Longrightarrow> ValidString (s @ t)"
  by (induction s rule: ValidString.induct)
    (auto split: option.splits simp: accepts_append dest: accepts_length)

lemma first_ascii: "of_char c < (0x80 :: nat) \<Longrightarrow> first c = Some []"
  by (simp add: first_def)

lemma ValidString_ascii: "\<forall>c \<in> set s. of_char c < (0x80 :: nat) \<Longrightarrow> ValidString s"
  by (induction s) (simp_all add: first_ascii)

lemma split_slash_append:
  "split_slash (s @ CHR ''/'' # t) = split_slash s @ split_slash t"
  by (induction s) (auto split: list.splits)

lemma ValidPath_iff:
  "ValidPath name \<longleftrightarrow>
     ValidString name \<and> (name = ''.'' \<or> list_all valid_elem (split_slash name))"
  by (auto simp: ValidPath_def ValidPath_elems_iff)

lemma not_ValidPath_Nil [simp]: "\<not> ValidPath []"
  by (simp add: ValidPath_iff valid_elem_def)

lemma first_slash [simp]: "first CHR ''/'' = Some []"
  by (simp add: first_def)

lemma ValidPath_append:
  assumes "ValidPath dir" "dir \<noteq> ''.''" "ValidPath name" "name \<noteq> ''.''"
  shows "ValidPath (dir @ CHR ''/'' # name)"
proof -
  from assms have "ValidString (dir @ CHR ''/'' # name)"
    by (intro ValidString_append) (simp_all add: ValidPath_iff)
  with assms show ?thesis
    by (simp add: ValidPath_iff split_slash_append)
qed

lemma ValidPath_Join:
  "ValidPath dir \<Longrightarrow> dir \<noteq> ''.'' \<Longrightarrow> ValidPath name \<Longrightarrow> ValidPath (path_Join dir name)"
  by (simp add: path_Join_def ValidPath_append)

lemma prefix_Join: "prefix dir (path_Join dir name)"
  by (simp add: path_Join_def)

lemma path_Join_cases:
  "path_Join dir name = dir \<or> prefix (dir @ ''/'') (path_Join dir name)"
  by (simp add: path_Join_def)

lemma shorten_Join: "ValidPath name \<Longrightarrow> shorten dir (path_Join dir name) = Some name"
  by (cases name) (auto simp: shorten_def path_Join_def nth_append)

lemma ValidString_contentDir: "ValidString contentDir"
  unfolding contentDir_def by (rule ValidString_ascii) simp

lemma ValidPath_contentDir: "ValidPath contentDir"
  by (simp add: ValidPath_iff ValidString_contentDir) (simp add: contentDir_def valid_elem_def)

lemma contentDir_neq_dot: "contentDir \<noteq> ''.''"
  by (simp add: contentDir_def)

lemma Sub_simps:
  "\<not> ValidPath dir \<Longrightarrow> Sub fsys dir = Inl \<lparr>Op = ''sub'', Path = dir, Err = ErrInvalid\<rparr>"
  "Sub fsys ''.'' = Inr fsys"
  "ValidPath dir \<Longrightarrow> dir \<noteq> ''.'' \<Longrightarrow> Sub fsys dir = Inr (subFS_Open fsys dir)"
  by (simp_all add: Sub_def ValidPath_iff first_def)

lemma Sub_fails_iff: "isl (Sub fsys dir) \<longleftrightarrow> \<not> ValidPath dir"
  by (simp add: Sub_def)

lemma subFS_Open_simps:
  "\<not> ValidPath name \<Longrightarrow>
     subFS_Open fsys dir name = Inl \<lparr>Op = ''open'', Path = name, Err = ErrInvalid\<rparr>"
  "ValidPath name \<Longrightarrow>
     subFS_Open fsys dir name = map_sum (fixErr dir) id (fsys (path_Join dir name))"
  by (simp_all add: subFS_Open_def fullName_def)

lemma subFS_Open_cong:
  assumes "\<And>p. p = dir \<or> prefix (dir @ ''/'') p \<Longrightarrow> fsys p = fsys' p"
  shows "subFS_Open fsys dir = subFS_Open fsys' dir"
proof
  fix name
  show "subFS_Open fsys dir name = subFS_Open fsys' dir name"
    by (cases "ValidPath name") (simp_all add: subFS_Open_simps assms [OF path_Join_cases])
qed

lemma FileSystem_simps:
  "fs_Sub content contentDir = Inl err \<Longrightarrow> FileSystem fs_Sub content = Panics err"
  "fs_Sub content contentDir = Inr f \<Longrightarrow> FileSystem fs_Sub content = Returns f"
  by (simp_all add: FileSystem_def)

lemma FileSystem_Sub: "FileSystem Sub content = Returns (subFS_Open content contentDir)"
  by (simp add: FileSystem_simps Sub_simps ValidPath_contentDir contentDir_neq_dot)

lemma ValidPath_ascii:
  "\<forall>c \<in> set name. of_char c < (0x80 :: nat) \<Longrightarrow>
     ValidPath name \<longleftrightarrow> name = ''.'' \<or> list_all valid_elem (split_slash name)"
  by (simp add: ValidPath_iff ValidString_ascii)

lemma split_slash_rooted: "split_slash (CHR ''/'' # name) = [] # split_slash name"
  by simp

lemma not_ValidPath_dotdot: "''..'' \<in> set (split_slash name) \<Longrightarrow> \<not> ValidPath name"
  by (auto simp: ValidPath_iff list_all_iff valid_elem_def)

lemma not_ValidPath_rooted: "\<not> ValidPath (CHR ''/'' # name)"
  by (simp add: ValidPath_iff valid_elem_def)

lemma FileSystem_Returns_iff:
  "FileSystem Sub content = Returns f \<longleftrightarrow> f = subFS_Open content contentDir"
  by (auto simp: FileSystem_Sub)

lemma path_Join_neq_dot: "dir \<noteq> ''.'' \<Longrightarrow> dir \<noteq> [] \<Longrightarrow> path_Join dir name \<noteq> ''.''"
  by (cases dir) (auto simp: path_Join_def)

lemma embed_lookup_Join:
  assumes "ValidPath dir" and "dir \<noteq> ''.''" and "ValidPath name"
  shows "embed_lookup dot files (path_Join dir name) = map_of files (path_Join dir name)"
proof -
  from assms(1) have "dir \<noteq> []" by auto
  with assms show ?thesis
    by (simp add: embed_lookup_def ValidPath_Join path_Join_neq_dot)
qed

lemma embed_Open_Join:
  assumes "ValidPath dir" and "dir \<noteq> ''.''" and "ValidPath name"
  shows "map_sum (fixErr dir) id (embed_Open dot files (path_Join dir name)) =
    (case map_of files (path_Join dir name) of
       None \<Rightarrow> Inl \<lparr>Op = ''open'', Path = name, Err = ErrNotExist\<rparr>
     | Some file \<Rightarrow> Inr file)"
  using assms
  by (simp add: embed_Open_def embed_lookup_Join fixErr_def shorten_Join split: option.splits)

lemma content_embedded_embed_Open:
  "content_embedded (embed_Open dot files) \<longleftrightarrow> contentDir \<in> fst ` set files"
proof -
  have "embed_lookup dot files contentDir = map_of files contentDir"
    using embed_lookup_Join [OF ValidPath_contentDir contentDir_neq_dot, of "''.''" dot files]
    by (simp add: path_Join_def ValidPath_ascii)
  then have "isl (embed_Open dot files contentDir) \<longleftrightarrow> map_of files contentDir = None"
    by (simp add: embed_Open_def split: option.splits)
  then show ?thesis
    by (simp add: content_embedded_def map_of_eq_None_iff)
qed

section \<open>Properties of the asset file system\<close>

text \<open>
  C26 (safety). \<^verbatim>\<open>FileSystem\<close> panics exactly if the sub tree operation fails on
  \<^verbatim>\<open>contentDir\<close>, and then with that error. With the operation \<^verbatim>\<open>Sub\<close> of
  \<^verbatim>\<open>io/fs\<close> it never panics, whatever the embedded file system holds, because
  \<^verbatim>\<open>assets/windows_386\<close> is a valid path.
\<close>

theorem FileSystem_panics_iff:
  "(FileSystem fs_Sub content = Panics p \<longleftrightarrow> fs_Sub content contentDir = Inl p) \<and>
   FileSystem Sub content \<noteq> Panics q"
  by (cases "fs_Sub content contentDir" rule: result_cases)
    (simp_all add: FileSystem_simps FileSystem_Sub)

text \<open>
  C27 (functional). Opening a name in the file system that \<^verbatim>\<open>FileSystem\<close> returns
  opens \<^verbatim>\<open>assets/windows_386\<close> itself for the name \<^verbatim>\<open>.\<close>, and the path
  \<^verbatim>\<open>assets/windows_386/name\<close> of the embedded file system for any other valid name; a
  name that is not a valid path is refused with \<^verbatim>\<open>ErrInvalid\<close> and the embedded file
  system is not consulted.
\<close>

theorem FileSystem_Open:
  assumes "FileSystem Sub content = Returns f"
  shows "f name =
    (if \<not> ValidPath name then Inl \<lparr>Op = ''open'', Path = name, Err = ErrInvalid\<rparr>
     else if name = ''.'' then map_sum (fixErr contentDir) id (content contentDir)
     else map_sum (fixErr contentDir) id (content (contentDir @ ''/'' @ name)))"
  using assms by (simp add: FileSystem_Returns_iff subFS_Open_simps path_Join_def)

theorem FileSystem_Open_witness:
  "subFS_Open (\<lambda>p. if p = ''assets/windows_386/plugin.exe'' then Inr (1 :: nat)
        else Inl \<lparr>Op = ''open'', Path = p, Err = ErrNotExist\<rparr>) contentDir ''plugin.exe'' =
     Inr 1"
proof -
  let ?c = "\<lambda>p. if p = ''assets/windows_386/plugin.exe'' then Inr (1 :: nat)
        else Inl \<lparr>Op = ''open'', Path = p, Err = ErrNotExist\<rparr>"
  have "FileSystem Sub ?c = Returns (subFS_Open ?c contentDir)"
    by (simp add: FileSystem_Sub)
  from FileSystem_Open [OF this, of "''plugin.exe''"] show ?thesis
    by (simp add: ValidPath_ascii valid_elem_def contentDir_def)
qed

text \<open>
  C28 (safety). The file system that \<^verbatim>\<open>FileSystem\<close> returns depends on the embedded
  file system only at \<^verbatim>\<open>assets/windows_386\<close> and at the paths beneath it: two embedded
  file systems that agree there give the same asset file system. Nothing else of the embedded
  content can be reached through it.
\<close>

theorem FileSystem_confined:
  assumes "\<forall>p. p = contentDir \<or> prefix (contentDir @ ''/'') p \<longrightarrow> content p = content' p"
  shows "FileSystem Sub content = FileSystem Sub content'"
  using assms by (auto simp: FileSystem_Sub intro!: subFS_Open_cong)

theorem FileSystem_confined_witness:
  "FileSystem Sub (\<lambda>p. if p = ''assets/windows_386/plugin.exe'' then Inr (1 :: nat)
        else if p = ''secret'' then Inr 2
        else Inl \<lparr>Op = ''open'', Path = p, Err = ErrNotExist\<rparr>) =
   FileSystem Sub (\<lambda>p. if p = ''assets/windows_386/plugin.exe'' then Inr (1 :: nat)
        else Inl \<lparr>Op = ''open'', Path = p, Err = ErrNotExist\<rparr>)"
  by (rule FileSystem_confined) (simp add: contentDir_def)

text \<open>
  C29 (roundtrip). An error of the embedded file system that names the full path it was
  asked for reaches the caller of the asset file system naming the path the caller asked
  for: shortening undoes the joining of \<^verbatim>\<open>assets/windows_386\<close> and the name.
\<close>

theorem FileSystem_error_path:
  assumes "FileSystem Sub content = Returns f" and "ValidPath name"
    and "content (path_Join contentDir name) = Inl e"
    and "Path e = path_Join contentDir name"
  shows "f name = Inl (e\<lparr>Path := name\<rparr>)"
  using assms
  by (simp add: FileSystem_Returns_iff subFS_Open_simps fixErr_def shorten_Join)

theorem FileSystem_error_path_witness:
  "subFS_Open (\<lambda>p. Inl \<lparr>Op = ''open'', Path = p, Err = ErrNotExist\<rparr> :: (PathError, nat) result)
     contentDir ''plugin.exe'' =
   Inl \<lparr>Op = ''open'', Path = ''plugin.exe'', Err = ErrNotExist\<rparr>"
proof -
  let ?c = "\<lambda>p. Inl \<lparr>Op = ''open'', Path = p, Err = ErrNotExist\<rparr> :: (PathError, nat) result"
  have r: "FileSystem Sub ?c = Returns (subFS_Open ?c contentDir)"
    by (simp add: FileSystem_Sub)
  have v: "ValidPath ''plugin.exe''"
    by (simp add: ValidPath_ascii valid_elem_def)
  from FileSystem_error_path [OF r v refl] show ?thesis by simp
qed

text \<open>
  C30 (safety). A name with an element \<^verbatim>\<open>..\<close>, a rooted name and the empty name are
  refused by the asset file system with \<^verbatim>\<open>ErrInvalid\<close>, whatever the embedded file
  system holds: no name leads out of \<^verbatim>\<open>assets/windows_386\<close>.
\<close>

theorem FileSystem_no_escape:
  assumes "FileSystem Sub content = Returns f"
    and "''..'' \<in> set (split_slash name) \<or> name = [] \<or> hd name = CHR ''/''"
  shows "f name = Inl \<lparr>Op = ''open'', Path = name, Err = ErrInvalid\<rparr>"
proof -
  from assms(2) have "\<not> ValidPath name"
    by (cases name) (auto simp: not_ValidPath_dotdot not_ValidPath_rooted)
  with assms(1) show ?thesis
    by (simp add: FileSystem_Returns_iff subFS_Open_simps)
qed

theorem FileSystem_no_escape_witness:
  "subFS_Open (\<lambda>p. Inr (1 :: nat)) contentDir ''../secret'' =
     Inl \<lparr>Op = ''open'', Path = ''../secret'', Err = ErrInvalid\<rparr>"
proof -
  have "FileSystem Sub (\<lambda>p. Inr (1 :: nat)) = Returns (subFS_Open (\<lambda>p. Inr 1) contentDir)"
    by (simp add: FileSystem_Sub)
  from FileSystem_no_escape [OF this, of "''../secret''"] show ?thesis by simp
qed

text \<open>
  Every path that the asset file system asks the embedded file system to
  open is a valid path, and it is \<^verbatim>\<open>assets/windows_386\<close> or lies beneath it.
\<close>

theorem asset_paths_valid:
  assumes "ValidPath name"
  shows "ValidPath (path_Join contentDir name) \<and>
    (path_Join contentDir name = contentDir \<or>
     prefix (contentDir @ ''/'') (path_Join contentDir name))"
  using assms
  by (simp add: ValidPath_Join ValidPath_contentDir contentDir_neq_dot path_Join_cases)

theorem asset_paths_valid_witness:
  "ValidPath ''assets/windows_386/plugin.exe'' \<and>
   prefix ''assets/windows_386/'' ''assets/windows_386/plugin.exe''"
proof -
  have "ValidPath ''plugin.exe''"
    by (simp add: ValidPath_ascii valid_elem_def)
  from asset_paths_valid [OF this] show ?thesis
    by (simp add: path_Join_def contentDir_def)
qed

text \<open>
  C32 (functional). Over an embedded file system, opening a name in the file system that
  \<^verbatim>\<open>FileSystem\<close> returns gives the embedded file \<^verbatim>\<open>assets/windows_386/name\<close> (the
  directory itself for \<^verbatim>\<open>.\<close>), fails with \<^verbatim>\<open>ErrNotExist\<close> when there is none and with
  \<^verbatim>\<open>ErrInvalid\<close> when the name is not a valid path; both errors name the path as the
  caller wrote it. What the directive \<^verbatim>\<open>go:embed\<close> guarantees of \<^verbatim>\<open>content\<close> is exactly
  that the directory is among the embedded files.
\<close>

theorem asset_Open:
  assumes "FileSystem Sub (embed_Open dot files) = Returns f"
  shows "f name =
    (if \<not> ValidPath name then Inl \<lparr>Op = ''open'', Path = name, Err = ErrInvalid\<rparr>
     else case map_of files (path_Join contentDir name) of
            None \<Rightarrow> Inl \<lparr>Op = ''open'', Path = name, Err = ErrNotExist\<rparr>
          | Some file \<Rightarrow> Inr file) \<and>
    (content_embedded (embed_Open dot files) \<longleftrightarrow> contentDir \<in> fst ` set files)"
  using assms
  by (simp add: FileSystem_Returns_iff subFS_Open_simps embed_Open_Join ValidPath_contentDir
      contentDir_neq_dot content_embedded_embed_Open)

theorem asset_Open_witness:
  "subFS_Open (embed_Open 0 [(''assets'', 1), (''assets/windows_386'', 2),
       (''assets/windows_386/plugin.exe'', 3 :: nat)]) contentDir ''plugin.exe'' = Inr 3 \<and>
   subFS_Open (embed_Open 0 [(''assets'', 1), (''assets/windows_386'', 2),
       (''assets/windows_386/plugin.exe'', 3 :: nat)]) contentDir ''missing'' =
     Inl \<lparr>Op = ''open'', Path = ''missing'', Err = ErrNotExist\<rparr> \<and>
   subFS_Open (embed_Open 0 [(''assets'', 1), (''assets/windows_386'', 2),
       (''assets/windows_386/plugin.exe'', 3 :: nat)]) contentDir ''.'' = Inr 2"
proof -
  let ?c = "embed_Open 0 [(''assets'', 1), (''assets/windows_386'', 2),
       (''assets/windows_386/plugin.exe'', 3 :: nat)]"
  have r: "FileSystem Sub ?c = Returns (subFS_Open ?c contentDir)"
    by (simp add: FileSystem_Sub)
  from asset_Open [OF r, of "''plugin.exe''"] asset_Open [OF r, of "''missing''"]
    asset_Open [OF r, of "''.''"]
  show ?thesis
    by (simp add: ValidPath_ascii valid_elem_def path_Join_def contentDir_def)
qed

text \<open>
  The embedded file system holds the directory \<^verbatim>\<open>assets/windows_386\<close>, so the root
  \<^verbatim>\<open>.\<close> of the asset file system opens, and it is that directory.
\<close>

theorem FileSystem_root:
  assumes "content_embedded content" and "FileSystem Sub content = Returns f"
  shows "f ''.'' = content contentDir \<and> \<not> isl (f ''.'')"
proof -
  from assms(1) obtain d where "content contentDir = Inr d"
    by (auto simp: content_embedded_def not_isl_iff_ok)
  with assms(2) show ?thesis
    by (simp add: FileSystem_Returns_iff subFS_Open_simps ValidPath_ascii path_Join_def)
qed

theorem FileSystem_root_witness:
  "subFS_Open (\<lambda>p. Inr (length p)) contentDir ''.'' = Inr 18"
proof -
  have e: "content_embedded (\<lambda>p. Inr (length p))"
    by (simp add: content_embedded_def)
  have "FileSystem Sub (\<lambda>p. Inr (length p)) = Returns (subFS_Open (\<lambda>p. Inr (length p)) contentDir)"
    by (simp add: FileSystem_Sub)
  from FileSystem_root [OF e this] show ?thesis by (simp add: contentDir_def)
qed

end
