(* ===== verification/Go_Embed.thy ===== *)
theory Go_Embed
  imports Kms_Assets
begin

text \<open>
  The directive \<^verbatim>\<open>//go:embed assets/windows_386\<close> above the variable \<^verbatim>\<open>content\<close> of
  \<^verbatim>\<open>src/sdk/kms/assets_windows_386.go\<close>. Theory \<open>Kms_Assets\<close> takes the embedded file
  system as an argument; this theory says what it holds, as a function of the files of the
  package directory when the program is built.

  \<^item> A \<open>source_tree\<close> is the list of the regular files of the package directory with
    their contents, by their paths relative to that directory. \<open>go_embed\<close> is what the Go
    tool does with a pattern that names a directory, after the documentation of package
    \<^verbatim>\<open>embed\<close>: it embeds every file beneath the directory, except that files and
    directories whose names begin with \<^verbatim>\<open>.\<close> or \<^verbatim>\<open>_\<close> are left out (\<open>hidden\<close>,
    \<open>embeddable\<close>), and refuses to build when no file is left. The embedded file system
    holds the embedded files and the directories above them (\<open>parents\<close>).
  \<^item> \<open>content\<close> is the variable: the result of the directive for the pattern
    \<^verbatim>\<open>assets/windows_386\<close>, with \<^verbatim>\<open>Open\<close> of \<^verbatim>\<open>embed.FS\<close> (\<open>embed_Open\<close>). The result
    \<open>Inl\<close> is a program that does not build.
  \<^item> Not modelled: patterns with wildcards or the prefix \<^verbatim>\<open>all:\<close>, which the source does
    not use; the refusal of file names with characters that a module path may not hold;
    directories that hold a \<^verbatim>\<open>go.mod\<close> of their own; files that are not regular.

  The lemmas give the lookup of a path in the result of \<open>go_embed\<close>
  (\<open>go_embed_lookup\<close>) and the opening of a name in the file system that \<^verbatim>\<open>FileSystem\<close>
  returns over \<open>content\<close> (\<open>content_Open\<close>). The properties say which files of the
  package directory the asset file system serves.
\<close>

section \<open>The directive\<close>

datatype 'a embedded = EmbedFile 'a | EmbedDir

datatype embed_error = NoEmbeddableFiles string

type_synonym 'a source_tree = "(string \<times> 'a) list"

definition hidden :: "string \<Rightarrow> bool" where
  "hidden e = (case e of [] \<Rightarrow> False | c # cs \<Rightarrow> c = CHR ''.'' \<or> c = CHR ''_'')"

definition embeddable :: "string \<Rightarrow> string \<Rightarrow> bool" where
  "embeddable dir path \<longleftrightarrow>
     take (Suc (length dir)) path = dir @ ''/'' \<and>
     list_all (\<lambda>e. \<not> hidden e) (split_slash (drop (Suc (length dir)) path))"

definition parents :: "string \<Rightarrow> string list" where
  "parents path =
     map (\<lambda>i. take i path) (filter (\<lambda>i. path ! i = CHR ''/'') [0..<length path])"

definition go_embed ::
  "string \<Rightarrow> 'a source_tree \<Rightarrow> (embed_error, 'a embedded embed_FS) result" where
  "go_embed dir tree =
     (let files = filter (\<lambda>(path, c). embeddable dir path) tree
      in if files = [] then Inl (NoEmbeddableFiles dir)
         else Inr (map (\<lambda>(path, c). (path, EmbedFile c)) files @
                   map (\<lambda>d. (d, EmbedDir)) (remdups (concat (map (parents \<circ> fst) files)))))"

definition content :: "'a source_tree \<Rightarrow> (embed_error, 'a embedded FS) result" where
  "content tree = map_sum id (embed_Open EmbedDir) (go_embed ''assets/windows_386'' tree)"

section \<open>Lemmas\<close>

lemma embeddable_Join:
  "embeddable dir (dir @ CHR ''/'' # name) \<longleftrightarrow> list_all (\<lambda>e. \<not> hidden e) (split_slash name)"
  by (simp add: embeddable_def)

lemma embeddable_iff:
  "embeddable dir path \<longleftrightarrow>
     (\<exists>name. path = dir @ CHR ''/'' # name \<and> list_all (\<lambda>e. \<not> hidden e) (split_slash name))"
proof
  assume e: "embeddable dir path"
  have "path = take (Suc (length dir)) path @ drop (Suc (length dir)) path"
    by simp
  with e have "path = dir @ CHR ''/'' # drop (Suc (length dir)) path"
    by (simp add: embeddable_def)
  with e show "\<exists>name. path = dir @ CHR ''/'' # name \<and>
      list_all (\<lambda>e. \<not> hidden e) (split_slash name)"
    unfolding embeddable_def by blast
qed (auto simp: embeddable_Join)

lemma set_parents:
  "set (parents path) = {take i path |i. i < length path \<and> path ! i = CHR ''/''}"
  by (auto simp: parents_def)

lemma parents_Join: "dir \<in> set (parents (dir @ CHR ''/'' # name))"
  by (auto simp: set_parents intro!: exI [of _ "length dir"])

lemma parent_of_embeddable:
  assumes "embeddable dir q" and "dir @ CHR ''/'' # name \<in> set (parents q)"
  shows "list_all (\<lambda>e. \<not> hidden e) (split_slash name)"
proof -
  from assms(1) obtain rest where q: "q = dir @ CHR ''/'' # rest"
    and rest: "list_all (\<lambda>e. \<not> hidden e) (split_slash rest)"
    by (auto simp: embeddable_iff)
  from assms(2) obtain i where i: "i < length q" "q ! i = CHR ''/''"
    and t: "take i q = dir @ CHR ''/'' # name"
    by (auto simp: set_parents)
  from i(1) have "q = take i q @ q ! i # drop (Suc i) q"
    by (rule id_take_nth_drop)
  then have "q = take i q @ CHR ''/'' # drop (Suc i) q"
    by (simp only: i(2))
  with t q have "rest = name @ CHR ''/'' # drop (Suc i) q"
    by simp
  with rest show ?thesis
    by (simp add: split_slash_append)
qed

lemma map_of_dirs:
  "map_of (map (\<lambda>d. (d, EmbedDir)) ds) path = (if path \<in> set ds then Some EmbedDir else None)"
  by (induction ds) auto

lemma map_of_embedded_files:
  "map_of (map (\<lambda>(path, c). (path, EmbedFile c)) (filter (\<lambda>(path, c). P path) tree)) path =
     (if P path then map_option EmbedFile (map_of tree path) else None)"
proof -
  have "filter (\<lambda>(path, c). P path) tree = filter (\<lambda>x. P (fst x)) tree"
    by (simp add: split_def)
  then show ?thesis
    by (simp add: map_of_map map_of_filter restrict_map_def)
qed

lemma go_embed_Inl_iff:
  "isl (go_embed dir tree) \<longleftrightarrow> (\<forall>path \<in> fst ` set tree. \<not> embeddable dir path)"
  by (force simp: go_embed_def Let_def filter_empty_conv)

lemma go_embed_lookup:
  assumes "go_embed dir tree = Inr files"
  shows "map_of files path =
    (if embeddable dir path \<and> map_of tree path \<noteq> None
     then map_option EmbedFile (map_of tree path)
     else if \<exists>q \<in> fst ` set tree. embeddable dir q \<and> path \<in> set (parents q)
       then Some EmbedDir else None)"
proof -
  let ?files = "filter (\<lambda>(path, c). embeddable dir path) tree"
  from assms have files: "files =
      map (\<lambda>(path, c). (path, EmbedFile c)) ?files @
      map (\<lambda>d. (d, EmbedDir)) (remdups (concat (map (parents \<circ> fst) ?files)))"
    by (simp add: go_embed_def Let_def split: if_splits)
  have "path \<in> set (concat (map (parents \<circ> fst) ?files)) \<longleftrightarrow>
      (\<exists>q \<in> fst ` set tree. embeddable dir q \<and> path \<in> set (parents q))"
    by force
  then show ?thesis
    by (auto simp: files map_add_def map_of_dirs map_of_embedded_files split: option.splits)
qed

lemma go_embed_dir:
  assumes "go_embed dir tree = Inr files"
  shows "map_of files dir = Some EmbedDir"
proof -
  from assms have "\<not> isl (go_embed dir tree)" by simp
  then obtain q where q: "q \<in> fst ` set tree" "embeddable dir q"
    by (auto simp: go_embed_Inl_iff)
  then have "dir \<in> set (parents q)"
    by (auto simp: embeddable_iff parents_Join)
  moreover have "\<not> embeddable dir dir"
    by (simp add: embeddable_def)
  ultimately show ?thesis
    using q by (auto simp: go_embed_lookup [OF assms])
qed

lemma content_Inr_iff:
  "content tree = Inr fsys \<longleftrightarrow>
     (\<exists>files. go_embed ''assets/windows_386'' tree = Inr files \<and> fsys = embed_Open EmbedDir files)"
  by (cases "go_embed ''assets/windows_386'' tree") (auto simp: content_def)

lemma content_Open:
  assumes "content tree = Inr fsys" and "FileSystem Sub fsys = Returns f"
  shows "\<exists>files. go_embed contentDir tree = Inr files \<and>
    f = (\<lambda>name.
      if \<not> ValidPath name then Inl \<lparr>Op = ''open'', Path = name, Err = ErrInvalid\<rparr>
      else case map_of files (path_Join contentDir name) of
             None \<Rightarrow> Inl \<lparr>Op = ''open'', Path = name, Err = ErrNotExist\<rparr>
           | Some file \<Rightarrow> Inr file)"
proof -
  from assms(1) obtain files where files: "go_embed contentDir tree = Inr files"
    and fsys: "fsys = embed_Open EmbedDir files"
    by (auto simp: content_Inr_iff contentDir_def)
  from assms(2) have "f name =
      (if \<not> ValidPath name then Inl \<lparr>Op = ''open'', Path = name, Err = ErrInvalid\<rparr>
       else case map_of files (path_Join contentDir name) of
              None \<Rightarrow> Inl \<lparr>Op = ''open'', Path = name, Err = ErrNotExist\<rparr>
            | Some file \<Rightarrow> Inr file)" for name
    by (simp add: fsys FileSystem_Returns_iff subFS_Open_simps embed_Open_Join
        ValidPath_contentDir contentDir_neq_dot)
  with files show ?thesis by blast
qed

lemma hidden_dot [simp]: "hidden ''.''"
  by (simp add: hidden_def)

lemma ValidPath_dot: "ValidPath ''.''"
  by (simp add: ValidPath_ascii)

lemma embeddable_path_Join:
  "embeddable dir (path_Join dir name) \<longleftrightarrow>
     list_all (\<lambda>e. \<not> hidden e) (split_slash name)"
  by (simp add: path_Join_def embeddable_Join) (simp add: embeddable_def)

section \<open>Properties of the embedded assets\<close>

text \<open>
  The program builds exactly if the package directory holds a file beneath
  \<^verbatim>\<open>assets/windows_386\<close> that the directive embeds.
\<close>

theorem content_builds:
  "isl (content tree) \<longleftrightarrow> (\<forall>path \<in> fst ` set tree. \<not> embeddable contentDir path)"
  using go_embed_Inl_iff [of contentDir tree]
  by (cases "go_embed contentDir tree") (simp_all add: content_def contentDir_def)

text \<open>
  In a program that builds, \<^verbatim>\<open>content\<close> holds the directory \<^verbatim>\<open>assets/windows_386\<close>, which
  is what \<open>content_embedded\<close> asks of it, and the root of the file system that
  \<^verbatim>\<open>FileSystem\<close> returns opens as a directory.
\<close>

theorem content_root:
  assumes "content tree = Inr fsys" and "FileSystem Sub fsys = Returns f"
  shows "content_embedded fsys \<and> f ''.'' = Inr EmbedDir"
proof -
  from content_Open [OF assms(1,2)] obtain files
    where files: "go_embed contentDir tree = Inr files"
      and f: "f = (\<lambda>name.
        if \<not> ValidPath name then Inl \<lparr>Op = ''open'', Path = name, Err = ErrInvalid\<rparr>
        else case map_of files (path_Join contentDir name) of
               None \<Rightarrow> Inl \<lparr>Op = ''open'', Path = name, Err = ErrNotExist\<rparr>
             | Some file \<Rightarrow> Inr file)"
    by blast
  from files assms(1) have "fsys = embed_Open EmbedDir files"
    by (auto simp: content_Inr_iff contentDir_def)
  with go_embed_dir [OF files] show ?thesis
    by (auto simp: f content_embedded_embed_Open path_Join_def ValidPath_dot
        dest: map_of_SomeD intro: rev_image_eqI)
qed

text \<open>
  C14 (functional). In a program that builds, opening a name in the file system that
  \<^verbatim>\<open>FileSystem\<close> returns gives a file with content \<open>c\<close> exactly if the name is a valid
  path, the package directory holds the file \<^verbatim>\<open>assets/windows_386/name\<close> with content
  \<open>c\<close>, and no element of the name begins with \<^verbatim>\<open>.\<close> or \<^verbatim>\<open>_\<close>: the directory of the
  directive and the constant \<^verbatim>\<open>contentDir\<close> agree, and the assets served are the files of
  the directory that the directive embeds.
\<close>

theorem embedded_asset_served:
  assumes "content tree = Inr fsys" and "FileSystem Sub fsys = Returns f"
  shows "f name = Inr (EmbedFile c) \<longleftrightarrow>
    ValidPath name \<and> map_of tree (path_Join contentDir name) = Some c \<and>
    list_all (\<lambda>e. \<not> hidden e) (split_slash name)"
proof -
  from content_Open [OF assms(1,2)] obtain files
    where files: "go_embed contentDir tree = Inr files"
      and f: "f = (\<lambda>name.
        if \<not> ValidPath name then Inl \<lparr>Op = ''open'', Path = name, Err = ErrInvalid\<rparr>
        else case map_of files (path_Join contentDir name) of
               None \<Rightarrow> Inl \<lparr>Op = ''open'', Path = name, Err = ErrNotExist\<rparr>
             | Some file \<Rightarrow> Inr file)"
    by blast
  show ?thesis
    by (auto simp: f go_embed_lookup [OF files] embeddable_path_Join split: option.splits)
qed

theorem embedded_asset_served_witness:
  "subFS_Open (projr (content
      [(''assets/windows_386/plugin.exe'', 1 :: nat), (''assets/windows_386/.keep'', 2),
       (''README.md'', 3)])) contentDir ''plugin.exe'' = Inr (EmbedFile 1)"
  (is "subFS_Open (projr (content ?tree)) _ _ = _")
proof -
  have "\<not> isl (content ?tree)"
    by (simp add: content_builds embeddable_def contentDir_def hidden_def)
  then have c: "content ?tree = Inr (projr (content ?tree))" by simp
  have r: "FileSystem Sub (projr (content ?tree)) =
      Returns (subFS_Open (projr (content ?tree)) contentDir)"
    by (simp add: FileSystem_Sub)
  from embedded_asset_served [OF c r, of "''plugin.exe''" 1] show ?thesis
    by (simp add: ValidPath_ascii valid_elem_def path_Join_def contentDir_def hidden_def)
qed

text \<open>
  C33 (safety). A file or directory of \<^verbatim>\<open>assets/windows_386\<close> whose name begins with
  \<^verbatim>\<open>.\<close> or \<^verbatim>\<open>_\<close>, and everything beneath such a directory, is not part of the assets:
  opening a name with such an element fails, with \<^verbatim>\<open>ErrNotExist\<close> when the name is a
  valid path, whatever the package directory holds.
\<close>

theorem hidden_assets_not_served:
  assumes "content tree = Inr fsys" and "FileSystem Sub fsys = Returns f"
    and "name \<noteq> ''.''" and "\<not> list_all (\<lambda>e. \<not> hidden e) (split_slash name)"
  shows "f name = Inl \<lparr>Op = ''open'', Path = name,
    Err = (if ValidPath name then ErrNotExist else ErrInvalid)\<rparr>"
proof -
  from content_Open [OF assms(1,2)] obtain files
    where files: "go_embed contentDir tree = Inr files"
      and f: "f = (\<lambda>name.
        if \<not> ValidPath name then Inl \<lparr>Op = ''open'', Path = name, Err = ErrInvalid\<rparr>
        else case map_of files (path_Join contentDir name) of
               None \<Rightarrow> Inl \<lparr>Op = ''open'', Path = name, Err = ErrNotExist\<rparr>
             | Some file \<Rightarrow> Inr file)"
    by blast
  from assms(3) have p: "path_Join contentDir name = contentDir @ CHR ''/'' # name"
    by (simp add: path_Join_def)
  from assms(4) have "\<not> embeddable contentDir (path_Join contentDir name)"
    by (simp add: embeddable_path_Join)
  moreover from assms(4) have
    "\<not> (\<exists>q \<in> fst ` set tree. embeddable contentDir q \<and> path_Join contentDir name \<in> set (parents q))"
    unfolding p by (blast dest: parent_of_embeddable)
  ultimately have "map_of files (path_Join contentDir name) = None"
    by (simp add: go_embed_lookup [OF files])
  then show ?thesis by (simp add: f)
qed

theorem hidden_assets_not_served_witness:
  "subFS_Open (projr (content
      [(''assets/windows_386/plugin.exe'', 1 :: nat), (''assets/windows_386/.keep'', 2),
       (''README.md'', 3)])) contentDir ''.keep'' =
    Inl \<lparr>Op = ''open'', Path = ''.keep'', Err = ErrNotExist\<rparr>"
  (is "subFS_Open (projr (content ?tree)) _ _ = _")
proof -
  have "\<not> isl (content ?tree)"
    by (simp add: content_builds embeddable_def contentDir_def hidden_def)
  then have c: "content ?tree = Inr (projr (content ?tree))" by simp
  have r: "FileSystem Sub (projr (content ?tree)) =
      Returns (subFS_Open (projr (content ?tree)) contentDir)"
    by (simp add: FileSystem_Sub)
  from hidden_assets_not_served [OF c r, of "''.keep''"] show ?thesis
    by (simp add: ValidPath_ascii valid_elem_def hidden_def)
qed

end
