(* ===== verification/Spec2Isabelle.thy ===== *)
theory Spec2Isabelle
  imports Schema_State State_Heap Loader Process Atomicity System System_Invariant
    Aead_Plugin Kms_Assets Go_Embed
begin

text \<open>
  A verification of three source files of Boundary: the schema state of the database layer,
  the executable of the AEAD key-management plugin, and the file system of the plugin assets
  for \<^verbatim>\<open>windows_386\<close>.

  \<^bold>\<open>The program.\<close>
  \<^item> \<^verbatim>\<open>src/internal/db/schema/state.go\<close> holds two parts. The \<^emph>\<open>migration registry\<close> is
    the package-level table \<^verbatim>\<open>migrationStates\<close> from a dialect name to a
    \<^verbatim>\<open>migrationState\<close>, with the accessors \<^verbatim>\<open>DevMigration\<close> and
    \<^verbatim>\<open>BinarySchemaVersion\<close>; the table is filled at startup by code outside these
    sources. The \<^emph>\<open>state reconciler\<close> is the method \<^verbatim>\<open>(*Manager).State\<close>: it asks the
    manager's database driver for the recorded schema version, reads the sentinel
    \<^verbatim>\<open>nilVersion\<close> as a database that was never initialised, and returns a \<^verbatim>\<open>State\<close>
    that also carries the registry's binary schema version of the manager's dialect.
  \<^item> \<^verbatim>\<open>src/plugins/kms/mains/aead/main.go\<close> is a \<^verbatim>\<open>main\<close> that serves an AEAD wrapper
    as a plugin and exits with status 0 or 1.
  \<^item> \<^verbatim>\<open>src/sdk/kms/assets_windows_386.go\<close> embeds a directory and exports it as a file
    system through \<^verbatim>\<open>FileSystem\<close>.
  The reconciler reads the registry and calls the driver; the other two files are
  independent of the first and of each other.

  \<^bold>\<open>The theories.\<close>
  \<^item> \<open>Go_Prelude\<close>: what the models share of the Go language. Integers of type \<^verbatim>\<open>int\<close>
    are words \<open>'w word\<close> of any width; zero values are the constant \<open>default\<close>;
    \<open>go_index\<close> is a map index expression; \<open>'e + 'a\<close> is a result with an error;
    \<open>outcome\<close> is a return or a panic.
  \<^item> \<open>Registry\<close>: the record \<open>migrationState\<close> (the struct), the initial table
    \<open>migrationStates\<close>, the accessors \<open>DevMigration\<close> and \<open>BinarySchemaVersion\<close>,
    each over a table passed as an argument in place of the global variable. The writer of
    the table is not among the sources: \<open>register\<close> (one registration, refused for a
    dialect already present), \<open>register_all\<close> (a startup sequence), \<open>startup\<close> (the
    tables reachable by registrations) and \<open>registry_step\<close> follow the specification.
  \<^item> \<open>Loader\<close>: the migration asset loader after the specification: \<open>compile\<close>
    builds the migration state of a list of scripts, with \<open>max_version\<close> as its binary
    schema version; \<open>load\<close> and \<open>load_all\<close> register what it builds;
    \<open>wf_migrationState\<close> and \<open>wf_registry\<close> are the invariants of what is registered.
  \<^item> \<open>Driver\<close>: the constant \<open>nilVersion\<close>; the driver's method \<^verbatim>\<open>Version\<close> as a
    function from a context and the state of the database to the triple of version, dirty
    flag and optional error, with the state of the database after the call; its contract as
    the predicates \<open>read_only\<close> and \<open>honours_context\<close>; and a reference driver
    \<open>store_Version\<close> over an in-memory \<open>store\<close>, which encodes a missing version row
    as \<open>nilVersion\<close> (\<open>encode_row\<close>). A \<open>blocking_driver\<close> is a driver whose call
    may never return.
  \<^item> \<open>Schema_State\<close>: the records \<open>State\<close> and \<open>Manager\<close> (the two fields the method
    reads) and \<open>Manager_State\<close>, the method \<^verbatim>\<open>(*Manager).State\<close> statement by statement:
    the literal that seeds \<^verbatim>\<open>BinarySchemaVersion\<close>, the call of the driver, the return of
    the driver's error, the return on the sentinel, and the three assignments;
    \<open>State_call\<close>, the method over a driver that may block. Its abstract
    specification is \<open>observe\<close>, the reading of the driver's triple as an error,
    \<open>NotInitialized\<close> or \<open>AtVersion v dirty\<close>; \<open>status_of\<close> abstracts a \<open>State\<close> to
    such a status, \<open>state_of\<close> builds the \<open>State\<close> of a status, \<open>wf_State\<close> is the
    invariant of the states returned.
  \<^item> \<open>State_Heap\<close>: the same method with the struct it allocates: \<open>State_ptr\<close> on a
    \<open>heap\<close> of structs, with \<open>heap_new\<close> for the declaration of \<^verbatim>\<open>dbS\<close> whose
    address escapes, \<open>heap_modify\<close> for the assignments to its fields and \<open>heap_read\<close>
    for the caller's reading through the pointer.
  \<^item> \<open>Process\<close>: the life of a process as a sequence of events (\<open>event\<close>: a
    registration, a call of \<^verbatim>\<open>Manager.State\<close>, a change of the database from outside)
    with \<open>step\<close> for one event and \<open>run\<close> for a sequence, on the pair of the registry
    and the database. An interleaving of concurrent callers is one such sequence.
  \<^item> \<open>Atomicity\<close>: the method in its two phases, \<open>State_begin\<close> (the struct with the
    registry's binary schema version) and \<open>State_finish\<close> (the call of the driver and
    what follows), and \<open>preempted_call\<close>, a call with events of other goroutines
    between the two.
  \<^item> \<open>System\<close>: the parts together, on the triple of the registry, the heap of structs
    and the database. A \<open>sys_event\<close> is a load of a dialect's scripts (\<open>Loader.load\<close>),
    a call of \<^verbatim>\<open>Manager.State\<close> that returns a pointer (\<open>State_ptr\<close>), a change of the
    database from outside, or a caller's write through a pointer (\<open>heap_modify\<close>);
    \<open>sys_step\<close> and \<open>sys_run\<close> are one event and a sequence. \<open>abs_event\<close>,
    \<open>abs_system\<close> and \<open>abs_reply\<close> read the system as a process of theory
    \<open>Process\<close>; \<open>sys_observe\<close> is what the callers read through their pointers when
    their calls return.
  \<^item> \<open>System_Invariant\<close>: the same system as a transition relation, \<open>sys_trans\<close> with
    one rule for each way out of each operation and \<open>sys_trace\<close> for sequences of
    steps, and the invariant \<open>sys_inv\<close> of the reachable states: a well-formed registry
    and a heap of well-formed structs (\<open>cell_ok\<close>), under the conditions \<open>event_ok\<close>
    on what is loaded and written.
  \<^item> \<open>Aead_Plugin\<close>: \<open>main\<close> of the plugin executable over the plugin server as a
    function that may not return; the result is the output written and the exit status,
    the output built by \<open>Println\<close>.
  \<^item> \<open>Kms_Assets\<close>: \<open>contentDir\<close>, \<open>FileSystem\<close> over the embedded file system and
    the sub tree operation, and that operation \<open>Sub\<close> of \<^verbatim>\<open>io/fs\<close> with the path
    validity \<open>ValidPath\<close> it rests on; \<open>embed_Open\<close>, the opening of a name in an
    embedded file system given as the list of its files.
  \<^item> \<open>Go_Embed\<close>: the variable \<open>content\<close> with its directive
    \<^verbatim>\<open>//go:embed assets/windows_386\<close>, as a function of the files of the package
    directory when the program is built: \<open>go_embed\<close> embeds the files beneath a
    directory, leaves out those with a name that begins with \<^verbatim>\<open>.\<close> or \<^verbatim>\<open>_\<close> on the way
    (\<open>hidden\<close>, \<open>embeddable\<close>), adds the directories above them (\<open>parents\<close>), and
    fails when no file is left.
  \<^item> This theory: \<open>State_calls\<close>, a sequence of calls of \<^verbatim>\<open>Manager.State\<close> threading
    the state of the database; \<open>interleave\<close>, the merge of the calls of two callers by a
    schedule (a list that says whose turn it is); \<open>row_status\<close>, the status that a
    version row of the reference store stands for; and the properties that span registry,
    loader, reconciler and driver.

  \<^bold>\<open>What is proved.\<close>
  \<^item> Reconciler (\<open>Schema_State\<close>): \<open>Manager_State\<close> refines \<open>observe\<close> through
    \<open>status_of\<close>; every returned state satisfies \<open>wf_State\<close>; the method fails exactly
    on the driver's error and with it; the result on each branch; the binary schema version
    is the registry's on every branch; two calls against a read-only driver agree; a done
    context yields the context's error with a driver that honours it; a well-formed state
    is determined by its status and binary version. The equation \<open>Manager_State_eq\<close>
    carries these proofs.
  \<^item> Pointers (\<open>State_Heap\<close>): \<open>State_ptr\<close> refines \<open>Manager_State\<close> (the struct
    behind the returned pointer is the value \<open>Manager_State\<close> returns); a call allocates
    one fresh struct and changes no struct allocated before, so results are never aliased.
  \<^item> Registry (\<open>Registry\<close>): the accessors return zero values for a dialect that is not
    registered and the registered values after \<open>register\<close>; a second registration is
    refused and changes nothing; a registration changes no other dialect's answers; answers
    are fixed once given, along any sequence of registrations (monotonicity of the table in
    the map order); \<open>register_all\<close> succeeds exactly on lists of distinct dialects and
    builds the table of the list; \<open>startup\<close> and \<open>register_all\<close> describe the same
    tables.
  \<^item> Driver (\<open>Driver\<close>): \<open>nilVersion\<close> is the integer \<open>- 1\<close> at every width; the
    reference driver satisfies both predicates of the contract. With a driver that may
    block, a call of the method with a context that is done still returns.
  \<^item> Loader (\<open>Loader\<close>): a compiled migration state is well formed; its binary schema
    version is the signed maximum of the versions; the registry loaded at startup is well
    formed, and then no state that the reconciler returns has the sentinel, or any negative
    number, as its binary schema version.
  \<^item> Across the components (this theory): over the reference driver \<^verbatim>\<open>Manager.State\<close>
    reads back the version row of the store, except for a row that records the sentinel
    itself, which reads as not initialised; a state returned after startup carries the
    registered binary version; an unregistered dialect gives binary version \<open>0\<close> and no
    failure; the calls of a sequence against read-only drivers are independent of each
    other, and so are the calls of two concurrent callers under every schedule, the
    schedules being exactly the interleavings (\<open>shuffles\<close>) of the two sequences.
  \<^item> Sequences of events (\<open>Process\<close>): the answers of the accessors for a registered dialect
    never change; without registrations all readers see the same binary schema version;
    replies do not depend on later events; a registration between two calls is seen by the
    second (the order that the convention of registering only at startup excludes and the
    code does not prevent); a call after a change of the database reports the change.
  \<^item> Preemption (\<open>Atomicity\<close>): a call that is preempted between its phases returns
    the binary schema version of the moment it began and the status of the moment it
    ends; with a registration in between this is a state that no call as one step returns
    (\<open>preempted_call_torn\<close>); without registrations the call is atomic, the same as
    one step at the moment of its second phase.
  \<^item> The parts together (\<open>System\<close>): the system refines the process, step by step and
    along every run, with the writes through pointers as steps that the process does not
    see; the pointers returned in a run are pairwise distinct and new; without writes every
    struct stays as it was returned, so a caller reads at any later time what it read
    when its call returned.
  \<^item> Reachable states (\<open>System_Invariant\<close>): the relation \<open>sys_trans\<close> is total,
    deterministic and the graph of \<open>sys_step\<close>, and \<open>sys_trace\<close> describes the runs of
    \<open>sys_run\<close>; every step keeps \<open>sys_inv\<close>, by induction over the rules, so in every
    state reached from the start the registry is well formed, every struct is a
    well-formed \<^verbatim>\<open>State\<close> with a binary schema version that is not negative, and every
    pointer returned points to a struct.
  \<^item> Plugin executable (\<open>Aead_Plugin\<close>): the exit status and the output in terms of the
    server's return, and that the process exits exactly if the server returns.
  \<^item> Asset file system (\<open>Kms_Assets\<close>): \<open>FileSystem\<close> never panics; what opening a
    name in its result opens; the result depends on the embedded content only beneath
    \<^verbatim>\<open>assets/windows_386\<close>; names with \<^verbatim>\<open>..\<close>, rooted names and the empty name are
    refused; errors name the caller's path; the loop of \<^verbatim>\<open>ValidPath\<close> agrees with the
    reference definition by elements; over an embedded file system, opening a name gives
    the embedded file of that name beneath \<^verbatim>\<open>assets/windows_386\<close>.
  \<^item> Embedding (\<open>Go_Embed\<close>): the program builds exactly if the directory holds a file
    that the directive embeds, and then \<open>content\<close> holds the directory, as
    \<open>content_embedded\<close> asks; the asset file system serves a file exactly if the package
    directory holds it beneath \<^verbatim>\<open>assets/windows_386\<close> and no element of its name begins
    with \<^verbatim>\<open>.\<close> or \<^verbatim>\<open>_\<close>; names with such an element are never served.

  \<^bold>\<open>Widths, bounds and termination.\<close> No theorem depends on the width of \<^verbatim>\<open>int\<close>: the
  statements hold for every \<open>'w::len\<close>, and the examples are evaluated at 64 bits. The
  only arithmetic on versions is the comparison with \<open>nilVersion\<close>, so nothing overflows.
  \<open>Manager_State\<close> and the accessors are not recursive. The two loops of the development,
  \<open>ValidString\<close> and \<open>ValidPath_elems\<close>, are total functions with termination proved by
  the length of the remaining string, so no fuel is used anywhere. The plugin server may
  serve forever: this is the result \<open>None\<close> of the server and of \<open>main\<close>, and the
  theorem on the exit of the process is an equivalence, not a partial-correctness statement.
  In the same way the call of a \<open>blocking_driver\<close> returns \<open>None\<close> when it blocks for
  good, and the theorem on \<open>State_call\<close> states that a result exists. Versions are
  compared by their signed values (\<open>sint\<close>), never by the order of words, which is
  unsigned.

  \<^bold>\<open>What is not modelled.\<close> Every declaration and statement of the three source files has
  its definition; what is left of them are package clauses, imports, comments and blank
  lines. The code that loads migration scripts and registers them, the execution of
  migrations, and the database drivers with their SQL are outside the sources; of the first
  the compilation of a dialect's scripts and the registration are modelled from the
  specification (reading the script files is not), of the second nothing, since the
  specification excludes it and the registry only stores its scripts, of the last the
  contract and a reference driver. The script bodies of a \<open>migrationState\<close> are opaque
  byte strings. A context is an optional reason for being done, not a tree of
  deadlines. Concurrent calls are interleaved sequences of events. A call is one event in
  theories \<open>Process\<close> and \<open>System\<close>, which theory \<open>Atomicity\<close> justifies for runs
  without registrations; a call of the driver is one step throughout, and the memory
  model of Go (a read of the map that races with a write is an error of the program) is
  not modelled. The heap of structs has no bound and nothing is
  collected: an allocation never fails and a struct stays where it is along a run. Of the
  libraries that \<^verbatim>\<open>main.go\<close> calls only the
  return of the server is kept; of \<^verbatim>\<open>embed\<close> and \<^verbatim>\<open>io/fs\<close> only the opening of names,
  not the reading of files. Of the directive \<^verbatim>\<open>go:embed\<close> only a pattern that names a
  directory is modelled, over a package directory of regular files whose names the Go tool
  accepts.
\<close>

section \<open>The registry, the reconciler and the reference driver together\<close>

definition row_status :: "(('w::len) go_int \<times> bool) option \<Rightarrow> 'w go_int schema_status" where
  "row_status row = (case row of None \<Rightarrow> NotInitialized | Some (v, d) \<Rightarrow> AtVersion v d)"

fun State_calls ::
  "('w::len) registry \<Rightarrow> (('c, 'db, 'w, 'e) Manager \<times> 'c) list \<Rightarrow> 'db \<Rightarrow>
    ('e, 'w State) result list \<times> 'db"
where
  "State_calls reg [] db = ([], db)"
| "State_calls reg ((b, ctx) # calls) db =
     (let (r, db') = Manager_State reg b ctx db;
          (rs, db'') = State_calls reg calls db'
      in (r # rs, db''))"

fun interleave :: "bool list \<Rightarrow> 'a list \<Rightarrow> 'a list \<Rightarrow> 'a list" where
  "interleave (True # sched) (x # xs) ys = x # interleave sched xs ys"
| "interleave (False # sched) xs (y # ys) = y # interleave sched xs ys"
| "interleave sched xs ys = xs @ ys"

section \<open>Lemmas\<close>


lemma set_interleave [simp]: "set (interleave sched xs ys) = set xs \<union> set ys"
  by (induction sched xs ys rule: interleave.induct) auto

lemma append_in_shuffles: "xs @ ys \<in> shuffles xs ys"
  by (induction xs) (simp_all add: Cons_in_shuffles_leftI)

lemma interleave_in_shuffles: "interleave sched xs ys \<in> shuffles xs ys"
proof (induction sched xs ys rule: interleave.induct)
  case (1 sched x xs ys)
  then show ?case by (simp add: Cons_in_shuffles_leftI)
next
  case (2 sched xs y ys)
  then show ?case by (simp add: Cons_in_shuffles_rightI)
qed (simp_all add: append_in_shuffles)

lemma shuffles_interleave:
  assumes "zs \<in> shuffles xs ys"
  shows "\<exists>sched. zs = interleave sched xs ys"
  using assms
proof (induction xs ys arbitrary: zs rule: shuffles.induct)
  case (1 ys)
  then show ?case by (auto intro: exI [of _ "[]"])
next
  case (2 xs)
  then show ?case by (auto intro: exI [of _ "[]"])
next
  case (3 x xs y ys)
  from "3.prems" consider zs' where "zs = x # zs'" "zs' \<in> shuffles xs (y # ys)"
    | zs' where "zs = y # zs'" "zs' \<in> shuffles (x # xs) ys"
    by auto
  then show ?case
  proof cases
    case 1
    with "3.IH"(1) obtain sched where "zs' = interleave sched xs (y # ys)" by blast
    with 1 have "zs = interleave (True # sched) (x # xs) (y # ys)" by simp
    then show ?thesis ..
  next
    case 2
    with "3.IH"(2) obtain sched where "zs' = interleave sched (x # xs) ys" by blast
    with 2 have "zs = interleave (False # sched) (x # xs) (y # ys)" by simp
    then show ?thesis ..
  qed
qed

lemma observe_encode_row:
  "observe (fst (encode_row row), snd (encode_row row), None) =
     (if (\<exists>d. row = Some (nilVersion, d)) then Inr NotInitialized else Inr (row_status row))"
  by (cases row) (auto simp: observe_def row_status_def)

lemma State_calls_Cons:
  "State_calls reg ((b, ctx) # calls) db =
     (fst (Manager_State reg b ctx db) # fst (State_calls reg calls (snd (driver b ctx db))),
      snd (State_calls reg calls (snd (driver b ctx db))))"
  by (simp add: split_beta)

section \<open>Properties that span the components\<close>

text \<open>
  C18 (roundtrip). Over the reference driver, \<^verbatim>\<open>Manager.State\<close> reads back what the
  store holds: no row reads as not initialised, and a row whose version is not the sentinel
  reads as that version with its dirty flag. The encoding of the optional row as an integer
  and its decoding by the sentinel test are inverse to each other on such rows.
\<close>

theorem store_roundtrip:
  assumes "available db" and "\<forall>d. version_row db \<noteq> Some (nilVersion, d)"
  shows "map_sum id status_of
      (fst (Manager_State reg \<lparr>dialect = name, driver = store_Version\<rparr> None db)) =
    Inr (row_status (version_row db))"
  using assms by (simp add: Manager_State_eq observe_encode_row)

theorem store_roundtrip_witness:
  "map_sum id status_of
      (fst (Manager_State Map.empty \<lparr>dialect = ''postgres'', driver = store_Version\<rparr> None
        \<lparr>available = True, version_row = Some (7 :: int64, True)\<rparr>)) =
    Inr (AtVersion 7 True)"
  using store_roundtrip [where db = "\<lparr>available = True, version_row = Some (7 :: int64, True)\<rparr>"
      and reg = Map.empty and name = "''postgres''"]
  by (simp add: row_status_def nilVersion_def)

text \<open>
  C19 (functional). The hypothesis of C18 cannot be dropped: a store whose row holds the
  sentinel as its version is reported as not initialised and not dirty, whatever its dirty
  flag. The sentinel must never be recorded as a version.
\<close>

theorem sentinel_row_collision:
  assumes "available db" and "version_row db = Some (nilVersion, d)"
  shows "fst (Manager_State reg \<lparr>dialect = name, driver = store_Version\<rparr> None db) =
    Inr \<lparr>InitializationStarted = False, Dirty = False, CurrentSchemaVersion = 0,
         BinarySchemaVersion = Registry.BinarySchemaVersion reg name\<rparr>"
  using assms by (simp add: Manager_State_eq observe_def state_of_def)

theorem sentinel_row_collision_witness:
  "fst (Manager_State Map.empty \<lparr>dialect = ''postgres'', driver = store_Version\<rparr> None
      \<lparr>available = True, version_row = Some (- 1 :: int64, True)\<rparr>) =
    Inr \<lparr>InitializationStarted = False, Dirty = False, CurrentSchemaVersion = 0,
         BinarySchemaVersion = 0\<rparr>"
  using sentinel_row_collision [where
      db = "\<lparr>available = True, version_row = Some (- 1 :: int64, True)\<rparr>"
      and reg = Map.empty and name = "''postgres''" and d = True]
  by (simp add: nilVersion_def)

text \<open>
  After a startup sequence that registers a state for a dialect, every
  state that \<^verbatim>\<open>Manager.State\<close> returns for a manager of that dialect carries the
  binary schema version of the registered state.
\<close>

theorem startup_then_State:
  assumes "register_all xs migrationStates = Inr reg" and "(dialect b, st) \<in> set xs"
    and "fst (Manager_State reg b ctx db) = Inr s"
  shows "BinarySchemaVersion s = binarySchemaVersion st"
proof -
  from assms(1) have "distinct (map fst xs)" and "reg = map_of xs"
    by (simp_all add: register_all_Inr_iff migrationStates_def map_of_rev_distinct)
  with assms(2) have "reg (dialect b) = Some st" by simp
  with assms(3) show ?thesis by (auto simp: Manager_State_Inr_iff)
qed

theorem startup_then_State_witness:
  "BinarySchemaVersion
     \<lparr>InitializationStarted = False, Dirty = False, CurrentSchemaVersion = 0 :: int64,
      BinarySchemaVersion = 42\<rparr> =
   binarySchemaVersion \<lparr>devMigration = True, binarySchemaVersion = 42 :: int64,
      upMigrations = Map.empty, downMigrations = Map.empty\<rparr>"
proof -
  have r: "register_all [(''postgres'', \<lparr>devMigration = True,
      binarySchemaVersion = 42 :: int64,
      upMigrations = Map.empty, downMigrations = Map.empty\<rparr>)] migrationStates =
    Inr [''postgres'' \<mapsto> \<lparr>devMigration = True, binarySchemaVersion = 42,
      upMigrations = Map.empty, downMigrations = Map.empty\<rparr>]"
    by (simp add: migrationStates_def)
  have s: "fst (Manager_State
      [''postgres'' \<mapsto> \<lparr>devMigration = True, binarySchemaVersion = 42 :: int64,
        upMigrations = Map.empty, downMigrations = Map.empty\<rparr>]
      \<lparr>dialect = ''postgres'', driver = store_Version\<rparr> None
      \<lparr>available = True, version_row = None\<rparr>) =
    Inr \<lparr>InitializationStarted = False, Dirty = False, CurrentSchemaVersion = 0,
         BinarySchemaVersion = 42\<rparr>"
    by (simp add: Manager_State_def)
  from startup_then_State [OF r _ s] show ?thesis by simp
qed

text \<open>
  C21 (invariant). Over a well-formed registry, as the loader builds it, the binary schema
  version of every state that \<^verbatim>\<open>Manager.State\<close> returns is not negative and so is never
  the sentinel; it is \<open>0\<close>, or it is one of the versions of the migration state registered
  for the manager's dialect.
\<close>

theorem State_binary_version_valid:
  assumes "wf_registry reg" and "fst (Manager_State reg b ctx db) = Inr s"
  shows "0 \<le> sint (BinarySchemaVersion s) \<and> BinarySchemaVersion s \<noteq> nilVersion \<and>
    (BinarySchemaVersion s = 0 \<or>
     (\<exists>st. reg (dialect b) = Some st \<and> BinarySchemaVersion s \<in> versions st))"
proof -
  from assms(2) have s: "BinarySchemaVersion s = binarySchemaVersion (go_index reg (dialect b))"
    by (auto simp: Manager_State_Inr_iff go_defs)
  from assms(1) have wf: "wf_migrationState (go_index reg (dialect b))"
    by (rule wf_registry_go_index)
  then have "0 \<le> sint (BinarySchemaVersion s)"
    by (simp add: s wf_migrationState_nonneg)
  moreover from this have "BinarySchemaVersion s \<noteq> nilVersion"
    by (rule nonneg_neq_nilVersion)
  moreover from wf have "BinarySchemaVersion s = 0 \<or>
      (\<exists>st. reg (dialect b) = Some st \<and> BinarySchemaVersion s \<in> versions st)"
    by (cases "reg (dialect b)") (auto simp: s wf_migrationState_def split: if_splits)
  ultimately show ?thesis by simp
qed

theorem State_binary_version_valid_witness:
  "BinarySchemaVersion
     \<lparr>InitializationStarted = False, Dirty = False, CurrentSchemaVersion = 0 :: int64,
      BinarySchemaVersion = 2006\<rparr> \<noteq> nilVersion"
proof -
  let ?reg = "[''postgres'' \<mapsto> compile False [(1 :: int64, [1], [2]), (2006, [3], [4])]]"
  have wf: "wf_registry ?reg"
    by (simp add: wf_registry_def compile_wf_aux nonneg_versions_def)
  have "fst (Manager_State ?reg \<lparr>dialect = ''postgres'', driver = store_Version\<rparr> None
      \<lparr>available = True, version_row = None\<rparr>) =
    Inr \<lparr>InitializationStarted = False, Dirty = False, CurrentSchemaVersion = 0,
         BinarySchemaVersion = 2006\<rparr>"
    by (simp add: Manager_State_def)
  from State_binary_version_valid [OF wf this] show ?thesis by simp
qed

text \<open>
  For a manager whose dialect is not registered, \<^verbatim>\<open>Manager.State\<close> does not fail on that
  account: every state it returns has binary schema version \<open>0\<close>.
\<close>

theorem State_unregistered_dialect:
  assumes "dialect b \<notin> dom reg" and "fst (Manager_State reg b ctx db) = Inr s"
  shows "BinarySchemaVersion s = 0"
  using assms by (auto simp: Manager_State_Inr_iff domIff)

theorem State_unregistered_dialect_witness:
  "BinarySchemaVersion
     \<lparr>InitializationStarted = True, Dirty = False, CurrentSchemaVersion = 7 :: int64,
      BinarySchemaVersion = 0\<rparr> = 0"
proof -
  have "fst (Manager_State
      [''postgres'' \<mapsto> \<lparr>devMigration = True, binarySchemaVersion = 42 :: int64,
        upMigrations = Map.empty, downMigrations = Map.empty\<rparr>]
      \<lparr>dialect = ''mysql'', driver = store_Version\<rparr> None
      \<lparr>available = True, version_row = Some (7, False)\<rparr>) =
    Inr \<lparr>InitializationStarted = True, Dirty = False, CurrentSchemaVersion = 7,
         BinarySchemaVersion = 0\<rparr>"
    by (simp add: Manager_State_def nilVersion_def)
  from State_unregistered_dialect [OF _ this] show ?thesis by simp
qed

text \<open>
  In a sequence of calls of \<^verbatim>\<open>Manager.State\<close> against drivers whose
  probes do not change the database, every call returns what it would return alone on the
  initial database, and the database is left unchanged: the calls of any number of managers
  are independent of each other and of their order.
\<close>

theorem State_calls_independent:
  assumes "\<forall>(b, ctx) \<in> set calls. read_only (driver b)"
  shows "State_calls reg calls db =
    (map (\<lambda>(b, ctx). fst (Manager_State reg b ctx db)) calls, db)"
  using assms
proof (induction calls)
  case Nil
  then show ?case by simp
next
  case (Cons call calls)
  obtain b ctx where call: "call = (b, ctx)" by (cases call)
  with Cons.prems have "snd (driver b ctx db) = db" by (simp add: read_onlyD)
  with Cons call show ?case by (simp add: State_calls_Cons del: State_calls.simps)
qed

theorem State_calls_independent_witness:
  "State_calls Map.empty
     [(\<lparr>dialect = ''postgres'', driver = store_Version\<rparr>, None),
      (\<lparr>dialect = ''mysql'', driver = store_Version\<rparr>, Some Canceled)]
     \<lparr>available = True, version_row = Some (7 :: int64, False)\<rparr> =
   ([Inr \<lparr>InitializationStarted = True, Dirty = False, CurrentSchemaVersion = 7,
          BinarySchemaVersion = 0\<rparr>,
     Inl (ContextDone Canceled)],
    \<lparr>available = True, version_row = Some (7, False)\<rparr>)"
  using State_calls_independent [where reg = Map.empty
      and db = "\<lparr>available = True, version_row = Some (7 :: int64, False)\<rparr>"
      and calls = "[(\<lparr>dialect = ''postgres'', driver = store_Version\<rparr>, None),
        (\<lparr>dialect = ''mysql'', driver = store_Version\<rparr>, Some Canceled)]"]
  by (simp add: Manager_State_eq observe_encode_row observe_def row_status_def state_of_def
      nilVersion_def)



end
